theory Spec2Isabelle
  imports Main "HOL-Library.Char_ord" "HOL-Library.List_Lexorder"
begin

section \<open>Python values used by the converter\<close>

text \<open>
  A Python \<^verbatim>\<open>str\<close> is a \<^typ>\<open>string\<close>: one \<^typ>\<open>char\<close> stands for one character
  of the Python string, so that \<^verbatim>\<open>len\<close> is \<^const>\<open>length\<close>.
  \<open>join\<close> is \<^verbatim>\<open>sep.join(xs)\<close>.
\<close>

fun join :: "string \<Rightarrow> string list \<Rightarrow> string" where
  "join sep [] = []"
| "join sep [x] = x"
| "join sep (x # y # ys) = x @ sep @ join sep (y # ys)"

text \<open>
  \<^verbatim>\<open>str(n)\<close> of Python on an \<^verbatim>\<open>int\<close>: the decimal digits, with a minus sign
  for a negative number.
\<close>

definition digit_char :: "nat \<Rightarrow> char" where
  "digit_char d = ''0123456789'' ! (d mod 10)"

fun str_nat :: "nat \<Rightarrow> string" where
  "str_nat n = (if n < 10 then [digit_char n] else str_nat (n div 10) @ [digit_char (n mod 10)])"

declare str_nat.simps [simp del]

definition str_int :: "int \<Rightarrow> string" where
  "str_int i = (if i < 0 then CHR ''-'' # str_nat (nat (- i)) else str_nat (nat i))"

text \<open>
  A Python \<^verbatim>\<open>set\<close> of strings is a finite \<^typ>\<open>string set\<close>. Iterating over a set
  visits every element once, in an order the language does not fix: each function that
  iterates takes the order as a parameter \<open>iter\<close>, and \<open>enumerates iter\<close> says that it is
  an iteration order.
\<close>

type_synonym set_order = "string set \<Rightarrow> string list"

definition enumerates :: "set_order \<Rightarrow> bool" where
  "enumerates iter \<longleftrightarrow> (\<forall>S. finite S \<longrightarrow> set (iter S) = S \<and> distinct (iter S))"

typedecl datetime

text \<open>
  The values that meet where identifiers are compared: a string, an integer or
  \<^verbatim>\<open>None\<close>. The identifier of a row, \<^verbatim>\<open>id: int | None\<close> in the schemas and
  assigned by the store in the tests, is an integer or \<^verbatim>\<open>None\<close>; the identifiers a
  canonical dataset gives for its relations are strings.
\<close>

datatype py_value = PyStr string | is_PyInt: PyInt int | PyNone

definition py_id :: "int option \<Rightarrow> py_value" where
  "py_id i = (case i of None \<Rightarrow> PyNone | Some n \<Rightarrow> PyInt n)"

text \<open>
  \<open>str_value v\<close> is the string that \<open>v\<close> is equal to in Python, if any: a string is
  equal to itself, and no integer and no \<^verbatim>\<open>None\<close> is equal to a string.
\<close>

fun str_value :: "py_value \<Rightarrow> string option" where
  "str_value (PyStr s) = Some s"
| "str_value (PyInt i) = None"
| "str_value PyNone = None"

text \<open>
  The condition \<^verbatim>\<open>cls.id.in_(ids)\<close> is evaluated by the store, not by Python, with
  the identifiers bound as text. \<open>found_under read v i\<close> says that the store finds a row
  whose identifier is \<open>v\<close> under the text \<open>i\<close>: a text identifier under itself, an
  integer identifier under every text that the store reads as that integer, and
  \<^verbatim>\<open>None\<close> under no text. How the store reads a text as an integer is the
  parameter \<open>read\<close>; it is a property of the engine behind the session (SQLite reads
  \<^verbatim>\<open>'1'\<close>, \<^verbatim>\<open>'01'\<close> and \<^verbatim>\<open>'+1'\<close> all as 1, and no integer in
  \<^verbatim>\<open>'a'\<close>).
\<close>

fun found_under :: "(string \<Rightarrow> int option) \<Rightarrow> py_value \<Rightarrow> string \<Rightarrow> bool" where
  "found_under read (PyStr t) i = (t = i)"
| "found_under read (PyInt n) i = (read i = Some n)"
| "found_under read PyNone i = False"

section \<open>The schemas of \<^verbatim>\<open>schemas.py\<close>\<close>

record AIoDDistribution =
  content_url :: string
  content_size_kb :: "int option"
  description :: "string option"
  name :: "string option"
  encoding_format :: "string option"

record AIoDMeasurementValue =
  variable :: "string option"
  technique :: "string option"

record AIoDPublication =
  id :: "int option"
  title :: "string option"
  url :: "string option"

text \<open>
  \<^verbatim>\<open>citations: Set[str] | List[AIoDPublication]\<close>: the two shapes of the field.
  \<^verbatim>\<open>isinstance(aiod.citations, List)\<close> is the test for the second constructor.
\<close>

datatype citations_field = CitationIds "string set" | CitationRecords "AIoDPublication list"

record AIoDDataset =
  id :: "int option"
  description :: string
  name :: string
  node :: string
  node_specific_identifier :: string
  same_as :: string
  creator :: "string option"
  date_modified :: "datetime option"
  date_published :: "datetime option"
  funder :: "string option"
  is_accessible_for_free :: "bool option"
  issn :: "string option"
  size :: "int option"
  spatial_coverage :: "string option"
  temporal_coverage_from :: "datetime option"
  temporal_coverage_to :: "datetime option"
  version :: "string option"
  license :: "string option"
  has_parts :: "string set"
  is_part :: "string set"
  alternate_names :: "string set"
  citations :: citations_field
  distributions :: "AIoDDistribution list"
  "keywords" :: "string set"
  measured_values :: "AIoDMeasurementValue list"

section \<open>Validation of the schemas\<close>

text \<open>
  The classes of \<^verbatim>\<open>schemas.py\<close> are pydantic models: constructing one, from the body
  of a request or from keyword arguments, validates every field against its annotation
  and its \<^verbatim>\<open>Field\<close> constraints, collects the errors of all fields in the order the
  fields are declared, and raises them together; there is no record when there is an
  error. An error has the path of the field (\<^verbatim>\<open>loc\<close>), a message, a type and, for a
  length constraint, the limit (\<^verbatim>\<open>ctx.limit_value\<close>).
\<close>

datatype loc_item = Field string | Index nat

datatype ErrorDict =
  ErrorDict (loc: "loc_item list") (msg: string) (error_type: string) (limit_value: "nat option")

type_synonym 'a validated = "ErrorDict list + 'a"

definition max_length_error :: "loc_item list \<Rightarrow> nat \<Rightarrow> ErrorDict" where
  "max_length_error l n =
     ErrorDict l (''ensure this value has at most '' @ str_nat n @ '' characters'')
       ''value_error.any_str.max_length'' (Some n)"

definition min_length_error :: "loc_item list \<Rightarrow> nat \<Rightarrow> ErrorDict" where
  "min_length_error l n =
     ErrorDict l (''ensure this value has at least '' @ str_nat n @ '' characters'')
       ''value_error.any_str.min_length'' (Some n)"

definition missing_error :: "loc_item list \<Rightarrow> ErrorDict" where
  "missing_error l = ErrorDict l ''field required'' ''value_error.missing'' None"

definition none_error :: "loc_item list \<Rightarrow> ErrorDict" where
  "none_error l = ErrorDict l ''none is not an allowed value'' ''type_error.none.not_allowed'' None"

definition str_error :: "loc_item list \<Rightarrow> ErrorDict" where
  "str_error l = ErrorDict l ''str type expected'' ''type_error.str'' None"

definition dict_error :: "loc_item list \<Rightarrow> ErrorDict" where
  "dict_error l = ErrorDict l ''value is not a valid dict'' ''type_error.dict'' None"

text \<open>
  The length check of a constrained string: \<^verbatim>\<open>min_length\<close> first, then
  \<^verbatim>\<open>max_length\<close>; \<^verbatim>\<open>len\<close> counts the characters of the string.
\<close>

definition max_length_check :: "nat option \<Rightarrow> loc_item list \<Rightarrow> string \<Rightarrow> string validated" where
  "max_length_check max_length l v =
     (case max_length of
        None \<Rightarrow> Inr v
      | Some n \<Rightarrow> if length v > n then Inl [max_length_error l n] else Inr v)"

definition constr :: "nat option \<Rightarrow> nat option \<Rightarrow> loc_item list \<Rightarrow> string \<Rightarrow> string validated" where
  "constr min_length max_length l v =
     (case min_length of
        None \<Rightarrow> max_length_check max_length l v
      | Some n \<Rightarrow>
          if length v < n then Inl [min_length_error l n] else max_length_check max_length l v)"

text \<open>A required field (\<open>None\<close>: the input does not have it) and an optional one.\<close>

definition required :: "(loc_item list \<Rightarrow> 'a \<Rightarrow> 'b validated) \<Rightarrow> loc_item list \<Rightarrow> 'a option \<Rightarrow> 'b validated" where
  "required v l x = (case x of None \<Rightarrow> Inl [missing_error l] | Some y \<Rightarrow> v l y)"

definition optional :: "(loc_item list \<Rightarrow> 'a \<Rightarrow> 'b validated) \<Rightarrow> loc_item list \<Rightarrow> 'a option \<Rightarrow> 'b option validated" where
  "optional v l x = (case x of None \<Rightarrow> Inr None | Some y \<Rightarrow> map_sum (\<lambda>e. e) Some (v l y))"

text \<open>Two fields of one model: the errors of both, or both values.\<close>

fun both :: "'a validated \<Rightarrow> 'b validated \<Rightarrow> ('a \<times> 'b) validated" where
  "both (Inr a) (Inr b) = Inr (a, b)"
| "both (Inl e) (Inr b) = Inl e"
| "both (Inr a) (Inl e) = Inl e"
| "both (Inl e) (Inl e') = Inl (e @ e')"

text \<open>
  The elements of a list field, each at the path of the list followed by its index.
\<close>

fun validate_each ::
  "(loc_item list \<Rightarrow> 'a \<Rightarrow> 'b validated) \<Rightarrow> loc_item list \<Rightarrow> nat \<Rightarrow> 'a list \<Rightarrow> 'b list validated" where
  "validate_each v l i [] = Inr []"
| "validate_each v l i (x # xs) =
     map_sum (\<lambda>e. e) (\<lambda>(y, ys). y # ys) (both (v (l @ [Index i]) x) (validate_each v l (Suc i) xs))"

text \<open>
  The validator of \<^verbatim>\<open>str\<close>, for an element of a \<^verbatim>\<open>Set[str]\<close> field: it keeps a
  string, turns an integer into its decimal string and refuses \<^verbatim>\<open>None\<close>.
\<close>

fun str_validator :: "loc_item list \<Rightarrow> py_value \<Rightarrow> string validated" where
  "str_validator l (PyStr s) = Inr s"
| "str_validator l (PyInt i) = Inr (str_int i)"
| "str_validator l PyNone = Inl [none_error l]"

definition set_str_validator :: "loc_item list \<Rightarrow> py_value list \<Rightarrow> string set validated" where
  "set_str_validator l xs = map_sum (\<lambda>e. e) set (validate_each str_validator l 0 xs)"

record AIoDDistribution_input =
  content_url :: "string option"
  content_size_kb :: "int option"
  description :: "string option"
  name :: "string option"
  encoding_format :: "string option"

definition AIoDDistribution_init ::
  "loc_item list \<Rightarrow> AIoDDistribution_input \<Rightarrow> AIoDDistribution validated" where
  "AIoDDistribution_init l d =
     map_sum (\<lambda>e. e)
       (\<lambda>(content_url', description', name', encoding_format').
          \<lparr>AIoDDistribution.content_url = content_url',
           AIoDDistribution.content_size_kb = AIoDDistribution_input.content_size_kb d,
           AIoDDistribution.description = description',
           AIoDDistribution.name = name',
           AIoDDistribution.encoding_format = encoding_format'\<rparr>)
       (both (required (constr None (Some 150)) (l @ [Field ''content_url''])
                (AIoDDistribution_input.content_url d))
       (both (optional (constr None (Some 5000)) (l @ [Field ''description''])
                (AIoDDistribution_input.description d))
       (both (optional (constr None (Some 150)) (l @ [Field ''name''])
                (AIoDDistribution_input.name d))
             (optional (constr None (Some 150)) (l @ [Field ''encoding_format''])
                (AIoDDistribution_input.encoding_format d)))))"

definition AIoDPublication_init :: "loc_item list \<Rightarrow> AIoDPublication \<Rightarrow> AIoDPublication validated" where
  "AIoDPublication_init l p =
     map_sum (\<lambda>e. e)
       (\<lambda>(title', url').
          \<lparr>AIoDPublication.id = AIoDPublication.id p, AIoDPublication.title = title',
           AIoDPublication.url = url'\<rparr>)
       (both (optional (constr None (Some 250)) (l @ [Field ''title'']) (AIoDPublication.title p))
             (optional (constr None (Some 250)) (l @ [Field ''url'']) (AIoDPublication.url p)))"

text \<open>
  The value given for \<^verbatim>\<open>citations\<close>: a list of identifiers or a list of publication
  records. The annotation is the union \<^verbatim>\<open>Set[str] | List[AIoDPublication]\<close>: the first
  member that accepts the value gives the result, and when none does the errors of both
  are raised. The empty list is accepted by the first member.
\<close>

datatype citations_input = CitationIdList "py_value list" | CitationRecordList "AIoDPublication list"

definition errors_at :: "(loc_item list \<Rightarrow> ErrorDict) \<Rightarrow> loc_item list \<Rightarrow> nat \<Rightarrow> ErrorDict list" where
  "errors_at err l n = map (\<lambda>i. err (l @ [Index i])) [0..<n]"

text \<open>
  The errors of the second member of the union for a list of identifiers: no element is
  a publication record, and \<^verbatim>\<open>None\<close> is refused as \<^verbatim>\<open>None\<close>.
\<close>

fun record_errors :: "loc_item list \<Rightarrow> nat \<Rightarrow> py_value list \<Rightarrow> ErrorDict list" where
  "record_errors l i [] = []"
| "record_errors l i (x # xs) =
     (if x = PyNone then none_error (l @ [Index i]) else dict_error (l @ [Index i]))
       # record_errors l (Suc i) xs"

definition citations_validator :: "loc_item list \<Rightarrow> citations_input \<Rightarrow> citations_field validated" where
  "citations_validator l c =
     (case c of
        CitationIdList xs \<Rightarrow>
          (case set_str_validator l xs of
             Inr ids \<Rightarrow> Inr (CitationIds ids)
           | Inl e \<Rightarrow> Inl (e @ record_errors l 0 xs))
      | CitationRecordList ps \<Rightarrow>
          (if ps = [] then Inr (CitationIds {})
           else case validate_each AIoDPublication_init l 0 ps of
                  Inr ps' \<Rightarrow> Inr (CitationRecords ps')
                | Inl e \<Rightarrow> Inl (errors_at str_error l (length ps) @ e)))"

text \<open>
  The values given for the fields of \<^verbatim>\<open>AIoDDataset\<close>. A field that is a set in the
  schema is given as a list (a JSON array, or the list a comprehension builds).
\<close>

record AIoDDataset_input =
  id :: "int option"
  description :: "string option"
  name :: "string option"
  node :: "string option"
  node_specific_identifier :: "string option"
  same_as :: "string option"
  creator :: "string option"
  date_modified :: "datetime option"
  date_published :: "datetime option"
  funder :: "string option"
  is_accessible_for_free :: "bool option"
  issn :: "string option"
  size :: "int option"
  spatial_coverage :: "string option"
  temporal_coverage_from :: "datetime option"
  temporal_coverage_to :: "datetime option"
  version :: "string option"
  license :: "string option"
  has_parts :: "py_value list"
  is_part :: "py_value list"
  alternate_names :: "py_value list"
  citations :: citations_input
  distributions :: "AIoDDistribution_input list"
  "keywords" :: "py_value list"
  measured_values :: "AIoDMeasurementValue list"

definition AIoDDataset_init :: "AIoDDataset_input \<Rightarrow> AIoDDataset validated" where
  "AIoDDataset_init raw =
     map_sum (\<lambda>e. e)
       (\<lambda>(description', name', node', node_specific_identifier', same_as', creator', issn',
           spatial_coverage', version', license', has_parts', is_part', alternate_names',
           citations', distributions', keywords').
          \<lparr>AIoDDataset.id = AIoDDataset_input.id raw,
           AIoDDataset.description = description',
           AIoDDataset.name = name',
           AIoDDataset.node = node',
           AIoDDataset.node_specific_identifier = node_specific_identifier',
           AIoDDataset.same_as = same_as',
           AIoDDataset.creator = creator',
           AIoDDataset.date_modified = AIoDDataset_input.date_modified raw,
           AIoDDataset.date_published = AIoDDataset_input.date_published raw,
           AIoDDataset.funder = AIoDDataset_input.funder raw,
           AIoDDataset.is_accessible_for_free = AIoDDataset_input.is_accessible_for_free raw,
           AIoDDataset.issn = issn',
           AIoDDataset.size = AIoDDataset_input.size raw,
           AIoDDataset.spatial_coverage = spatial_coverage',
           AIoDDataset.temporal_coverage_from = AIoDDataset_input.temporal_coverage_from raw,
           AIoDDataset.temporal_coverage_to = AIoDDataset_input.temporal_coverage_to raw,
           AIoDDataset.version = version',
           AIoDDataset.license = license',
           AIoDDataset.has_parts = has_parts',
           AIoDDataset.is_part = is_part',
           AIoDDataset.alternate_names = alternate_names',
           AIoDDataset.citations = citations',
           AIoDDataset.distributions = distributions',
           AIoDDataset.keywords = keywords',
           AIoDDataset.measured_values = AIoDDataset_input.measured_values raw\<rparr>)
       (both (required (constr None (Some 5000)) [Field ''description'']
                (AIoDDataset_input.description raw))
       (both (required (constr None (Some 150)) [Field ''name''] (AIoDDataset_input.name raw))
       (both (required (constr None (Some 30)) [Field ''node''] (AIoDDataset_input.node raw))
       (both (required (constr None (Some 250)) [Field ''node_specific_identifier'']
                (AIoDDataset_input.node_specific_identifier raw))
       (both (required (constr None (Some 150)) [Field ''same_as''] (AIoDDataset_input.same_as raw))
       (both (optional (constr None (Some 150)) [Field ''creator''] (AIoDDataset_input.creator raw))
       (both (optional (constr (Some 8) (Some 8)) [Field ''issn''] (AIoDDataset_input.issn raw))
       (both (optional (constr None (Some 500)) [Field ''spatial_coverage'']
                (AIoDDataset_input.spatial_coverage raw))
       (both (optional (constr None (Some 150)) [Field ''version''] (AIoDDataset_input.version raw))
       (both (optional (constr None (Some 150)) [Field ''license''] (AIoDDataset_input.license raw))
       (both (set_str_validator [Field ''has_parts''] (AIoDDataset_input.has_parts raw))
       (both (set_str_validator [Field ''is_part''] (AIoDDataset_input.is_part raw))
       (both (set_str_validator [Field ''alternate_names''] (AIoDDataset_input.alternate_names raw))
       (both (citations_validator [Field ''citations''] (AIoDDataset_input.citations raw))
       (both (validate_each AIoDDistribution_init [Field ''distributions''] 0
                (AIoDDataset_input.distributions raw))
             (set_str_validator [Field ''keywords''] (AIoDDataset_input.keywords raw)))))))))))))))))"

text \<open>
  The constraints of the fields of a distribution and of a dataset, as predicates on the
  validated records; \<open>errors_of\<close> reads the errors a validation raises.
\<close>

definition errors_of :: "'a validated \<Rightarrow> ErrorDict list" where
  "errors_of r = (case r of Inl e \<Rightarrow> e | Inr a \<Rightarrow> [])"

definition opt_max :: "nat \<Rightarrow> string option \<Rightarrow> bool" where
  "opt_max n x = (case x of None \<Rightarrow> True | Some s \<Rightarrow> length s \<le> n)"

definition AIoDDistribution_constraints :: "AIoDDistribution \<Rightarrow> bool" where
  "AIoDDistribution_constraints d \<longleftrightarrow>
     length (AIoDDistribution.content_url d) \<le> 150
     \<and> opt_max 5000 (AIoDDistribution.description d)
     \<and> opt_max 150 (AIoDDistribution.name d)
     \<and> opt_max 150 (AIoDDistribution.encoding_format d)"

definition AIoDDataset_constraints :: "AIoDDataset \<Rightarrow> bool" where
  "AIoDDataset_constraints a \<longleftrightarrow>
     length (AIoDDataset.description a) \<le> 5000
     \<and> length (AIoDDataset.name a) \<le> 150
     \<and> length (AIoDDataset.node a) \<le> 30
     \<and> length (AIoDDataset.node_specific_identifier a) \<le> 250
     \<and> length (AIoDDataset.same_as a) \<le> 150
     \<and> opt_max 150 (AIoDDataset.creator a)
     \<and> (case AIoDDataset.issn a of None \<Rightarrow> True | Some s \<Rightarrow> length s = 8)
     \<and> opt_max 500 (AIoDDataset.spatial_coverage a)
     \<and> opt_max 150 (AIoDDataset.version a)
     \<and> opt_max 150 (AIoDDataset.license a)
     \<and> list_all AIoDDistribution_constraints (AIoDDataset.distributions a)"

section \<open>The rows of the relational store\<close>

text \<open>
  The classes of \<^verbatim>\<open>database.model\<close> are imported by the converter; their fields are
  the keyword arguments the converter passes to their constructors and the attributes it
  reads. The converter reads nothing of a publication but its identifier; its title and
  its url are those of the schema.
\<close>

record OrmDataDownload =
  content_url :: string
  content_size_kb :: "int option"
  description :: "string option"
  name :: "string option"
  encoding_format :: "string option"

record OrmPublication =
  id :: "int option"
  title :: "string option"
  url :: "string option"

text \<open>
  Modelled from the spec: the classes of the shared lookup entities (license, keyword,
  alternate name, measured value) are not under src/. A row has its natural key, which
  the converter passes and reads, and a row id of its own (the spec renders a license
  by its name, not its row id), which the store gives the row when it is created and the
  converter never reads. Two rows are the same row when they agree on both.
\<close>

record OrmLicense =
  id :: int
  name :: string

record OrmKeyword =
  id :: int
  name :: string

record OrmAlternateName =
  id :: int
  name :: string

record OrmMeasuredValue =
  id :: int
  variable :: "string option"
  technique :: "string option"

text \<open>
  The columns of a dataset row. A related dataset (an element of \<^verbatim>\<open>has_parts\<close> or
  \<^verbatim>\<open>is_part\<close>) is held as its columns: the converter reads nothing of it but
  \<^verbatim>\<open>part.id\<close>.
\<close>

record OrmDataset_columns =
  id :: "int option"
  description :: string
  name :: string
  node :: string
  node_specific_identifier :: string
  same_as :: string
  creator :: "string option"
  date_modified :: "datetime option"
  date_published :: "datetime option"
  funder :: "string option"
  is_accessible_for_free :: "bool option"
  issn :: "string option"
  size :: "int option"
  spatial_coverage :: "string option"
  temporal_coverage_from :: "datetime option"
  temporal_coverage_to :: "datetime option"
  version :: "string option"

record OrmDataset = OrmDataset_columns +
  license :: "OrmLicense option"
  has_parts :: "OrmDataset_columns list"
  is_part :: "OrmDataset_columns list"
  alternate_names :: "OrmAlternateName list"
  citations :: "OrmPublication list"
  distributions :: "OrmDataDownload list"
  "keywords" :: "OrmKeyword list"
  measured_values :: "OrmMeasuredValue list"

text \<open>
  The session: one list of rows per table, the log of the batch lookups
  (\<^verbatim>\<open>session.scalars(select(cls).where(cls.id.in_(ids)))\<close>) issued so far, each with the
  name of the class and the identifiers asked for, and the way the engine behind the
  session reads a text as an integer when it compares the text with an integer column.
\<close>

record session =
  dataset_table :: "OrmDataset_columns list"
  publication_table :: "OrmPublication list"
  license_table :: "OrmLicense list"
  keyword_table :: "OrmKeyword list"
  alternate_name_table :: "OrmAlternateName list"
  measured_value_table :: "OrmMeasuredValue list"
  lookups :: "(string \<times> string set) list"
  integer_of_text :: "string \<Rightarrow> int option"

text \<open>
  What \<^verbatim>\<open>_retrieve_related_objects_by_ids\<close> uses of its argument
  \<^verbatim>\<open>cls: Type[T]\<close>: the name of the class, the table \<^verbatim>\<open>select(cls)\<close> reads, and the
  attribute \<^verbatim>\<open>id\<close> of a row.
\<close>

record 'r orm_class =
  cls_name :: string
  table_of :: "session \<Rightarrow> 'r list"
  id_attr :: "'r \<Rightarrow> py_value"

text \<open>\<^verbatim>\<open>str(i)\<close> for the identifier of a row, when it has one.\<close>

definition id_str :: "int option \<Rightarrow> string option" where
  "id_str i = map_option str_int i"

definition OrmDataset_cls :: "OrmDataset_columns orm_class" where
  "OrmDataset_cls =
     \<lparr>cls_name = ''OrmDataset'', table_of = dataset_table,
      id_attr = (\<lambda>r. py_id (OrmDataset_columns.id r))\<rparr>"

definition OrmPublication_cls :: "OrmPublication orm_class" where
  "OrmPublication_cls =
     \<lparr>cls_name = ''OrmPublication'', table_of = publication_table,
      id_attr = (\<lambda>r. py_id (OrmPublication.id r))\<rparr>"

text \<open>
  A table has an integer primary key when every row has an integer identifier and no two
  rows share one. An identifier is present in a table when the store finds a row of the
  table under it.
\<close>

definition primary_key :: "'r orm_class \<Rightarrow> session \<Rightarrow> bool" where
  "primary_key cls s \<longleftrightarrow>
     distinct (map (id_attr cls) (table_of cls s))
     \<and> list_all (\<lambda>c. is_PyInt (id_attr cls c)) (table_of cls s)"

definition present :: "'r orm_class \<Rightarrow> session \<Rightarrow> string \<Rightarrow> bool" where
  "present cls s i =
     list_ex (\<lambda>c. found_under (integer_of_text s) (id_attr cls c) i) (table_of cls s)"

text \<open>The integer identifier that the store of the session reads in a text.\<close>

definition read_as :: "session \<Rightarrow> string \<Rightarrow> py_value option" where
  "read_as s i = map_option PyInt (integer_of_text s i)"

section \<open>\<^verbatim>\<open>converters/dataset_converter.py\<close>: the batch relation resolution\<close>

datatype HTTPException = HTTPException (status_code: nat) (detail: string)

text \<open>The character \<^verbatim>\<open>'\<close> of the message's f-string.\<close>

definition apostrophe :: string where
  "apostrophe = [CHR 0x27]"

text \<open>
  \<^verbatim>\<open>cls.id.in_(ids)\<close>, as the store of the session evaluates it on the row \<open>c\<close>.
\<close>

definition id_in :: "session \<Rightarrow> 'r orm_class \<Rightarrow> string set \<Rightarrow> 'r \<Rightarrow> bool" where
  "id_in session cls ids c \<longleftrightarrow>
     (\<exists>i\<in>ids. found_under (integer_of_text session) (id_attr cls c) i)"

text \<open>
  \<^verbatim>\<open>_retrieve_related_objects_by_ids\<close>. The query selects the rows the store finds under
  one of the identifiers; the set difference of the error branch is Python's, between
  the strings asked for and the values of the attribute \<^verbatim>\<open>id\<close> of the rows found.
\<close>

definition retrieve_related_objects_by_ids ::
  "set_order \<Rightarrow> session \<Rightarrow> string set \<Rightarrow> 'r orm_class \<Rightarrow> (HTTPException + 'r list) \<times> session" where
  "retrieve_related_objects_by_ids iter session ids cls =
     (if card ids > 0 then
        let session' = session\<lparr>lookups := lookups session @ [(cls_name cls, ids)]\<rparr>;
            related_objects = filter (id_in session cls ids) (table_of cls session)
        in if length related_objects \<noteq> card ids then
             let ids_not_found =
                   ids - set (List.map_filter str_value (map (id_attr cls) related_objects))
             in (Inl (HTTPException 404
                   (''Dataset parts '' @ apostrophe @ join '', '' (iter ids_not_found)
                      @ apostrophe @ '' not found in the database.'')),
                 session')
           else (Inr related_objects, session')
      else (Inr [], session))"

section \<open>The shared lookup entities\<close>

text \<open>
  Modelled from the spec: the get-or-create \<^verbatim>\<open>as_unique\<close> of the classes of
  \<^verbatim>\<open>database.model\<close> is not under src/. Given a natural key, it returns the existing
  row with that key if present, otherwise creates one and returns it. \<open>key_of\<close> reads the
  natural key of a row, \<open>row_id\<close> its row id, and \<open>new_row\<close> builds the row of a row id
  and a key; a row that is created gets the row id \<open>fresh_id\<close> of the row ids of the
  table, which is none of them.
\<close>

definition fresh_id :: "int list \<Rightarrow> int" where
  "fresh_id ids = 1 + fold max ids 0"

definition as_unique ::
  "('r \<Rightarrow> 'k) \<Rightarrow> ('r \<Rightarrow> int) \<Rightarrow> (int \<Rightarrow> 'k \<Rightarrow> 'r) \<Rightarrow> 'r list \<Rightarrow> 'k \<Rightarrow> 'r \<times> 'r list" where
  "as_unique key_of row_id new_row rows k =
     (case find (\<lambda>r. key_of r = k) rows of
        Some r \<Rightarrow> (r, rows)
      | None \<Rightarrow> (new_row (fresh_id (map row_id rows)) k,
                 rows @ [new_row (fresh_id (map row_id rows)) k]))"

definition OrmLicense_as_unique :: "session \<Rightarrow> string \<Rightarrow> OrmLicense \<times> session" where
  "OrmLicense_as_unique session n =
     (let (row, rows) =
            as_unique OrmLicense.name OrmLicense.id
              (\<lambda>i k. \<lparr>OrmLicense.id = i, OrmLicense.name = k\<rparr>) (license_table session) n
      in (row, session\<lparr>license_table := rows\<rparr>))"

definition OrmAlternateName_as_unique :: "session \<Rightarrow> string \<Rightarrow> OrmAlternateName \<times> session" where
  "OrmAlternateName_as_unique session n =
     (let (row, rows) =
            as_unique OrmAlternateName.name OrmAlternateName.id
              (\<lambda>i k. \<lparr>OrmAlternateName.id = i, OrmAlternateName.name = k\<rparr>)
              (alternate_name_table session) n
      in (row, session\<lparr>alternate_name_table := rows\<rparr>))"

definition OrmKeyword_as_unique :: "session \<Rightarrow> string \<Rightarrow> OrmKeyword \<times> session" where
  "OrmKeyword_as_unique session n =
     (let (row, rows) =
            as_unique OrmKeyword.name OrmKeyword.id
              (\<lambda>i k. \<lparr>OrmKeyword.id = i, OrmKeyword.name = k\<rparr>) (keyword_table session) n
      in (row, session\<lparr>keyword_table := rows\<rparr>))"

definition measured_value_key :: "OrmMeasuredValue \<Rightarrow> string option \<times> string option" where
  "measured_value_key r = (OrmMeasuredValue.variable r, OrmMeasuredValue.technique r)"

definition OrmMeasuredValue_as_unique ::
  "session \<Rightarrow> string option \<Rightarrow> string option \<Rightarrow> OrmMeasuredValue \<times> session" where
  "OrmMeasuredValue_as_unique session v t =
     (let (row, rows) =
            as_unique measured_value_key OrmMeasuredValue.id
              (\<lambda>i k. \<lparr>OrmMeasuredValue.id = i, OrmMeasuredValue.variable = fst k,
                       OrmMeasuredValue.technique = snd k\<rparr>)
              (measured_value_table session) (v, t)
      in (row, session\<lparr>measured_value_table := rows\<rparr>))"

text \<open>
  A list comprehension \<^verbatim>\<open>[C.as_unique(session=session, ...) for x in xs]\<close>: the
  elements are resolved from left to right, each in the session the one before left.
\<close>

fun as_unique_each :: "(session \<Rightarrow> 'k \<Rightarrow> 'r \<times> session) \<Rightarrow> session \<Rightarrow> 'k list \<Rightarrow> 'r list \<times> session" where
  "as_unique_each f session [] = ([], session)"
| "as_unique_each f session (k # ks) =
     (let (row, session') = f session k;
          (rows, session'') = as_unique_each f session' ks
      in (row # rows, session''))"

section \<open>\<^verbatim>\<open>converters/dataset_converter.py\<close>: the two conversions\<close>

definition distribution_to_orm :: "AIoDDistribution \<Rightarrow> OrmDataDownload" where
  "distribution_to_orm orm_distr =
     \<lparr>OrmDataDownload.content_url = AIoDDistribution.content_url orm_distr,
      OrmDataDownload.content_size_kb = AIoDDistribution.content_size_kb orm_distr,
      OrmDataDownload.description = AIoDDistribution.description orm_distr,
      OrmDataDownload.name = AIoDDistribution.name orm_distr,
      OrmDataDownload.encoding_format = AIoDDistribution.encoding_format orm_distr\<rparr>"

text \<open>
  The part of \<^verbatim>\<open>aiod_to_orm\<close> after the three relation resolutions: the constructor
  call \<^verbatim>\<open>OrmDataset(...)\<close>, whose arguments are evaluated in the order they are
  written, and the assignment \<^verbatim>\<open>orm.id = aiod.id\<close>.
\<close>

definition build_orm ::
  "set_order \<Rightarrow> session \<Rightarrow> AIoDDataset \<Rightarrow> OrmPublication list \<Rightarrow> OrmDataset_columns list
     \<Rightarrow> OrmDataset_columns list \<Rightarrow> OrmDataset \<times> session" where
  "build_orm iter session aiod citations' has_parts' is_part' =
     (let (license', s1) =
            (case AIoDDataset.license aiod of
               None \<Rightarrow> (None, session)
             | Some n \<Rightarrow> (let (l, s) = OrmLicense_as_unique session n in (Some l, s)));
          (alternate_names', s2) =
            as_unique_each OrmAlternateName_as_unique s1 (iter (AIoDDataset.alternate_names aiod));
          distributions' = map distribution_to_orm (AIoDDataset.distributions aiod);
          (keywords', s3) =
            as_unique_each OrmKeyword_as_unique s2 (iter (AIoDDataset.keywords aiod));
          (measured_values', s4) =
            as_unique_each
              (\<lambda>s mv. OrmMeasuredValue_as_unique s (AIoDMeasurementValue.variable mv)
                         (AIoDMeasurementValue.technique mv))
              s3 (AIoDDataset.measured_values aiod);
          orm = \<lparr>OrmDataset_columns.id = None,
                 OrmDataset_columns.description = AIoDDataset.description aiod,
                 OrmDataset_columns.name = AIoDDataset.name aiod,
                 OrmDataset_columns.node = AIoDDataset.node aiod,
                 OrmDataset_columns.node_specific_identifier = AIoDDataset.node_specific_identifier aiod,
                 OrmDataset_columns.same_as = AIoDDataset.same_as aiod,
                 OrmDataset_columns.creator = AIoDDataset.creator aiod,
                 OrmDataset_columns.date_modified = AIoDDataset.date_modified aiod,
                 OrmDataset_columns.date_published = AIoDDataset.date_published aiod,
                 OrmDataset_columns.funder = AIoDDataset.funder aiod,
                 OrmDataset_columns.is_accessible_for_free = AIoDDataset.is_accessible_for_free aiod,
                 OrmDataset_columns.issn = AIoDDataset.issn aiod,
                 OrmDataset_columns.size = AIoDDataset.size aiod,
                 OrmDataset_columns.spatial_coverage = AIoDDataset.spatial_coverage aiod,
                 OrmDataset_columns.temporal_coverage_from = AIoDDataset.temporal_coverage_from aiod,
                 OrmDataset_columns.temporal_coverage_to = AIoDDataset.temporal_coverage_to aiod,
                 OrmDataset_columns.version = AIoDDataset.version aiod,
                 OrmDataset.license = license',
                 OrmDataset.has_parts = has_parts',
                 OrmDataset.is_part = is_part',
                 OrmDataset.alternate_names = alternate_names',
                 OrmDataset.citations = citations',
                 OrmDataset.distributions = distributions',
                 OrmDataset.keywords = keywords',
                 OrmDataset.measured_values = measured_values'\<rparr>
      in (orm\<lparr>OrmDataset_columns.id := AIoDDataset.id aiod\<rparr>, s4))"

text \<open>
  \<^verbatim>\<open>aiod_to_orm\<close>. The result is the exception raised or the record returned, with the
  session as the call leaves it.
\<close>

definition aiod_to_orm ::
  "set_order \<Rightarrow> session \<Rightarrow> AIoDDataset \<Rightarrow> (HTTPException + OrmDataset) \<times> session" where
  "aiod_to_orm iter session aiod =
     (let (citations_result, s1) =
            (case AIoDDataset.citations aiod of
               CitationRecords publications \<Rightarrow> (Inr [], session)
             | CitationIds ids \<Rightarrow> retrieve_related_objects_by_ids iter session ids OrmPublication_cls)
      in case citations_result of
           Inl e \<Rightarrow> (Inl e, s1)
         | Inr citations' \<Rightarrow>
             (let (has_parts_result, s2) =
                    retrieve_related_objects_by_ids iter s1 (AIoDDataset.has_parts aiod) OrmDataset_cls
              in case has_parts_result of
                   Inl e \<Rightarrow> (Inl e, s2)
                 | Inr has_parts' \<Rightarrow>
                     (let (is_part_result, s3) =
                            retrieve_related_objects_by_ids iter s2 (AIoDDataset.is_part aiod)
                              OrmDataset_cls
                      in case is_part_result of
                           Inl e \<Rightarrow> (Inl e, s3)
                         | Inr is_part' \<Rightarrow>
                             (let (orm, s4) = build_orm iter s3 aiod citations' has_parts' is_part'
                              in (Inr orm, s4)))))"

text \<open>
  \<^verbatim>\<open>orm_to_aiod\<close>. The keyword arguments are evaluated first, in the order they are
  written; the only ones that can raise are the constructor calls
  \<^verbatim>\<open>AIoDDistribution(...)\<close> of the list comprehension, which stops at the first that
  does. Then \<^verbatim>\<open>AIoDDataset(...)\<close> validates the arguments; the identifiers of the
  related rows are given as they are in the rows (an integer, or \<^verbatim>\<open>None\<close>), the
  names as strings.
\<close>

definition distribution_to_aiod :: "OrmDataDownload \<Rightarrow> AIoDDistribution_input" where
  "distribution_to_aiod orm_distr =
     \<lparr>AIoDDistribution_input.content_url = Some (OrmDataDownload.content_url orm_distr),
      AIoDDistribution_input.content_size_kb = OrmDataDownload.content_size_kb orm_distr,
      AIoDDistribution_input.description = OrmDataDownload.description orm_distr,
      AIoDDistribution_input.name = OrmDataDownload.name orm_distr,
      AIoDDistribution_input.encoding_format = OrmDataDownload.encoding_format orm_distr\<rparr>"

definition measured_value_to_aiod :: "OrmMeasuredValue \<Rightarrow> AIoDMeasurementValue" where
  "measured_value_to_aiod mv =
     \<lparr>AIoDMeasurementValue.variable = OrmMeasuredValue.variable mv,
      AIoDMeasurementValue.technique = OrmMeasuredValue.technique mv\<rparr>"

fun first_error :: "'a validated list \<Rightarrow> ErrorDict list option" where
  "first_error [] = None"
| "first_error (Inl e # rs) = Some e"
| "first_error (Inr a # rs) = first_error rs"

definition orm_to_aiod :: "OrmDataset \<Rightarrow> AIoDDataset validated" where
  "orm_to_aiod orm =
     (let distributions' = map distribution_to_aiod (OrmDataset.distributions orm)
      in case first_error (map (AIoDDistribution_init []) distributions') of
           Some e \<Rightarrow> Inl e
         | None \<Rightarrow>
             AIoDDataset_init
               \<lparr>AIoDDataset_input.id = OrmDataset_columns.id orm,
                AIoDDataset_input.description = Some (OrmDataset_columns.description orm),
                AIoDDataset_input.name = Some (OrmDataset_columns.name orm),
                AIoDDataset_input.node = Some (OrmDataset_columns.node orm),
                AIoDDataset_input.node_specific_identifier =
                  Some (OrmDataset_columns.node_specific_identifier orm),
                AIoDDataset_input.same_as = Some (OrmDataset_columns.same_as orm),
                AIoDDataset_input.creator = OrmDataset_columns.creator orm,
                AIoDDataset_input.date_modified = OrmDataset_columns.date_modified orm,
                AIoDDataset_input.date_published = OrmDataset_columns.date_published orm,
                AIoDDataset_input.funder = OrmDataset_columns.funder orm,
                AIoDDataset_input.is_accessible_for_free =
                  OrmDataset_columns.is_accessible_for_free orm,
                AIoDDataset_input.issn = OrmDataset_columns.issn orm,
                AIoDDataset_input.size = OrmDataset_columns.size orm,
                AIoDDataset_input.spatial_coverage = OrmDataset_columns.spatial_coverage orm,
                AIoDDataset_input.temporal_coverage_from =
                  OrmDataset_columns.temporal_coverage_from orm,
                AIoDDataset_input.temporal_coverage_to = OrmDataset_columns.temporal_coverage_to orm,
                AIoDDataset_input.version = OrmDataset_columns.version orm,
                AIoDDataset_input.license =
                  (case OrmDataset.license orm of None \<Rightarrow> None
                   | Some l \<Rightarrow> Some (OrmLicense.name l)),
                AIoDDataset_input.has_parts =
                  map (\<lambda>part. py_id (OrmDataset_columns.id part)) (OrmDataset.has_parts orm),
                AIoDDataset_input.is_part =
                  map (\<lambda>part. py_id (OrmDataset_columns.id part)) (OrmDataset.is_part orm),
                AIoDDataset_input.alternate_names =
                  map (\<lambda>alias. PyStr (OrmAlternateName.name alias)) (OrmDataset.alternate_names orm),
                AIoDDataset_input.citations =
                  CitationIdList
                    (map (\<lambda>citation. py_id (OrmPublication.id citation)) (OrmDataset.citations orm)),
                AIoDDataset_input.distributions = distributions',
                AIoDDataset_input.keywords =
                  map (\<lambda>keyword. PyStr (OrmKeyword.name keyword)) (OrmDataset.keywords orm),
                AIoDDataset_input.measured_values =
                  map measured_value_to_aiod (OrmDataset.measured_values orm)\<rparr>)"

text \<open>
  The sessions between the steps of the constructor call \<^verbatim>\<open>OrmDataset(...)\<close> of
  \<^verbatim>\<open>aiod_to_orm\<close>: after the license is resolved, after the alternate names, after
  the keywords and after the measured values.
\<close>

definition after_license :: "session \<Rightarrow> AIoDDataset \<Rightarrow> session" where
  "after_license s aiod =
     (case AIoDDataset.license aiod of None \<Rightarrow> s | Some n \<Rightarrow> snd (OrmLicense_as_unique s n))"

definition after_alternate_names :: "set_order \<Rightarrow> session \<Rightarrow> AIoDDataset \<Rightarrow> session" where
  "after_alternate_names iter s aiod =
     snd (as_unique_each OrmAlternateName_as_unique (after_license s aiod)
            (iter (AIoDDataset.alternate_names aiod)))"

definition after_keywords :: "set_order \<Rightarrow> session \<Rightarrow> AIoDDataset \<Rightarrow> session" where
  "after_keywords iter s aiod =
     snd (as_unique_each OrmKeyword_as_unique (after_alternate_names iter s aiod)
            (iter (AIoDDataset.keywords aiod)))"

definition resolve_measured_value :: "session \<Rightarrow> AIoDMeasurementValue \<Rightarrow> OrmMeasuredValue \<times> session" where
  "resolve_measured_value s mv =
     OrmMeasuredValue_as_unique s (AIoDMeasurementValue.variable mv)
       (AIoDMeasurementValue.technique mv)"

definition after_measured_values :: "set_order \<Rightarrow> session \<Rightarrow> AIoDDataset \<Rightarrow> session" where
  "after_measured_values iter s aiod =
     snd (as_unique_each resolve_measured_value (after_keywords iter s aiod)
            (AIoDDataset.measured_values aiod))"

text \<open>
  The invariant of the shared lookup entities: no two rows of one of them share a natural
  key.
\<close>

definition unique_keys :: "session \<Rightarrow> bool" where
  "unique_keys s \<longleftrightarrow>
     distinct (map OrmLicense.name (license_table s))
     \<and> distinct (map OrmAlternateName.name (alternate_name_table s))
     \<and> distinct (map OrmKeyword.name (keyword_table s))
     \<and> distinct (map measured_value_key (measured_value_table s))"

text \<open>The natural key that a canonical measured value is resolved under.\<close>

definition measurement_key :: "AIoDMeasurementValue \<Rightarrow> string option \<times> string option" where
  "measurement_key mv = (AIoDMeasurementValue.variable mv, AIoDMeasurementValue.technique mv)"

text \<open>
  The identifiers that \<^verbatim>\<open>orm_to_aiod\<close> gives for a list of publications,
  \<^verbatim>\<open>[citation.id for citation in orm.citations]\<close>, once validated as a set of
  strings: the decimal strings of the identifiers of the rows.
\<close>

definition rendered_ids :: "OrmPublication list \<Rightarrow> string set" where
  "rendered_ids rows = set (List.map_filter (\<lambda>citation. id_str (OrmPublication.id citation)) rows)"

section \<open>The registration of a dataset\<close>

text \<open>
  Modelled from the spec: the register operation of the service layer is not under src/
  (only \<^verbatim>\<open>test_post_register_dataset.py\<close> is). Given a canonical record without
  identifier, it fails with a Conflict (409) whose message includes the identifier of the
  existing row when a row with the same (name, node) exists; otherwise it converts the
  record, assigns it an identifier and persists it. The message is the one
  \<^verbatim>\<open>test_duplicated_dataset\<close> expects.
\<close>

definition id_text :: "int option \<Rightarrow> string" where
  "id_text i = (case i of None \<Rightarrow> ''None'' | Some n \<Rightarrow> str_int n)"

definition next_id :: "OrmDataset_columns list \<Rightarrow> int" where
  "next_id rows = fresh_id (List.map_filter OrmDataset_columns.id rows)"

definition register_dataset ::
  "set_order \<Rightarrow> session \<Rightarrow> AIoDDataset \<Rightarrow> (HTTPException + OrmDataset) \<times> session" where
  "register_dataset iter session aiod =
     (case find (\<lambda>r. OrmDataset_columns.name r = AIoDDataset.name aiod
                      \<and> OrmDataset_columns.node r = AIoDDataset.node aiod)
             (dataset_table session) of
        Some existing \<Rightarrow>
          (Inl (HTTPException 409
             (''There already exists a dataset with the same platform and name, with id=''
                @ id_text (OrmDataset_columns.id existing) @ ''.'')),
           session)
      | None \<Rightarrow>
          (case aiod_to_orm iter session aiod of
             (Inl e, session') \<Rightarrow> (Inl e, session')
           | (Inr orm, session') \<Rightarrow>
               (let orm' = orm\<lparr>OrmDataset_columns.id := Some (next_id (dataset_table session'))\<rparr>
                in (Inr orm',
                    session'\<lparr>dataset_table :=
                      dataset_table session' @ [OrmDataset_columns.truncate orm']\<rparr>))))"

section \<open>\<^verbatim>\<open>connectors/abstract/publication_connector.py\<close>\<close>

text \<open>
  An object of a class that implements \<^verbatim>\<open>PublicationConnector\<close>: the property
  \<^verbatim>\<open>node_name\<close> reads nothing of it but its class, \<^verbatim>\<open>self.__class__\<close>. The class
  method \<^verbatim>\<open>NodeName.from_class\<close> of \<^verbatim>\<open>connectors.node_names\<close> is imported, not
  defined, by the module: it is the parameter \<open>from_class\<close>, from classes \<open>'c\<close> to node
  names \<open>'n\<close>.
\<close>

record 'c PublicationConnector =
  class_of :: 'c

definition node_name :: "('c \<Rightarrow> 'n) \<Rightarrow> ('c, 'm) PublicationConnector_scheme \<Rightarrow> 'n" where
  "node_name from_class self = from_class (class_of self)"

section \<open>Example stores and records\<close>

text \<open>
  An example of an engine, simpler than a real one: it reads a text as an integer when
  the text is a decimal numeral with an optional sign, so \<^verbatim>\<open>'1'\<close>, \<^verbatim>\<open>'01'\<close> and
  \<^verbatim>\<open>'+1'\<close> are all read as 1, and \<^verbatim>\<open>'a'\<close> as no integer. (SQLite reads these
  texts the same way, and reads \<^verbatim>\<open>' 1'\<close> and \<^verbatim>\<open>'1.0'\<close> as 1 as well.)
\<close>

definition digit_value :: "char \<Rightarrow> nat option" where
  "digit_value c = map_of (zip ''0123456789'' [0, 1, 2, 3, 4, 5, 6, 7, 8, 9]) c"

fun decimal_nat :: "nat \<Rightarrow> string \<Rightarrow> nat option" where
  "decimal_nat acc [] = Some acc"
| "decimal_nat acc (c # cs) =
     (case digit_value c of None \<Rightarrow> None | Some d \<Rightarrow> decimal_nat (10 * acc + d) cs)"

definition decimal_integer :: "string \<Rightarrow> int option" where
  "decimal_integer s =
     (case s of
        [] \<Rightarrow> None
      | c # cs \<Rightarrow>
          if cs \<noteq> [] \<and> c = CHR ''-'' then map_option (\<lambda>n. - int n) (decimal_nat 0 cs)
          else if cs \<noteq> [] \<and> c = CHR ''+'' then map_option int (decimal_nat 0 cs)
          else map_option int (decimal_nat 0 s))"

definition empty_session :: session where
  "empty_session =
     \<lparr>dataset_table = [], publication_table = [], license_table = [], keyword_table = [],
      alternate_name_table = [], measured_value_table = [], lookups = [],
      integer_of_text = decimal_integer\<rparr>"

definition publication_1 :: OrmPublication where
  "publication_1 = \<lparr>OrmPublication.id = Some 1, title = Some ''paper'', url = None\<rparr>"

definition session_1 :: session where
  "session_1 = empty_session\<lparr>publication_table := [publication_1]\<rparr>"

definition paper_1 :: AIoDPublication where
  "paper_1 = \<lparr>AIoDPublication.id = None, AIoDPublication.title = Some ''paper'',
     AIoDPublication.url = None\<rparr>"

definition dset1 :: AIoDDataset where
  "dset1 =
     \<lparr>AIoDDataset.id = None,
      AIoDDataset.description = ''description dset1'',
      AIoDDataset.name = ''dset1'',
      AIoDDataset.node = ''openml'',
      AIoDDataset.node_specific_identifier = ''1'',
      AIoDDataset.same_as = ''url1'',
      AIoDDataset.creator = None,
      AIoDDataset.date_modified = None,
      AIoDDataset.date_published = None,
      AIoDDataset.funder = None,
      AIoDDataset.is_accessible_for_free = None,
      AIoDDataset.issn = None,
      AIoDDataset.size = None,
      AIoDDataset.spatial_coverage = None,
      AIoDDataset.temporal_coverage_from = None,
      AIoDDataset.temporal_coverage_to = None,
      AIoDDataset.version = None,
      AIoDDataset.license = None,
      AIoDDataset.has_parts = {},
      AIoDDataset.is_part = {},
      AIoDDataset.alternate_names = {},
      AIoDDataset.citations = CitationIds {},
      AIoDDataset.distributions = [],
      AIoDDataset.keywords = {},
      AIoDDataset.measured_values = []\<rparr>"

text \<open>
  The body of \<^verbatim>\<open>test_too_long_name\<close>, the input of \<open>dset1\<close>, and an input with three
  violations.
\<close>

definition too_long_name :: AIoDDataset_input where
  "too_long_name =
     \<lparr>AIoDDataset_input.id = None,
      AIoDDataset_input.description = Some ''description'',
      AIoDDataset_input.name = Some (replicate 200 CHR ''a''),
      AIoDDataset_input.node = Some ''node'',
      AIoDDataset_input.node_specific_identifier = Some ''id'',
      AIoDDataset_input.same_as = Some ''url'',
      AIoDDataset_input.creator = None,
      AIoDDataset_input.date_modified = None,
      AIoDDataset_input.date_published = None,
      AIoDDataset_input.funder = None,
      AIoDDataset_input.is_accessible_for_free = None,
      AIoDDataset_input.issn = None,
      AIoDDataset_input.size = None,
      AIoDDataset_input.spatial_coverage = None,
      AIoDDataset_input.temporal_coverage_from = None,
      AIoDDataset_input.temporal_coverage_to = None,
      AIoDDataset_input.version = None,
      AIoDDataset_input.license = None,
      AIoDDataset_input.has_parts = [],
      AIoDDataset_input.is_part = [],
      AIoDDataset_input.alternate_names = [],
      AIoDDataset_input.citations = CitationIdList [],
      AIoDDataset_input.distributions = [],
      AIoDDataset_input.keywords = [],
      AIoDDataset_input.measured_values = []\<rparr>"

definition dset1_input :: AIoDDataset_input where
  "dset1_input =
     too_long_name\<lparr>AIoDDataset_input.description := Some ''description dset1'',
       AIoDDataset_input.name := Some ''dset1'', AIoDDataset_input.node := Some ''openml'',
       AIoDDataset_input.node_specific_identifier := Some ''1'',
       AIoDDataset_input.same_as := Some ''url1''\<rparr>"

definition three_violations :: AIoDDataset_input where
  "three_violations =
     too_long_name\<lparr>AIoDDataset_input.node := Some (replicate 31 CHR ''n''),
       AIoDDataset_input.issn := Some ''1234''\<rparr>"

definition dset1_cited_input :: AIoDDataset_input where
  "dset1_cited_input =
     dset1_input\<lparr>AIoDDataset_input.license := Some ''cc0'',
       AIoDDataset_input.citations := CitationIdList [PyStr ''1''],
       AIoDDataset_input.keywords := [PyStr ''nlp'']\<rparr>"

definition dset1_cited :: AIoDDataset where
  "dset1_cited =
     dset1\<lparr>AIoDDataset.license := Some ''cc0'', AIoDDataset.citations := CitationIds {''1''},
       AIoDDataset.keywords := {''nlp''}\<rparr>"

text \<open>
  The same dataset with its citation written \<^verbatim>\<open>'01'\<close>, and with the publication
  embedded.
\<close>

definition dset1_cited_01_input :: AIoDDataset_input where
  "dset1_cited_01_input =
     dset1_cited_input\<lparr>AIoDDataset_input.citations := CitationIdList [PyStr ''01'']\<rparr>"

definition dset1_cited_01 :: AIoDDataset where
  "dset1_cited_01 = dset1_cited\<lparr>AIoDDataset.citations := CitationIds {''01''}\<rparr>"

definition dset1_embedded_input :: AIoDDataset_input where
  "dset1_embedded_input =
     dset1_cited_input\<lparr>AIoDDataset_input.citations := CitationRecordList [paper_1]\<rparr>"

definition dset1_embedded :: AIoDDataset where
  "dset1_embedded = dset1_cited\<lparr>AIoDDataset.citations := CitationRecords [paper_1]\<rparr>"

definition dset1_uncited :: AIoDDataset where
  "dset1_uncited = dset1_cited\<lparr>AIoDDataset.citations := CitationIds {}\<rparr>"

text \<open>
  The internal record of these datasets in the store that has the publication 1 and no
  license and no keyword yet, and the record without its citation.
\<close>

definition orm_cited :: OrmDataset where
  "orm_cited =
     \<lparr>OrmDataset_columns.id = None,
      OrmDataset_columns.description = ''description dset1'',
      OrmDataset_columns.name = ''dset1'',
      OrmDataset_columns.node = ''openml'',
      OrmDataset_columns.node_specific_identifier = ''1'',
      OrmDataset_columns.same_as = ''url1'',
      OrmDataset_columns.creator = None,
      OrmDataset_columns.date_modified = None,
      OrmDataset_columns.date_published = None,
      OrmDataset_columns.funder = None,
      OrmDataset_columns.is_accessible_for_free = None,
      OrmDataset_columns.issn = None,
      OrmDataset_columns.size = None,
      OrmDataset_columns.spatial_coverage = None,
      OrmDataset_columns.temporal_coverage_from = None,
      OrmDataset_columns.temporal_coverage_to = None,
      OrmDataset_columns.version = None,
      OrmDataset.license = Some \<lparr>OrmLicense.id = 1, OrmLicense.name = ''cc0''\<rparr>,
      OrmDataset.has_parts = [],
      OrmDataset.is_part = [],
      OrmDataset.alternate_names = [],
      OrmDataset.citations = [publication_1],
      OrmDataset.distributions = [],
      OrmDataset.keywords = [\<lparr>OrmKeyword.id = 1, OrmKeyword.name = ''nlp''\<rparr>],
      OrmDataset.measured_values = []\<rparr>"

definition orm_uncited :: OrmDataset where
  "orm_uncited = orm_cited\<lparr>OrmDataset.citations := []\<rparr>"

definition dataset_row_1 :: OrmDataset_columns where
  "dataset_row_1 =
     \<lparr>OrmDataset_columns.id = Some 1,
      OrmDataset_columns.description = [],
      OrmDataset_columns.name = ''dset1'',
      OrmDataset_columns.node = ''openml'',
      OrmDataset_columns.node_specific_identifier = ''1'',
      OrmDataset_columns.same_as = ''openml.org/1'',
      OrmDataset_columns.creator = None,
      OrmDataset_columns.date_modified = None,
      OrmDataset_columns.date_published = None,
      OrmDataset_columns.funder = None,
      OrmDataset_columns.is_accessible_for_free = None,
      OrmDataset_columns.issn = None,
      OrmDataset_columns.size = None,
      OrmDataset_columns.spatial_coverage = None,
      OrmDataset_columns.temporal_coverage_from = None,
      OrmDataset_columns.temporal_coverage_to = None,
      OrmDataset_columns.version = None\<rparr>"

definition session_2 :: session where
  "session_2 = empty_session\<lparr>dataset_table := [dataset_row_1]\<rparr>"

definition duplicates_input :: AIoDDataset_input where
  "duplicates_input =
     dset1_input\<lparr>AIoDDataset_input.name := Some ''dset2'',
       AIoDDataset_input.has_parts := [PyStr ''1'', PyStr ''1''],
       AIoDDataset_input.alternate_names := [PyStr ''d2'', PyStr ''d2''],
       AIoDDataset_input.keywords := [PyStr ''nlp'', PyStr ''nlp'']\<rparr>"

definition duplicates_dataset :: AIoDDataset where
  "duplicates_dataset =
     dset1\<lparr>AIoDDataset.name := ''dset2'', AIoDDataset.has_parts := {''1''},
       AIoDDataset.alternate_names := {''d2''}, AIoDDataset.keywords := {''nlp''}\<rparr>"

text \<open>An input that names twice a dataset no store has.\<close>

definition missing_twice_input :: AIoDDataset_input where
  "missing_twice_input =
     dset1_input\<lparr>AIoDDataset_input.has_parts := [PyStr ''missing-1'', PyStr ''missing-1'']\<rparr>"

definition missing_twice :: AIoDDataset where
  "missing_twice = dset1\<lparr>AIoDDataset.has_parts := {''missing-1''}\<rparr>"

text \<open>
  Two datasets that share a license, an alternate name, the keyword \<^verbatim>\<open>ai\<close> and a
  measured value, which the second lists twice; the stores after converting the first in
  the empty store, and then the second.
\<close>

definition temperature :: AIoDMeasurementValue where
  "temperature =
     \<lparr>AIoDMeasurementValue.variable = Some ''temperature'',
      AIoDMeasurementValue.technique = Some ''sensor''\<rparr>"

definition dset_A :: AIoDDataset where
  "dset_A =
     dset1\<lparr>AIoDDataset.license := Some ''cc0'', AIoDDataset.alternate_names := {''alias''},
       AIoDDataset.keywords := {''ml'', ''ai''}, AIoDDataset.measured_values := [temperature]\<rparr>"

definition dset_B :: AIoDDataset where
  "dset_B =
     dset1\<lparr>AIoDDataset.name := ''dset2'', AIoDDataset.license := Some ''cc0'',
       AIoDDataset.alternate_names := {''alias''}, AIoDDataset.keywords := {''ai'', ''nlp''},
       AIoDDataset.measured_values := [temperature, temperature]\<rparr>"

definition license_cc0 :: OrmLicense where
  "license_cc0 = \<lparr>OrmLicense.id = 1, OrmLicense.name = ''cc0''\<rparr>"

definition alternate_name_alias :: OrmAlternateName where
  "alternate_name_alias = \<lparr>OrmAlternateName.id = 1, OrmAlternateName.name = ''alias''\<rparr>"

definition keyword_ai :: OrmKeyword where
  "keyword_ai = \<lparr>OrmKeyword.id = 1, OrmKeyword.name = ''ai''\<rparr>"

definition keyword_ml :: OrmKeyword where
  "keyword_ml = \<lparr>OrmKeyword.id = 2, OrmKeyword.name = ''ml''\<rparr>"

definition keyword_nlp :: OrmKeyword where
  "keyword_nlp = \<lparr>OrmKeyword.id = 3, OrmKeyword.name = ''nlp''\<rparr>"

definition measured_temperature :: OrmMeasuredValue where
  "measured_temperature =
     \<lparr>OrmMeasuredValue.id = 1, OrmMeasuredValue.variable = Some ''temperature'',
      OrmMeasuredValue.technique = Some ''sensor''\<rparr>"

definition session_A :: session where
  "session_A =
     empty_session\<lparr>license_table := [license_cc0], keyword_table := [keyword_ai, keyword_ml],
       alternate_name_table := [alternate_name_alias],
       measured_value_table := [measured_temperature]\<rparr>"

definition session_AB :: session where
  "session_AB = session_A\<lparr>keyword_table := [keyword_ai, keyword_ml, keyword_nlp]\<rparr>"

definition orm_A :: OrmDataset where
  "orm_A =
     \<lparr>OrmDataset_columns.id = None,
      OrmDataset_columns.description = ''description dset1'',
      OrmDataset_columns.name = ''dset1'',
      OrmDataset_columns.node = ''openml'',
      OrmDataset_columns.node_specific_identifier = ''1'',
      OrmDataset_columns.same_as = ''url1'',
      OrmDataset_columns.creator = None,
      OrmDataset_columns.date_modified = None,
      OrmDataset_columns.date_published = None,
      OrmDataset_columns.funder = None,
      OrmDataset_columns.is_accessible_for_free = None,
      OrmDataset_columns.issn = None,
      OrmDataset_columns.size = None,
      OrmDataset_columns.spatial_coverage = None,
      OrmDataset_columns.temporal_coverage_from = None,
      OrmDataset_columns.temporal_coverage_to = None,
      OrmDataset_columns.version = None,
      OrmDataset.license = Some license_cc0,
      OrmDataset.has_parts = [],
      OrmDataset.is_part = [],
      OrmDataset.alternate_names = [alternate_name_alias],
      OrmDataset.citations = [],
      OrmDataset.distributions = [],
      OrmDataset.keywords = [keyword_ai, keyword_ml],
      OrmDataset.measured_values = [measured_temperature]\<rparr>"

definition orm_B :: OrmDataset where
  "orm_B =
     orm_A\<lparr>OrmDataset_columns.name := ''dset2'',
       OrmDataset.keywords := [keyword_ai, keyword_nlp],
       OrmDataset.measured_values := [measured_temperature, measured_temperature]\<rparr>"

definition zenodo_connector :: "nat \<Rightarrow> (string, nat) PublicationConnector_scheme" where
  "zenodo_connector state = \<lparr>class_of = ''ZenodoPublicationConnector'', \<dots> = state\<rparr>"

definition example_from_class :: "string \<Rightarrow> string" where
  "example_from_class c = (if c = ''ZenodoPublicationConnector'' then ''zenodo'' else ''example'')"

section \<open>Properties of the batch relation resolution\<close>

text \<open>
  The rows a query selects from a table with distinct keys, when a row of key \<open>k c\<close> is
  selected under the identifiers \<open>i\<close> with \<open>g i = Some (k c)\<close>: they are fewer than the
  identifiers as soon as one identifier selects no row, and as many exactly when every
  identifier selects a row and no two select the same.
\<close>

lemma selected_keys:
  assumes "distinct (map k rows)"
  shows "card (Some ` k ` set (filter P rows)) = length (filter P rows)"
proof -
  have "distinct (map k (filter P rows))"
    using assms by (rule distinct_map_filter)
  then have "card (set (map k (filter P rows))) = length (map k (filter P rows))"
    by (rule distinct_card)
  moreover have "card (Some ` k ` set (filter P rows)) = card (k ` set (filter P rows))"
    by (rule card_image) simp
  ultimately show ?thesis
    by simp
qed

lemma selected_image:
  "Some ` k ` set (filter (\<lambda>c. \<exists>i\<in>ids. g i = Some (k c)) rows) \<subseteq> g ` ids"
  by force

lemma selected_less:
  assumes "distinct (map k rows)" and "finite ids" and "m \<in> ids"
    and "\<forall>c\<in>set rows. g m \<noteq> Some (k c)"
  shows "length (filter (\<lambda>c. \<exists>i\<in>ids. g i = Some (k c)) rows) < card ids"
proof -
  let ?M = "filter (\<lambda>c. \<exists>i\<in>ids. g i = Some (k c)) rows"
  have "Some ` k ` set ?M \<subseteq> g ` (ids - {m})"
    using assms(4) by force
  then have "card (Some ` k ` set ?M) \<le> card (g ` (ids - {m}))"
    using assms(2) by (intro card_mono) simp_all
  also have "\<dots> \<le> card (ids - {m})"
    using assms(2) by (intro card_image_le) simp
  also have "\<dots> < card ids"
    using assms(2,3) by (rule card_Diff1_less)
  finally show ?thesis
    using selected_keys [OF assms(1), of "\<lambda>c. \<exists>i\<in>ids. g i = Some (k c)"] by simp
qed

lemma selected_all:
  assumes "distinct (map k rows)" and "finite ids"
    and "length (filter (\<lambda>c. \<exists>i\<in>ids. g i = Some (k c)) rows) = card ids"
  shows "inj_on g ids" and "\<forall>i\<in>ids. \<exists>c\<in>set rows. g i = Some (k c)"
proof -
  let ?M = "filter (\<lambda>c. \<exists>i\<in>ids. g i = Some (k c)) rows"
  have sub: "Some ` k ` set ?M \<subseteq> g ` ids"
    by (rule selected_image)
  have c: "card (Some ` k ` set ?M) = card ids"
    using assms(3) selected_keys [OF assms(1), of "\<lambda>c. \<exists>i\<in>ids. g i = Some (k c)"] by simp
  have "card (g ` ids) \<le> card ids"
    using assms(2) by (rule card_image_le)
  moreover have "card (Some ` k ` set ?M) \<le> card (g ` ids)"
    using sub assms(2) by (intro card_mono) simp_all
  ultimately have e: "card (g ` ids) = card ids"
    using c by simp
  then show "inj_on g ids"
    using assms(2) by (simp add: eq_card_imp_inj_on)
  have "Some ` k ` set ?M = g ` ids"
    using sub c e assms(2) by (intro card_subset_eq) simp_all
  then have "\<forall>i\<in>ids. g i \<in> Some ` k ` set ?M"
    by blast
  then show "\<forall>i\<in>ids. \<exists>c\<in>set rows. g i = Some (k c)"
    by force
qed

lemma selected_complete:
  assumes "distinct (map k rows)" and "finite ids" and "inj_on g ids"
    and "\<forall>i\<in>ids. \<exists>c\<in>set rows. g i = Some (k c)"
  shows "length (filter (\<lambda>c. \<exists>i\<in>ids. g i = Some (k c)) rows) = card ids"
proof -
  let ?M = "filter (\<lambda>c. \<exists>i\<in>ids. g i = Some (k c)) rows"
  have "g ` ids \<subseteq> Some ` k ` set ?M"
    using assms(4) by force
  then have "Some ` k ` set ?M = g ` ids"
    using selected_image [of k ids g rows] by blast
  then have "card (Some ` k ` set ?M) = card ids"
    using assms(3) by (simp add: card_image)
  then show ?thesis
    using selected_keys [OF assms(1), of "\<lambda>c. \<exists>i\<in>ids. g i = Some (k c)"] by simp
qed

text \<open>
  In a table whose rows have integer identifiers, a row is found under the identifiers
  that the store reads as the integer of the row.
\<close>

lemma found_under_PyInt:
  "is_PyInt v \<Longrightarrow> found_under (integer_of_text s) v i \<longleftrightarrow> read_as s i = Some v"
  by (cases v) (auto simp: read_as_def)

lemma filter_id_in:
  assumes "list_all (\<lambda>c. is_PyInt (id_attr cls c)) rows"
  shows "filter (id_in s cls ids) rows
           = filter (\<lambda>c. \<exists>i\<in>ids. read_as s i = Some (id_attr cls c)) rows"
  using assms by (intro filter_cong) (auto simp: id_in_def list_all_iff found_under_PyInt)

lemma present_iff:
  assumes "primary_key cls s"
  shows "present cls s i \<longleftrightarrow> (\<exists>c\<in>set (table_of cls s). read_as s i = Some (id_attr cls c))"
  using assms by (auto simp: present_def primary_key_def list_ex_iff list_all_iff found_under_PyInt)

lemma inj_on_read_as: "inj_on (integer_of_text s) ids \<Longrightarrow> inj_on (read_as s) ids"
  by (auto simp: inj_on_def read_as_def map_option_case split: option.splits)

lemma found_less:
  assumes "primary_key cls s" and "finite ids" and "m \<in> ids" and "\<not> present cls s m"
  shows "length (filter (id_in s cls ids) (table_of cls s)) < card ids"
proof -
  have "\<forall>c\<in>set (table_of cls s). read_as s m \<noteq> Some (id_attr cls c)"
    using assms(4) by (simp add: present_iff [OF assms(1)])
  then have "length (filter (\<lambda>c. \<exists>i\<in>ids. read_as s i = Some (id_attr cls c)) (table_of cls s))
               < card ids"
    using assms(1-3) by (intro selected_less) (simp_all add: primary_key_def)
  then show ?thesis
    using assms(1) by (simp add: filter_id_in primary_key_def)
qed

lemma found_all:
  assumes "primary_key cls s" and "finite ids"
    and "length (filter (id_in s cls ids) (table_of cls s)) = card ids"
  shows "inj_on (read_as s) ids" and "\<forall>i\<in>ids. present cls s i"
proof -
  have l: "length (filter (\<lambda>c. \<exists>i\<in>ids. read_as s i = Some (id_attr cls c)) (table_of cls s))
             = card ids"
    using assms(1,3) by (simp add: filter_id_in primary_key_def)
  have d: "distinct (map (id_attr cls) (table_of cls s))"
    using assms(1) by (simp add: primary_key_def)
  show "inj_on (read_as s) ids"
    using d assms(2) l by (rule selected_all(1))
  show "\<forall>i\<in>ids. present cls s i"
    using selected_all(2) [OF d assms(2) l] by (simp add: present_iff [OF assms(1)])
qed

lemma found_complete:
  assumes "primary_key cls s" and "finite ids" and "inj_on (integer_of_text s) ids"
    and "\<forall>i\<in>ids. present cls s i"
  shows "length (filter (id_in s cls ids) (table_of cls s)) = card ids"
proof -
  have d: "distinct (map (id_attr cls) (table_of cls s))"
    using assms(1) by (simp add: primary_key_def)
  have "\<forall>i\<in>ids. \<exists>c\<in>set (table_of cls s). read_as s i = Some (id_attr cls c)"
    using assms(4) by (simp add: present_iff [OF assms(1)])
  then have "length (filter (\<lambda>c. \<exists>i\<in>ids. read_as s i = Some (id_attr cls c)) (table_of cls s))
               = card ids"
    using d assms(2) inj_on_read_as [OF assms(3)] by (intro selected_complete)
  then show ?thesis
    using assms(1) by (simp add: filter_id_in primary_key_def)
qed

lemma retrieve_fails:
  assumes "finite ids" and "primary_key cls s" and "m \<in> ids" and "\<not> present cls s m"
  shows "fst (retrieve_related_objects_by_ids iter s ids cls)
           = Inl (HTTPException 404
               (''Dataset parts '' @ apostrophe
                  @ join '', ''
                      (iter (ids - set (List.map_filter str_value
                         (map (id_attr cls) (filter (id_in s cls ids) (table_of cls s))))))
                  @ apostrophe @ '' not found in the database.''))"
proof -
  have "card ids > 0"
    using assms(1,3) by (auto simp: card_gt_0_iff)
  moreover have "length (filter (id_in s cls ids) (table_of cls s)) \<noteq> card ids"
    using found_less [OF assms(2,1,3,4)] by simp
  ultimately show ?thesis
    by (simp add: retrieve_related_objects_by_ids_def Let_def)
qed

lemma retrieve_succeeds:
  assumes "primary_key cls s" and "finite ids" and "inj_on (integer_of_text s) ids"
    and "\<forall>i\<in>ids. present cls s i"
  shows "fst (retrieve_related_objects_by_ids iter s ids cls)
           = Inr (filter (id_in s cls ids) (table_of cls s))"
proof (cases "ids = {}")
  case True
  then show ?thesis
    by (simp add: retrieve_related_objects_by_ids_def id_in_def)
next
  case False
  have "length (filter (id_in s cls ids) (table_of cls s)) = card ids"
    using assms by (rule found_complete)
  then show ?thesis
    by (auto simp: retrieve_related_objects_by_ids_def Let_def)
qed

lemma retrieve_Inr:
  assumes "fst (retrieve_related_objects_by_ids iter s ids cls) = Inr rows" and "finite ids"
  shows "rows = filter (id_in s cls ids) (table_of cls s)" and "length rows = card ids"
proof -
  show r: "rows = filter (id_in s cls ids) (table_of cls s)"
  proof (cases "ids = {}")
    case True
    then show ?thesis
      using assms(1) by (simp add: retrieve_related_objects_by_ids_def id_in_def)
  next
    case False
    then have "card ids > 0"
      using assms(2) by (simp add: card_gt_0_iff)
    then show ?thesis
      using assms(1) by (simp add: retrieve_related_objects_by_ids_def Let_def split: if_splits)
  qed
  show "length rows = card ids"
  proof (cases "ids = {}")
    case True
    then show ?thesis
      by (simp add: r id_in_def)
  next
    case False
    then have "card ids > 0"
      using assms(2) by (simp add: card_gt_0_iff)
    then show ?thesis
      using assms(1) by (simp add: r retrieve_related_objects_by_ids_def Let_def split: if_splits)
  qed
qed

text \<open>
  The rows a resolution returns, from a table with an integer primary key: they have
  distinct identifiers, every one of them is found under one of the identifiers asked
  for, and every identifier asked for is one under which one of them is found.
\<close>

lemma retrieve_Inr_rows:
  assumes "fst (retrieve_related_objects_by_ids iter s ids cls) = Inr rows"
    and "primary_key cls s" and "finite ids"
  shows "distinct (map (id_attr cls) rows)"
    and "\<forall>c\<in>set rows. \<exists>i\<in>ids. read_as s i = Some (id_attr cls c)"
    and "\<forall>i\<in>ids. \<exists>c\<in>set rows. read_as s i = Some (id_attr cls c)"
    and "inj_on (read_as s) ids"
proof -
  note r = retrieve_Inr [OF assms(1,3)]
  have f: "rows = filter (\<lambda>c. \<exists>i\<in>ids. read_as s i = Some (id_attr cls c)) (table_of cls s)"
    using assms(2) by (simp add: r(1) filter_id_in primary_key_def)
  show "distinct (map (id_attr cls) rows)"
    unfolding r(1) using assms(2) by (simp add: primary_key_def distinct_map_filter)
  show "\<forall>c\<in>set rows. \<exists>i\<in>ids. read_as s i = Some (id_attr cls c)"
    by (subst f) simp
  have l: "length (filter (id_in s cls ids) (table_of cls s)) = card ids"
    using r by simp
  show "inj_on (read_as s) ids"
    using assms(2,3) l by (rule found_all(1))
  have "\<forall>i\<in>ids. \<exists>c\<in>set (table_of cls s). read_as s i = Some (id_attr cls c)"
    using found_all(2) [OF assms(2,3) l] by (simp add: present_iff [OF assms(2)])
  then have "\<forall>i\<in>ids. \<exists>c\<in>set (filter (\<lambda>c. \<exists>i\<in>ids. read_as s i = Some (id_attr cls c))
                                 (table_of cls s)). read_as s i = Some (id_attr cls c)"
    by fastforce
  then show "\<forall>i\<in>ids. \<exists>c\<in>set rows. read_as s i = Some (id_attr cls c)"
    using f by simp
qed

lemma map_filter_map_cong:
  "\<forall>c\<in>set rows. f (g c) = h c \<Longrightarrow> List.map_filter f (map g rows) = List.map_filter h rows"
  by (induction rows) (auto split: option.splits)

text \<open>
  The identifiers of the rows of the two classes that the converter resolves against are
  integers: none of them is equal to a string.
\<close>

lemma str_value_py_id: "List.map_filter str_value (map (\<lambda>c. py_id (f c)) rows) = []"
  by (induction rows) (simp_all add: py_id_def split: option.splits)

lemma enumerates_sorted_list_of_set: "enumerates sorted_list_of_set"
  by (simp add: enumerates_def)

lemma str_int_1: "str_int 1 = ''1''"
  by (simp add: str_int_def str_nat.simps digit_char_def)

lemma decimal_integer_examples:
  "decimal_integer ''1'' = Some 1" "decimal_integer ''01'' = Some 1"
  "decimal_integer ''2'' = Some 2" "decimal_integer ''missing-1'' = None"
  by (simp_all add: decimal_integer_def digit_value_def)

lemma table_of_classes:
  "table_of OrmPublication_cls = publication_table" "table_of OrmDataset_cls = dataset_table"
  by (simp_all add: OrmPublication_cls_def OrmDataset_cls_def)

lemma id_attr_classes:
  "id_attr OrmPublication_cls c = py_id (OrmPublication.id c)"
  "id_attr OrmDataset_cls r = py_id (OrmDataset_columns.id r)"
  by (simp_all add: OrmPublication_cls_def OrmDataset_cls_def)

lemma integer_of_text_examples:
  "integer_of_text empty_session = decimal_integer"
  "integer_of_text session_1 = decimal_integer"
  "integer_of_text session_2 = decimal_integer"
  by (simp_all add: empty_session_def session_1_def session_2_def)

lemma present_session_1:
  "present OrmPublication_cls session_1 ''1''" "present OrmPublication_cls session_1 ''01''"
  "\<not> present OrmPublication_cls session_1 ''2''"
  by (simp_all add: present_def table_of_classes id_attr_classes session_1_def empty_session_def
      publication_1_def py_id_def decimal_integer_examples)

lemma primary_key_session_1: "primary_key OrmPublication_cls session_1"
  by (simp add: primary_key_def table_of_classes id_attr_classes session_1_def publication_1_def
      py_id_def)

lemma present_session_2:
  "present OrmDataset_cls session_2 ''1''" "\<not> present OrmDataset_cls session_2 ''2''"
  "\<not> present OrmDataset_cls session_2 ''missing-1''"
  by (simp_all add: present_def table_of_classes id_attr_classes session_2_def empty_session_def
      dataset_row_1_def py_id_def decimal_integer_examples)

lemma primary_key_session_2: "primary_key OrmDataset_cls session_2"
  by (simp add: primary_key_def table_of_classes id_attr_classes session_2_def dataset_row_1_def
      py_id_def)

text \<open>
  C1. Against the dataset class, whose rows have integer identifiers, a resolution of a
  non-empty set of identifiers of which at least one is not present fails with status
  404 and returns no rows, but its message joins every identifier asked for, the present
  ones with the missing ones: with only the dataset 1 in the table, resolving \<open>{1, 2}\<close>
  names both.
\<close>

theorem retrieve_lists_every_requested_id:
  assumes "finite ids" and "ids \<noteq> {}" and "primary_key OrmDataset_cls s"
    and "\<exists>i\<in>ids. \<not> present OrmDataset_cls s i"
  shows "fst (retrieve_related_objects_by_ids iter s ids OrmDataset_cls)
           = Inl (HTTPException 404
               (''Dataset parts '' @ apostrophe @ join '', '' (iter ids)
                  @ apostrophe @ '' not found in the database.''))"
proof -
  obtain m where m: "m \<in> ids" "\<not> present OrmDataset_cls s m"
    using assms(4) by blast
  have "List.map_filter str_value
          (map (id_attr OrmDataset_cls)
             (filter (id_in s OrmDataset_cls ids) (table_of OrmDataset_cls s)))
        = []"
    by (simp add: OrmDataset_cls_def str_value_py_id)
  then show ?thesis
    using retrieve_fails [OF assms(1,3) m, of iter] by simp
qed

theorem retrieve_lists_every_requested_id_witness:
  "finite {''1'', ''2''} \<and> {''1'', ''2''} \<noteq> ({} :: string set)
   \<and> primary_key OrmDataset_cls session_2
   \<and> present OrmDataset_cls session_2 ''1''
   \<and> \<not> present OrmDataset_cls session_2 ''2''
   \<and> fst (retrieve_related_objects_by_ids sorted_list_of_set session_2 {''1'', ''2''}
              OrmDataset_cls)
       = Inl (HTTPException 404
           (''Dataset parts '' @ apostrophe @ ''1, 2'' @ apostrophe
              @ '' not found in the database.''))"
proof -
  have s: "sorted_list_of_set {''1'', ''2''} = [''1'', ''2'']"
    by simp
  show ?thesis
    using retrieve_lists_every_requested_id [of "{''1'', ''2''}" session_2 sorted_list_of_set]
    by (simp add: present_session_2 primary_key_session_2 s)
qed

lemma set_str_values:
  "set (List.map_filter str_value (map f rows)) = {i. \<exists>c\<in>set rows. f c = PyStr i}"
proof (induction rows)
  case Nil
  then show ?case by simp
next
  case (Cons a rows)
  then show ?case by (cases "f a") auto
qed

text \<open>
  Where the identifiers of the rows are texts, the message joins exactly the identifiers
  that are not present.
\<close>

lemma retrieve_reports_missing_ids_of_strings:
  assumes "enumerates iter" and "finite ids"
    and "distinct (map (id_attr cls) (table_of cls s))"
    and "\<forall>c\<in>set (table_of cls s). \<exists>t. id_attr cls c = PyStr t"
    and "m \<in> ids" and "\<not> present cls s m"
  shows "fst (retrieve_related_objects_by_ids iter s ids cls)
           = Inl (HTTPException 404
               (''Dataset parts '' @ apostrophe
                  @ join '', '' (iter {i \<in> ids. \<not> present cls s i})
                  @ apostrophe @ '' not found in the database.''))
         \<and> set (iter {i \<in> ids. \<not> present cls s i}) = {i \<in> ids. \<not> present cls s i}
         \<and> distinct (iter {i \<in> ids. \<not> present cls s i})"
proof -
  let ?rows = "table_of cls s"
  let ?found = "filter (id_in s cls ids) ?rows"
  have fu: "\<And>c i. c \<in> set ?rows
              \<Longrightarrow> found_under (integer_of_text s) (id_attr cls c) i \<longleftrightarrow> id_attr cls c = PyStr i"
    using assms(4) by force
  have f: "?found = filter (\<lambda>c. \<exists>i\<in>ids. Some (PyStr i) = Some (id_attr cls c)) ?rows"
    by (intro filter_cong) (auto simp: id_in_def fu eq_commute [of "PyStr _"])
  have p: "\<And>i. present cls s i \<longleftrightarrow> (\<exists>c\<in>set ?rows. id_attr cls c = PyStr i)"
    using fu by (auto simp: present_def list_ex_iff)
  have "\<forall>c\<in>set ?rows. Some (PyStr m) \<noteq> Some (id_attr cls c)"
    using assms(6) by (force simp: p)
  then have "length (filter (\<lambda>c. \<exists>i\<in>ids. Some (PyStr i) = Some (id_attr cls c)) ?rows) < card ids"
    using assms(3,2,5) by (intro selected_less)
  then have l: "length ?found \<noteq> card ids"
    using f by simp
  have "card ids > 0"
    using assms(2,5) by (auto simp: card_gt_0_iff)
  then have r: "fst (retrieve_related_objects_by_ids iter s ids cls)
           = Inl (HTTPException 404
               (''Dataset parts '' @ apostrophe
                  @ join '', ''
                      (iter (ids - set (List.map_filter str_value (map (id_attr cls) ?found))))
                  @ apostrophe @ '' not found in the database.''))"
    using l by (simp add: retrieve_related_objects_by_ids_def Let_def)
  have "set (List.map_filter str_value (map (id_attr cls) ?found))
          = {i. \<exists>c\<in>set ?found. id_attr cls c = PyStr i}"
    by (rule set_str_values)
  also have "\<dots> = {i \<in> ids. present cls s i}"
    using assms(4) by (force simp: p id_in_def)
  finally have miss: "ids - set (List.map_filter str_value (map (id_attr cls) ?found))
                        = {i \<in> ids. \<not> present cls s i}"
    by auto
  have "finite {i \<in> ids. \<not> present cls s i}"
    using assms(2) by simp
  then have "set (iter {i \<in> ids. \<not> present cls s i}) = {i \<in> ids. \<not> present cls s i}"
      and "distinct (iter {i \<in> ids. \<not> present cls s i})"
    using assms(1) by (simp_all add: enumerates_def)
  then show ?thesis
    using r by (simp add: miss)
qed

text \<open>
  C6. For the empty set of identifiers the resolution returns the empty list and leaves
  the session as it was: no lookup is added to the log, whatever the class.
\<close>

theorem retrieve_empty_set_no_lookup:
  "retrieve_related_objects_by_ids iter s {} cls = (Inr [], s)
   \<and> lookups (snd (retrieve_related_objects_by_ids iter s {} cls)) = lookups s"
  by (simp add: retrieve_related_objects_by_ids_def)

section \<open>Properties of the conversion to the internal record\<close>

lemma retrieve_snd_lookups:
  "snd (retrieve_related_objects_by_ids iter s ids cls)
     = s\<lparr>lookups := (if card ids > 0 then lookups s @ [(cls_name cls, ids)] else lookups s)\<rparr>"
  by (simp add: retrieve_related_objects_by_ids_def Let_def)

lemma id_in_lookups [simp]: "id_in (s\<lparr>lookups := l\<rparr>) cls ids = id_in s cls ids"
  by (simp add: fun_eq_iff id_in_def)

lemma retrieve_fst_lookups:
  "fst (retrieve_related_objects_by_ids iter (s\<lparr>lookups := l\<rparr>) ids OrmDataset_cls)
     = fst (retrieve_related_objects_by_ids iter s ids OrmDataset_cls)"
  "fst (retrieve_related_objects_by_ids iter (s\<lparr>lookups := l\<rparr>) ids OrmPublication_cls)
     = fst (retrieve_related_objects_by_ids iter s ids OrmPublication_cls)"
  by (simp_all add: retrieve_related_objects_by_ids_def Let_def table_of_classes id_in_def)

lemma as_unique_each_preserves:
  assumes "\<And>s k. g (snd (f s k)) = g s"
  shows "g (snd (as_unique_each f s ks)) = g s"
proof (induction ks arbitrary: s)
  case Nil
  then show ?case by simp
next
  case (Cons k ks)
  have "snd (as_unique_each f s (k # ks)) = snd (as_unique_each f (snd (f s k)) ks)"
    by (simp add: case_prod_unfold Let_def)
  then show ?case using Cons assms by simp
qed

lemma OrmLicense_as_unique_other_tables [simp]:
  "dataset_table (snd (OrmLicense_as_unique s n)) = dataset_table s"
  "publication_table (snd (OrmLicense_as_unique s n)) = publication_table s"
  "alternate_name_table (snd (OrmLicense_as_unique s n)) = alternate_name_table s"
  "keyword_table (snd (OrmLicense_as_unique s n)) = keyword_table s"
  "measured_value_table (snd (OrmLicense_as_unique s n)) = measured_value_table s"
  "lookups (snd (OrmLicense_as_unique s n)) = lookups s"
  "integer_of_text (snd (OrmLicense_as_unique s n)) = integer_of_text s"
  by (simp_all add: OrmLicense_as_unique_def case_prod_unfold Let_def)

lemma OrmAlternateName_as_unique_other_tables [simp]:
  "dataset_table (snd (OrmAlternateName_as_unique s n)) = dataset_table s"
  "publication_table (snd (OrmAlternateName_as_unique s n)) = publication_table s"
  "license_table (snd (OrmAlternateName_as_unique s n)) = license_table s"
  "keyword_table (snd (OrmAlternateName_as_unique s n)) = keyword_table s"
  "measured_value_table (snd (OrmAlternateName_as_unique s n)) = measured_value_table s"
  "lookups (snd (OrmAlternateName_as_unique s n)) = lookups s"
  "integer_of_text (snd (OrmAlternateName_as_unique s n)) = integer_of_text s"
  by (simp_all add: OrmAlternateName_as_unique_def case_prod_unfold Let_def)

lemma OrmKeyword_as_unique_other_tables [simp]:
  "dataset_table (snd (OrmKeyword_as_unique s n)) = dataset_table s"
  "publication_table (snd (OrmKeyword_as_unique s n)) = publication_table s"
  "license_table (snd (OrmKeyword_as_unique s n)) = license_table s"
  "alternate_name_table (snd (OrmKeyword_as_unique s n)) = alternate_name_table s"
  "measured_value_table (snd (OrmKeyword_as_unique s n)) = measured_value_table s"
  "lookups (snd (OrmKeyword_as_unique s n)) = lookups s"
  "integer_of_text (snd (OrmKeyword_as_unique s n)) = integer_of_text s"
  by (simp_all add: OrmKeyword_as_unique_def case_prod_unfold Let_def)

lemma resolve_measured_value_other_tables [simp]:
  "dataset_table (snd (resolve_measured_value s mv)) = dataset_table s"
  "publication_table (snd (resolve_measured_value s mv)) = publication_table s"
  "license_table (snd (resolve_measured_value s mv)) = license_table s"
  "alternate_name_table (snd (resolve_measured_value s mv)) = alternate_name_table s"
  "keyword_table (snd (resolve_measured_value s mv)) = keyword_table s"
  "lookups (snd (resolve_measured_value s mv)) = lookups s"
  "integer_of_text (snd (resolve_measured_value s mv)) = integer_of_text s"
  by (simp_all add: resolve_measured_value_def OrmMeasuredValue_as_unique_def case_prod_unfold
      Let_def)

text \<open>What each step of the constructor call leaves as it was.\<close>

lemma after_license_other_tables [simp]:
  "dataset_table (after_license s aiod) = dataset_table s"
  "publication_table (after_license s aiod) = publication_table s"
  "alternate_name_table (after_license s aiod) = alternate_name_table s"
  "keyword_table (after_license s aiod) = keyword_table s"
  "measured_value_table (after_license s aiod) = measured_value_table s"
  "lookups (after_license s aiod) = lookups s"
  "integer_of_text (after_license s aiod) = integer_of_text s"
  by (simp_all add: after_license_def split: option.splits)

lemma after_alternate_names_other_tables [simp]:
  "dataset_table (after_alternate_names iter s aiod) = dataset_table s"
  "publication_table (after_alternate_names iter s aiod) = publication_table s"
  "license_table (after_alternate_names iter s aiod) = license_table (after_license s aiod)"
  "keyword_table (after_alternate_names iter s aiod) = keyword_table s"
  "measured_value_table (after_alternate_names iter s aiod) = measured_value_table s"
  "lookups (after_alternate_names iter s aiod) = lookups s"
  "integer_of_text (after_alternate_names iter s aiod) = integer_of_text s"
  by (simp_all add: after_alternate_names_def as_unique_each_preserves)

lemma after_keywords_other_tables [simp]:
  "dataset_table (after_keywords iter s aiod) = dataset_table s"
  "publication_table (after_keywords iter s aiod) = publication_table s"
  "license_table (after_keywords iter s aiod) = license_table (after_license s aiod)"
  "alternate_name_table (after_keywords iter s aiod)
     = alternate_name_table (after_alternate_names iter s aiod)"
  "measured_value_table (after_keywords iter s aiod) = measured_value_table s"
  "lookups (after_keywords iter s aiod) = lookups s"
  "integer_of_text (after_keywords iter s aiod) = integer_of_text s"
  by (simp_all add: after_keywords_def as_unique_each_preserves)

lemma after_measured_values_other_tables [simp]:
  "dataset_table (after_measured_values iter s aiod) = dataset_table s"
  "publication_table (after_measured_values iter s aiod) = publication_table s"
  "license_table (after_measured_values iter s aiod) = license_table (after_license s aiod)"
  "alternate_name_table (after_measured_values iter s aiod)
     = alternate_name_table (after_alternate_names iter s aiod)"
  "keyword_table (after_measured_values iter s aiod) = keyword_table (after_keywords iter s aiod)"
  "lookups (after_measured_values iter s aiod) = lookups s"
  "integer_of_text (after_measured_values iter s aiod) = integer_of_text s"
  by (simp_all add: after_measured_values_def as_unique_each_preserves)

text \<open>
  The constructor call, step by step: the record it builds and the session it leaves.
\<close>

lemma build_orm_eq:
  "build_orm iter s aiod c h p =
     (\<lparr>OrmDataset_columns.id = AIoDDataset.id aiod,
       OrmDataset_columns.description = AIoDDataset.description aiod,
       OrmDataset_columns.name = AIoDDataset.name aiod,
       OrmDataset_columns.node = AIoDDataset.node aiod,
       OrmDataset_columns.node_specific_identifier = AIoDDataset.node_specific_identifier aiod,
       OrmDataset_columns.same_as = AIoDDataset.same_as aiod,
       OrmDataset_columns.creator = AIoDDataset.creator aiod,
       OrmDataset_columns.date_modified = AIoDDataset.date_modified aiod,
       OrmDataset_columns.date_published = AIoDDataset.date_published aiod,
       OrmDataset_columns.funder = AIoDDataset.funder aiod,
       OrmDataset_columns.is_accessible_for_free = AIoDDataset.is_accessible_for_free aiod,
       OrmDataset_columns.issn = AIoDDataset.issn aiod,
       OrmDataset_columns.size = AIoDDataset.size aiod,
       OrmDataset_columns.spatial_coverage = AIoDDataset.spatial_coverage aiod,
       OrmDataset_columns.temporal_coverage_from = AIoDDataset.temporal_coverage_from aiod,
       OrmDataset_columns.temporal_coverage_to = AIoDDataset.temporal_coverage_to aiod,
       OrmDataset_columns.version = AIoDDataset.version aiod,
       OrmDataset.license =
         map_option (\<lambda>n. fst (OrmLicense_as_unique s n)) (AIoDDataset.license aiod),
       OrmDataset.has_parts = h,
       OrmDataset.is_part = p,
       OrmDataset.alternate_names =
         fst (as_unique_each OrmAlternateName_as_unique (after_license s aiod)
                (iter (AIoDDataset.alternate_names aiod))),
       OrmDataset.citations = c,
       OrmDataset.distributions = map distribution_to_orm (AIoDDataset.distributions aiod),
       OrmDataset.keywords =
         fst (as_unique_each OrmKeyword_as_unique (after_alternate_names iter s aiod)
                (iter (AIoDDataset.keywords aiod))),
       OrmDataset.measured_values =
         fst (as_unique_each resolve_measured_value (after_keywords iter s aiod)
                (AIoDDataset.measured_values aiod))\<rparr>,
      after_measured_values iter s aiod)"
  unfolding after_measured_values_def after_keywords_def after_alternate_names_def
    after_license_def resolve_measured_value_def [abs_def]
  by (simp add: build_orm_def case_prod_unfold Let_def split: option.splits)

lemma build_orm_citations: "OrmDataset.citations (fst (build_orm iter s aiod c h p)) = c"
  by (simp add: build_orm_eq)

lemma aiod_to_orm_publication_table:
  "publication_table (snd (aiod_to_orm iter s aiod)) = publication_table s"
  by (simp add: aiod_to_orm_def case_prod_unfold Let_def build_orm_eq retrieve_snd_lookups
      split: citations_field.splits sum.splits)

text \<open>
  A conversion that returns a record: the three resolutions have succeeded, in the
  session as it was but for its log of lookups, and the record and the session are those
  of the constructor call.
\<close>

lemma aiod_to_orm_Inr:
  assumes "fst (aiod_to_orm iter s aiod) = Inr orm"
  shows "\<exists>l c h p.
           snd (aiod_to_orm iter s aiod) = snd (build_orm iter (s\<lparr>lookups := l\<rparr>) aiod c h p)
             \<and> orm = fst (build_orm iter (s\<lparr>lookups := l\<rparr>) aiod c h p)
             \<and> (case AIoDDataset.citations aiod of
                   CitationRecords ps \<Rightarrow> c = []
                 | CitationIds ids \<Rightarrow>
                     fst (retrieve_related_objects_by_ids iter s ids OrmPublication_cls) = Inr c)
             \<and> fst (retrieve_related_objects_by_ids iter s (AIoDDataset.has_parts aiod)
                      OrmDataset_cls) = Inr h
             \<and> fst (retrieve_related_objects_by_ids iter s (AIoDDataset.is_part aiod)
                      OrmDataset_cls) = Inr p"
proof -
  define cr where "cr =
    (case AIoDDataset.citations aiod of
       CitationRecords publications \<Rightarrow> (Inr [], s)
     | CitationIds ids \<Rightarrow> retrieve_related_objects_by_ids iter s ids OrmPublication_cls)"
  obtain l1 where s1: "snd cr = s\<lparr>lookups := l1\<rparr>"
  proof (cases "AIoDDataset.citations aiod")
    case (CitationIds ids)
    then show ?thesis
      using that by (simp add: cr_def retrieve_snd_lookups)
  next
    case (CitationRecords ps)
    then have "snd cr = s\<lparr>lookups := lookups s\<rparr>"
      by (simp add: cr_def)
    then show ?thesis
      using that by blast
  qed
  define hr where "hr = retrieve_related_objects_by_ids iter (snd cr) (AIoDDataset.has_parts aiod)
    OrmDataset_cls"
  define pr where "pr = retrieve_related_objects_by_ids iter (snd hr) (AIoDDataset.is_part aiod)
    OrmDataset_cls"
  obtain l2 where s2: "snd hr = s\<lparr>lookups := l2\<rparr>"
    using that by (simp add: hr_def s1 retrieve_snd_lookups)
  obtain l3 where s3: "snd pr = s\<lparr>lookups := l3\<rparr>"
    using that by (simp add: pr_def s2 retrieve_snd_lookups)
  have unfold: "aiod_to_orm iter s aiod =
    (case fst cr of
       Inl e \<Rightarrow> (Inl e, snd cr)
     | Inr c \<Rightarrow>
        (case fst hr of
           Inl e \<Rightarrow> (Inl e, snd hr)
         | Inr h \<Rightarrow>
            (case fst pr of
               Inl e \<Rightarrow> (Inl e, snd pr)
             | Inr p \<Rightarrow> (Inr (fst (build_orm iter (snd pr) aiod c h p)),
                         snd (build_orm iter (snd pr) aiod c h p)))))"
    by (simp add: aiod_to_orm_def cr_def hr_def pr_def case_prod_unfold Let_def
        split: sum.splits)
  obtain c where c: "fst cr = Inr c"
    using assms unfold by (cases "fst cr") simp_all
  obtain h where h: "fst hr = Inr h"
    using assms unfold c by (cases "fst hr") simp_all
  obtain p where p: "fst pr = Inr p"
    using assms unfold c h by (cases "fst pr") simp_all
  have 1: "aiod_to_orm iter s aiod
             = (Inr (fst (build_orm iter (s\<lparr>lookups := l3\<rparr>) aiod c h p)),
                snd (build_orm iter (s\<lparr>lookups := l3\<rparr>) aiod c h p))"
    using unfold c h p s3 by simp
  have 2: "case AIoDDataset.citations aiod of
             CitationRecords ps \<Rightarrow> c = []
           | CitationIds ids \<Rightarrow>
               fst (retrieve_related_objects_by_ids iter s ids OrmPublication_cls) = Inr c"
    using c by (simp add: cr_def split: citations_field.splits)
  have 3: "fst (retrieve_related_objects_by_ids iter s (AIoDDataset.has_parts aiod)
                  OrmDataset_cls) = Inr h"
    using h by (simp add: hr_def s1 retrieve_fst_lookups)
  have 4: "fst (retrieve_related_objects_by_ids iter s (AIoDDataset.is_part aiod)
                  OrmDataset_cls) = Inr p"
    using p by (simp add: pr_def s2 retrieve_fst_lookups)
  have 5: "orm = fst (build_orm iter (s\<lparr>lookups := l3\<rparr>) aiod c h p)"
    using assms 1 by simp
  have 6: "snd (aiod_to_orm iter s aiod) = snd (build_orm iter (s\<lparr>lookups := l3\<rparr>) aiod c h p)"
    using 1 by simp
  show ?thesis
  proof (intro exI conjI)
    show "snd (aiod_to_orm iter s aiod) = snd (build_orm iter (s\<lparr>lookups := l3\<rparr>) aiod c h p)"
      by (fact 6)
    show "orm = fst (build_orm iter (s\<lparr>lookups := l3\<rparr>) aiod c h p)"
      by (fact 5)
    show "case AIoDDataset.citations aiod of
             CitationRecords ps \<Rightarrow> c = []
           | CitationIds ids \<Rightarrow>
               fst (retrieve_related_objects_by_ids iter s ids OrmPublication_cls) = Inr c"
      by (fact 2)
    show "fst (retrieve_related_objects_by_ids iter s (AIoDDataset.has_parts aiod)
                  OrmDataset_cls) = Inr h"
      by (fact 3)
    show "fst (retrieve_related_objects_by_ids iter s (AIoDDataset.is_part aiod)
                  OrmDataset_cls) = Inr p"
      by (fact 4)
  qed
qed

lemma aiod_to_orm_succeeds:
  assumes "AIoDDataset.citations aiod = CitationRecords publications"
    and "fst (retrieve_related_objects_by_ids iter s (AIoDDataset.has_parts aiod) OrmDataset_cls)
           = Inr h"
    and "fst (retrieve_related_objects_by_ids iter s (AIoDDataset.is_part aiod) OrmDataset_cls)
           = Inr p"
  shows "\<exists>orm. fst (aiod_to_orm iter s aiod) = Inr orm"
  using assms
  by (simp add: aiod_to_orm_def case_prod_unfold Let_def retrieve_snd_lookups
      retrieve_fst_lookups)

text \<open>
  C5. When the citations of a canonical dataset are a list of embedded publication
  records, the conversion leaves the publication table as it was, every internal record
  it returns has an empty citations collection, and it does return a record whenever the
  resolutions of \<^verbatim>\<open>has_parts\<close> and \<^verbatim>\<open>is_part\<close> succeed; they succeed when the
  dataset table has an integer primary key, every identifier is present and no two
  identifiers of one set are read as the same integer.
\<close>

theorem embedded_citations_discarded:
  assumes "AIoDDataset.citations aiod = CitationRecords publications"
  shows "publication_table (snd (aiod_to_orm iter s aiod)) = publication_table s
         \<and> (\<forall>orm. fst (aiod_to_orm iter s aiod) = Inr orm \<longrightarrow> OrmDataset.citations orm = [])
         \<and> ((\<exists>h. fst (retrieve_related_objects_by_ids iter s (AIoDDataset.has_parts aiod)
                        OrmDataset_cls) = Inr h)
              \<and> (\<exists>p. fst (retrieve_related_objects_by_ids iter s (AIoDDataset.is_part aiod)
                          OrmDataset_cls) = Inr p)
            \<longrightarrow> (\<exists>orm. fst (aiod_to_orm iter s aiod) = Inr orm))
         \<and> (primary_key OrmDataset_cls s
              \<and> finite (AIoDDataset.has_parts aiod)
              \<and> (\<forall>i\<in>AIoDDataset.has_parts aiod. present OrmDataset_cls s i)
              \<and> inj_on (integer_of_text s) (AIoDDataset.has_parts aiod)
              \<and> finite (AIoDDataset.is_part aiod)
              \<and> (\<forall>i\<in>AIoDDataset.is_part aiod. present OrmDataset_cls s i)
              \<and> inj_on (integer_of_text s) (AIoDDataset.is_part aiod)
            \<longrightarrow> (\<exists>orm. fst (aiod_to_orm iter s aiod) = Inr orm))"
proof (intro conjI allI impI)
  show "publication_table (snd (aiod_to_orm iter s aiod)) = publication_table s"
    by (rule aiod_to_orm_publication_table)
next
  fix orm
  assume "fst (aiod_to_orm iter s aiod) = Inr orm"
  then show "OrmDataset.citations orm = []"
    using assms
    by (auto simp: aiod_to_orm_def case_prod_unfold Let_def build_orm_citations split: sum.splits)
next
  assume "(\<exists>h. fst (retrieve_related_objects_by_ids iter s (AIoDDataset.has_parts aiod)
                     OrmDataset_cls) = Inr h)
          \<and> (\<exists>p. fst (retrieve_related_objects_by_ids iter s (AIoDDataset.is_part aiod)
                       OrmDataset_cls) = Inr p)"
  then show "\<exists>orm. fst (aiod_to_orm iter s aiod) = Inr orm"
    using aiod_to_orm_succeeds [OF assms] by blast
next
  assume a: "primary_key OrmDataset_cls s
              \<and> finite (AIoDDataset.has_parts aiod)
              \<and> (\<forall>i\<in>AIoDDataset.has_parts aiod. present OrmDataset_cls s i)
              \<and> inj_on (integer_of_text s) (AIoDDataset.has_parts aiod)
              \<and> finite (AIoDDataset.is_part aiod)
              \<and> (\<forall>i\<in>AIoDDataset.is_part aiod. present OrmDataset_cls s i)
              \<and> inj_on (integer_of_text s) (AIoDDataset.is_part aiod)"
  have h: "fst (retrieve_related_objects_by_ids iter s (AIoDDataset.has_parts aiod) OrmDataset_cls)
             = Inr (filter (id_in s OrmDataset_cls (AIoDDataset.has_parts aiod))
                 (table_of OrmDataset_cls s))"
    using a by (intro retrieve_succeeds) simp_all
  have p: "fst (retrieve_related_objects_by_ids iter s (AIoDDataset.is_part aiod) OrmDataset_cls)
             = Inr (filter (id_in s OrmDataset_cls (AIoDDataset.is_part aiod))
                 (table_of OrmDataset_cls s))"
    using a by (intro retrieve_succeeds) simp_all
  show "\<exists>orm. fst (aiod_to_orm iter s aiod) = Inr orm"
    using assms h p by (rule aiod_to_orm_succeeds)
qed

theorem embedded_citations_discarded_witness:
  "AIoDDataset.citations (dset1\<lparr>AIoDDataset.citations := CitationRecords [paper_1]\<rparr>)
     = CitationRecords [paper_1]
   \<and> publication_table
       (snd (aiod_to_orm sorted_list_of_set session_1
          (dset1\<lparr>AIoDDataset.citations := CitationRecords [paper_1]\<rparr>))) = [publication_1]
   \<and> (\<exists>orm. fst (aiod_to_orm sorted_list_of_set session_1
                 (dset1\<lparr>AIoDDataset.citations := CitationRecords [paper_1]\<rparr>)) = Inr orm
            \<and> OrmDataset.citations orm = [])"
proof -
  have pk: "primary_key OrmDataset_cls session_1"
    by (simp add: primary_key_def table_of_classes session_1_def empty_session_def)
  have e: "AIoDDataset.has_parts dset1 = {}" "AIoDDataset.is_part dset1 = {}"
    by (simp_all add: dset1_def)
  have t: "publication_table session_1 = [publication_1]"
    by (simp add: session_1_def)
  show ?thesis
    using embedded_citations_discarded [of "dset1\<lparr>AIoDDataset.citations := CitationRecords [paper_1]\<rparr>"
        "[paper_1]" sorted_list_of_set session_1]
    by (auto simp: pk e t)
qed

text \<open>
  C4. A citations resolution that fails against the publication class: the message of the
  exception starts with \<^verbatim>\<open>Dataset parts\<close>, the text the resolution writes for every
  class, and does not name the publication class.
\<close>

theorem citations_not_found_message:
  "fst (aiod_to_orm sorted_list_of_set session_1
          (dset1\<lparr>AIoDDataset.citations := CitationIds {''2''}\<rparr>))
     = Inl (HTTPException 404
         (''Dataset parts '' @ apostrophe @ ''2'' @ apostrophe @ '' not found in the database.''))"
proof -
  have "fst (retrieve_related_objects_by_ids sorted_list_of_set session_1 {''2''}
               OrmPublication_cls)
          = Inl (HTTPException 404
              (''Dataset parts '' @ apostrophe @ ''2'' @ apostrophe
                 @ '' not found in the database.''))"
    by (simp add: retrieve_related_objects_by_ids_def session_1_def empty_session_def
        publication_1_def OrmPublication_cls_def id_in_def py_id_def decimal_integer_examples)
  then show ?thesis
    by (simp add: aiod_to_orm_def case_prod_unfold)
qed

section \<open>Properties of the shared lookup entities\<close>

lemma fold_max_upper: "x \<in> set ids \<Longrightarrow> x \<le> fold max ids (a :: int)"
proof (induction ids arbitrary: a)
  case Nil
  then show ?case by simp
next
  case (Cons i ids)
  have "a \<le> fold max ids a" for a :: int and ids
    by (induction ids arbitrary: a) (auto intro: order_trans [OF max.cobounded2])
  then have "i \<le> fold max ids (max i a)"
    by (meson max.cobounded1 order_trans)
  then show ?case
    using Cons by auto
qed

lemma fresh_id_fresh: "fresh_id ids \<notin> set ids"
  using fold_max_upper [of "fresh_id ids" ids 0] by (auto simp: fresh_id_def)

lemma find_append_new:
  "find P rows = None \<Longrightarrow> P r \<Longrightarrow> find P (rows @ [r]) = Some r"
  by (induction rows) (auto split: if_splits)

lemma as_unique_key:
  assumes "\<And>i k. key_of (new_row i k) = k"
  shows "key_of (fst (as_unique key_of row_id new_row rows k)) = k"
  using assms by (auto simp: as_unique_def find_Some_iff split: option.splits)

lemma as_unique_rows:
  "snd (as_unique key_of row_id new_row rows k)
     = (if k \<in> key_of ` set rows then rows
        else rows @ [fst (as_unique key_of row_id new_row rows k)])"
  by (auto simp: as_unique_def find_None_iff find_Some_iff split: option.splits)

lemma as_unique_old:
  "k \<in> key_of ` set rows \<Longrightarrow> fst (as_unique key_of row_id new_row rows k) \<in> set rows"
  by (auto simp: as_unique_def find_None_iff find_Some_iff split: option.splits)

lemma as_unique_again:
  assumes "\<And>i k. key_of (new_row i k) = k"
  shows "as_unique key_of row_id new_row (snd (as_unique key_of row_id new_row rows k)) k
           = as_unique key_of row_id new_row rows k"
proof (cases "find (\<lambda>r. key_of r = k) rows")
  case None
  then show ?thesis
    using assms by (simp add: as_unique_def find_append_new)
next
  case (Some r)
  then show ?thesis
    by (simp add: as_unique_def)
qed

text \<open>
  The four resolvers: the row returned has the key asked for; the table is left as it
  was when it has a row of that key, and the row returned is then one of its rows;
  otherwise the row returned is added to it. Resolving the key again returns the same
  row and leaves the session as it is.
\<close>

lemma OrmLicense_as_unique_key: "OrmLicense.name (fst (OrmLicense_as_unique s k)) = k"
proof -
  have "OrmLicense.name (fst (as_unique OrmLicense.name OrmLicense.id
          (\<lambda>i k. \<lparr>OrmLicense.id = i, OrmLicense.name = k\<rparr>) (license_table s) k)) = k"
    by (rule as_unique_key) simp
  then show ?thesis
    by (simp add: OrmLicense_as_unique_def case_prod_unfold Let_def)
qed

lemma OrmLicense_as_unique_table:
  "license_table (snd (OrmLicense_as_unique s k))
     = (if k \<in> OrmLicense.name ` set (license_table s) then license_table s
        else license_table s @ [fst (OrmLicense_as_unique s k)])"
  by (simp add: OrmLicense_as_unique_def case_prod_unfold Let_def as_unique_rows)

lemma OrmLicense_as_unique_old:
  "k \<in> OrmLicense.name ` set (license_table s)
     \<Longrightarrow> fst (OrmLicense_as_unique s k) \<in> set (license_table s)"
  by (simp add: OrmLicense_as_unique_def case_prod_unfold Let_def as_unique_old)

lemma OrmLicense_as_unique_again:
  "OrmLicense_as_unique (snd (OrmLicense_as_unique s k)) k
     = (fst (OrmLicense_as_unique s k), snd (OrmLicense_as_unique s k))"
proof -
  let ?new = "\<lambda>i k. \<lparr>OrmLicense.id = i, OrmLicense.name = k\<rparr>"
  have "as_unique OrmLicense.name OrmLicense.id ?new
          (snd (as_unique OrmLicense.name OrmLicense.id ?new (license_table s) k)) k
        = as_unique OrmLicense.name OrmLicense.id ?new (license_table s) k"
    by (rule as_unique_again) simp
  then show ?thesis
    by (simp add: OrmLicense_as_unique_def case_prod_unfold Let_def)
qed

lemma OrmAlternateName_as_unique_key:
  "OrmAlternateName.name (fst (OrmAlternateName_as_unique s k)) = k"
proof -
  have "OrmAlternateName.name (fst (as_unique OrmAlternateName.name OrmAlternateName.id
          (\<lambda>i k. \<lparr>OrmAlternateName.id = i, OrmAlternateName.name = k\<rparr>)
          (alternate_name_table s) k)) = k"
    by (rule as_unique_key) simp
  then show ?thesis
    by (simp add: OrmAlternateName_as_unique_def case_prod_unfold Let_def)
qed

lemma OrmAlternateName_as_unique_table:
  "alternate_name_table (snd (OrmAlternateName_as_unique s k))
     = (if k \<in> OrmAlternateName.name ` set (alternate_name_table s) then alternate_name_table s
        else alternate_name_table s @ [fst (OrmAlternateName_as_unique s k)])"
  by (simp add: OrmAlternateName_as_unique_def case_prod_unfold Let_def as_unique_rows)

lemma OrmAlternateName_as_unique_old:
  "k \<in> OrmAlternateName.name ` set (alternate_name_table s)
     \<Longrightarrow> fst (OrmAlternateName_as_unique s k) \<in> set (alternate_name_table s)"
  by (simp add: OrmAlternateName_as_unique_def case_prod_unfold Let_def as_unique_old)

lemma OrmAlternateName_as_unique_again:
  "OrmAlternateName_as_unique (snd (OrmAlternateName_as_unique s k)) k
     = (fst (OrmAlternateName_as_unique s k), snd (OrmAlternateName_as_unique s k))"
proof -
  let ?new = "\<lambda>i k. \<lparr>OrmAlternateName.id = i, OrmAlternateName.name = k\<rparr>"
  have "as_unique OrmAlternateName.name OrmAlternateName.id ?new
          (snd (as_unique OrmAlternateName.name OrmAlternateName.id ?new
                 (alternate_name_table s) k)) k
        = as_unique OrmAlternateName.name OrmAlternateName.id ?new (alternate_name_table s) k"
    by (rule as_unique_again) simp
  then show ?thesis
    by (simp add: OrmAlternateName_as_unique_def case_prod_unfold Let_def)
qed

lemma OrmKeyword_as_unique_key: "OrmKeyword.name (fst (OrmKeyword_as_unique s k)) = k"
proof -
  have "OrmKeyword.name (fst (as_unique OrmKeyword.name OrmKeyword.id
          (\<lambda>i k. \<lparr>OrmKeyword.id = i, OrmKeyword.name = k\<rparr>) (keyword_table s) k)) = k"
    by (rule as_unique_key) simp
  then show ?thesis
    by (simp add: OrmKeyword_as_unique_def case_prod_unfold Let_def)
qed

lemma OrmKeyword_as_unique_table:
  "keyword_table (snd (OrmKeyword_as_unique s k))
     = (if k \<in> OrmKeyword.name ` set (keyword_table s) then keyword_table s
        else keyword_table s @ [fst (OrmKeyword_as_unique s k)])"
  by (simp add: OrmKeyword_as_unique_def case_prod_unfold Let_def as_unique_rows)

lemma OrmKeyword_as_unique_old:
  "k \<in> OrmKeyword.name ` set (keyword_table s)
     \<Longrightarrow> fst (OrmKeyword_as_unique s k) \<in> set (keyword_table s)"
  by (simp add: OrmKeyword_as_unique_def case_prod_unfold Let_def as_unique_old)

lemma OrmKeyword_as_unique_again:
  "OrmKeyword_as_unique (snd (OrmKeyword_as_unique s k)) k
     = (fst (OrmKeyword_as_unique s k), snd (OrmKeyword_as_unique s k))"
proof -
  let ?new = "\<lambda>i k. \<lparr>OrmKeyword.id = i, OrmKeyword.name = k\<rparr>"
  have "as_unique OrmKeyword.name OrmKeyword.id ?new
          (snd (as_unique OrmKeyword.name OrmKeyword.id ?new (keyword_table s) k)) k
        = as_unique OrmKeyword.name OrmKeyword.id ?new (keyword_table s) k"
    by (rule as_unique_again) simp
  then show ?thesis
    by (simp add: OrmKeyword_as_unique_def case_prod_unfold Let_def)
qed

lemma OrmMeasuredValue_as_unique_key:
  "measured_value_key (fst (OrmMeasuredValue_as_unique s v t)) = (v, t)"
proof -
  have "measured_value_key (fst (as_unique measured_value_key OrmMeasuredValue.id
          (\<lambda>i k. \<lparr>OrmMeasuredValue.id = i, OrmMeasuredValue.variable = fst k,
                   OrmMeasuredValue.technique = snd k\<rparr>) (measured_value_table s) (v, t)))
        = (v, t)"
    by (rule as_unique_key) (simp add: measured_value_key_def)
  then show ?thesis
    by (simp add: OrmMeasuredValue_as_unique_def case_prod_unfold Let_def)
qed

lemma OrmMeasuredValue_as_unique_table:
  "measured_value_table (snd (OrmMeasuredValue_as_unique s v t))
     = (if (v, t) \<in> measured_value_key ` set (measured_value_table s)
        then measured_value_table s
        else measured_value_table s @ [fst (OrmMeasuredValue_as_unique s v t)])"
  by (simp add: OrmMeasuredValue_as_unique_def case_prod_unfold Let_def as_unique_rows)

lemma OrmMeasuredValue_as_unique_old:
  "(v, t) \<in> measured_value_key ` set (measured_value_table s)
     \<Longrightarrow> fst (OrmMeasuredValue_as_unique s v t) \<in> set (measured_value_table s)"
  by (simp add: OrmMeasuredValue_as_unique_def case_prod_unfold Let_def as_unique_old)

lemma OrmMeasuredValue_as_unique_again:
  "OrmMeasuredValue_as_unique (snd (OrmMeasuredValue_as_unique s v t)) v t
     = (fst (OrmMeasuredValue_as_unique s v t), snd (OrmMeasuredValue_as_unique s v t))"
proof -
  let ?new = "\<lambda>i k. \<lparr>OrmMeasuredValue.id = i, OrmMeasuredValue.variable = fst k,
                      OrmMeasuredValue.technique = snd k\<rparr>"
  have "as_unique measured_value_key OrmMeasuredValue.id ?new
          (snd (as_unique measured_value_key OrmMeasuredValue.id ?new
                 (measured_value_table s) (v, t))) (v, t)
        = as_unique measured_value_key OrmMeasuredValue.id ?new (measured_value_table s) (v, t)"
    by (rule as_unique_again) (simp add: measured_value_key_def)
  then show ?thesis
    by (simp add: OrmMeasuredValue_as_unique_def case_prod_unfold Let_def)
qed

lemma resolve_measured_value_key:
  "measured_value_key (fst (resolve_measured_value s mv)) = measurement_key mv"
  by (simp add: resolve_measured_value_def measurement_key_def OrmMeasuredValue_as_unique_key)

lemma resolve_measured_value_table:
  "measured_value_table (snd (resolve_measured_value s mv))
     = (if measurement_key mv \<in> measured_value_key ` set (measured_value_table s)
        then measured_value_table s
        else measured_value_table s @ [fst (resolve_measured_value s mv)])"
  by (simp add: resolve_measured_value_def measurement_key_def OrmMeasuredValue_as_unique_table)

lemma resolve_measured_value_old:
  "measurement_key mv \<in> measured_value_key ` set (measured_value_table s)
     \<Longrightarrow> fst (resolve_measured_value s mv) \<in> set (measured_value_table s)"
  by (simp add: resolve_measured_value_def measurement_key_def OrmMeasuredValue_as_unique_old)

text \<open>
  A resolver \<open>f\<close> of the table \<open>T\<close> with the key \<open>key\<close>, run over a list of keys: the
  rows returned have the keys asked for, in their order, and are rows of the table the
  run leaves; the table keeps the rows it had, and its keys stay distinct.
\<close>

lemma as_unique_each_keys:
  assumes "\<And>s k. key (fst (f s k)) = kf k"
  shows "map key (fst (as_unique_each f s ks)) = map kf ks"
  using assms by (induction ks arbitrary: s) (simp_all add: case_prod_unfold Let_def)

lemma as_unique_each_grows:
  assumes "\<And>s k. T (snd (f s k)) = (if kf k \<in> key ` set (T s) then T s else T s @ [fst (f s k)])"
  shows "set (T s) \<subseteq> set (T (snd (as_unique_each f s ks)))"
proof (induction ks arbitrary: s)
  case Nil
  then show ?case by simp
next
  case (Cons k ks)
  have "set (T s) \<subseteq> set (T (snd (f s k)))"
    by (simp add: assms subset_insertI)
  also have "\<dots> \<subseteq> set (T (snd (as_unique_each f (snd (f s k)) ks)))"
    by (rule Cons.IH)
  finally show ?case
    by (simp add: case_prod_unfold Let_def)
qed

lemma as_unique_each_stored:
  assumes "\<And>s k. T (snd (f s k)) = (if kf k \<in> key ` set (T s) then T s else T s @ [fst (f s k)])"
    and "\<And>s k. kf k \<in> key ` set (T s) \<Longrightarrow> fst (f s k) \<in> set (T s)"
  shows "set (fst (as_unique_each f s ks)) \<subseteq> set (T (snd (as_unique_each f s ks)))"
proof (induction ks arbitrary: s)
  case Nil
  then show ?case by simp
next
  case (Cons k ks)
  have "fst (f s k) \<in> set (T (snd (f s k)))"
    using assms(2) [of k s] by (simp add: assms(1))
  moreover have "set (T (snd (f s k))) \<subseteq> set (T (snd (as_unique_each f (snd (f s k)) ks)))"
    using assms(1) by (rule as_unique_each_grows)
  ultimately have "fst (f s k) \<in> set (T (snd (as_unique_each f (snd (f s k)) ks)))"
    by blast
  then show ?case
    using Cons.IH [of "snd (f s k)"] by (simp add: case_prod_unfold Let_def)
qed

lemma as_unique_each_distinct:
  assumes "\<And>s k. key (fst (f s k)) = kf k"
    and "\<And>s k. T (snd (f s k)) = (if kf k \<in> key ` set (T s) then T s else T s @ [fst (f s k)])"
    and "distinct (map key (T s))"
  shows "distinct (map key (T (snd (as_unique_each f s ks))))"
  using assms(3)
proof (induction ks arbitrary: s)
  case Nil
  then show ?case by simp
next
  case (Cons k ks)
  have "distinct (map key (T (snd (f s k))))"
    using Cons.prems by (simp add: assms(1,2))
  then have "distinct (map key (T (snd (as_unique_each f (snd (f s k)) ks))))"
    by (rule Cons.IH)
  then show ?case
    by (simp add: case_prod_unfold Let_def)
qed

text \<open>In a table with distinct keys, the rows of a key are one row.\<close>

lemma one_row_of_key:
  assumes "distinct (map key rows)" and "r \<in> set rows"
  shows "filter (\<lambda>x. key x = key r) rows = [r]"
  using assms
proof (induction rows)
  case Nil
  then show ?case by simp
next
  case (Cons a rows)
  show ?case
  proof (cases "a = r")
    case True
    then have "\<forall>x\<in>set rows. key x \<noteq> key r"
      using Cons.prems(1) by (auto simp: image_iff)
    then have "filter (\<lambda>x. key x = key r) rows = []"
      by (simp add: filter_empty_conv)
    then show ?thesis using True by simp
  next
    case False
    then have "r \<in> set rows"
      using Cons.prems(2) by simp
    moreover have "key a \<noteq> key r"
      using Cons.prems(1) \<open>r \<in> set rows\<close> by (auto simp: image_iff)
    ultimately show ?thesis
      using Cons by simp
  qed
qed

lemma same_row_of_key:
  assumes "distinct (map key rows)" and "r \<in> set rows" and "r' \<in> set rows"
    and "key r = key r'"
  shows "r = r'"
  using assms by (meson distinct_map inj_on_def)

text \<open>
  A conversion that returns a record, for each of the four shared lookup entities: the
  rows the record holds have the keys the dataset lists, and are rows of the table the
  conversion leaves; the table keeps its rows, and its keys stay distinct.
\<close>

lemma license_of_conversion:
  assumes "aiod_to_orm iter s aiod = (Inr orm, s')"
  shows "map_option OrmLicense.name (OrmDataset.license orm) = AIoDDataset.license aiod"
    and "set_option (OrmDataset.license orm) \<subseteq> set (license_table s')"
    and "set (license_table s) \<subseteq> set (license_table s')"
    and "distinct (map OrmLicense.name (license_table s))
           \<Longrightarrow> distinct (map OrmLicense.name (license_table s'))"
proof -
  obtain l c h p where s': "snd (aiod_to_orm iter s aiod) = snd (build_orm iter (s\<lparr>lookups := l\<rparr>) aiod c h p)"
    and orm: "orm = fst (build_orm iter (s\<lparr>lookups := l\<rparr>) aiod c h p)"
    using aiod_to_orm_Inr [of iter s aiod orm] assms by auto
  have t: "license_table s' = license_table (after_license (s\<lparr>lookups := l\<rparr>) aiod)"
    using s' assms by (simp add: build_orm_eq)
  have o: "OrmDataset.license orm
             = map_option (\<lambda>n. fst (OrmLicense_as_unique (s\<lparr>lookups := l\<rparr>) n))
                 (AIoDDataset.license aiod)"
    by (simp add: orm build_orm_eq)
  show "map_option OrmLicense.name (OrmDataset.license orm) = AIoDDataset.license aiod"
    by (cases "AIoDDataset.license aiod") (simp_all add: o OrmLicense_as_unique_key)
  show "set_option (OrmDataset.license orm) \<subseteq> set (license_table s')"
    using OrmLicense_as_unique_old [of _ "s\<lparr>lookups := l\<rparr>"]
    by (cases "AIoDDataset.license aiod")
       (auto simp: o t after_license_def OrmLicense_as_unique_table)
  show "set (license_table s) \<subseteq> set (license_table s')"
    by (cases "AIoDDataset.license aiod")
       (auto simp: t after_license_def OrmLicense_as_unique_table)
  show "distinct (map OrmLicense.name (license_table s'))"
    if "distinct (map OrmLicense.name (license_table s))"
    using that
    by (cases "AIoDDataset.license aiod")
       (auto simp: t after_license_def OrmLicense_as_unique_table OrmLicense_as_unique_key)
qed

lemma alternate_names_of_conversion:
  assumes "aiod_to_orm iter s aiod = (Inr orm, s')"
  shows "map OrmAlternateName.name (OrmDataset.alternate_names orm)
           = iter (AIoDDataset.alternate_names aiod)"
    and "set (OrmDataset.alternate_names orm) \<subseteq> set (alternate_name_table s')"
    and "set (alternate_name_table s) \<subseteq> set (alternate_name_table s')"
    and "distinct (map OrmAlternateName.name (alternate_name_table s))
           \<Longrightarrow> distinct (map OrmAlternateName.name (alternate_name_table s'))"
proof -
  obtain l c h p where s': "snd (aiod_to_orm iter s aiod) = snd (build_orm iter (s\<lparr>lookups := l\<rparr>) aiod c h p)"
    and orm: "orm = fst (build_orm iter (s\<lparr>lookups := l\<rparr>) aiod c h p)"
    using aiod_to_orm_Inr [of iter s aiod orm] assms by auto
  let ?s0 = "after_license (s\<lparr>lookups := l\<rparr>) aiod"
  let ?ks = "iter (AIoDDataset.alternate_names aiod)"
  let ?run = "as_unique_each OrmAlternateName_as_unique ?s0 ?ks"
  have t: "alternate_name_table s' = alternate_name_table (snd ?run)"
    using s' assms by (simp add: build_orm_eq after_alternate_names_def)
  have o: "OrmDataset.alternate_names orm = fst ?run"
    by (simp add: orm build_orm_eq)
  have t0: "alternate_name_table ?s0 = alternate_name_table s"
    by simp
  show "map OrmAlternateName.name (OrmDataset.alternate_names orm) = ?ks"
    unfolding o
    using as_unique_each_keys [of OrmAlternateName.name OrmAlternateName_as_unique "\<lambda>k. k" ?s0 ?ks]
    by (simp add: OrmAlternateName_as_unique_key)
  show "set (OrmDataset.alternate_names orm) \<subseteq> set (alternate_name_table s')"
    unfolding o t
    by (rule as_unique_each_stored [where key = OrmAlternateName.name and kf = "\<lambda>k. k"])
       (simp_all add: OrmAlternateName_as_unique_table OrmAlternateName_as_unique_old)
  have "set (alternate_name_table ?s0) \<subseteq> set (alternate_name_table s')"
    unfolding t
    by (rule as_unique_each_grows [where key = OrmAlternateName.name and kf = "\<lambda>k. k"])
       (simp add: OrmAlternateName_as_unique_table)
  then show "set (alternate_name_table s) \<subseteq> set (alternate_name_table s')"
    by (simp only: t0)
  show "distinct (map OrmAlternateName.name (alternate_name_table s'))"
    if "distinct (map OrmAlternateName.name (alternate_name_table s))"
    unfolding t
    by (rule as_unique_each_distinct [where kf = "\<lambda>k. k"])
       (simp_all add: OrmAlternateName_as_unique_table OrmAlternateName_as_unique_key that)
qed

lemma keywords_of_conversion:
  assumes "aiod_to_orm iter s aiod = (Inr orm, s')"
  shows "map OrmKeyword.name (OrmDataset.keywords orm) = iter (AIoDDataset.keywords aiod)"
    and "set (OrmDataset.keywords orm) \<subseteq> set (keyword_table s')"
    and "set (keyword_table s) \<subseteq> set (keyword_table s')"
    and "distinct (map OrmKeyword.name (keyword_table s))
           \<Longrightarrow> distinct (map OrmKeyword.name (keyword_table s'))"
proof -
  obtain l c h p where s': "snd (aiod_to_orm iter s aiod) = snd (build_orm iter (s\<lparr>lookups := l\<rparr>) aiod c h p)"
    and orm: "orm = fst (build_orm iter (s\<lparr>lookups := l\<rparr>) aiod c h p)"
    using aiod_to_orm_Inr [of iter s aiod orm] assms by auto
  let ?s0 = "after_alternate_names iter (s\<lparr>lookups := l\<rparr>) aiod"
  let ?ks = "iter (AIoDDataset.keywords aiod)"
  let ?run = "as_unique_each OrmKeyword_as_unique ?s0 ?ks"
  have t: "keyword_table s' = keyword_table (snd ?run)"
    using s' assms by (simp add: build_orm_eq after_keywords_def)
  have o: "OrmDataset.keywords orm = fst ?run"
    by (simp add: orm build_orm_eq)
  have t0: "keyword_table ?s0 = keyword_table s"
    by simp
  show "map OrmKeyword.name (OrmDataset.keywords orm) = ?ks"
    unfolding o
    using as_unique_each_keys [of OrmKeyword.name OrmKeyword_as_unique "\<lambda>k. k" ?s0 ?ks]
    by (simp add: OrmKeyword_as_unique_key)
  show "set (OrmDataset.keywords orm) \<subseteq> set (keyword_table s')"
    unfolding o t
    by (rule as_unique_each_stored [where key = OrmKeyword.name and kf = "\<lambda>k. k"])
       (simp_all add: OrmKeyword_as_unique_table OrmKeyword_as_unique_old)
  have "set (keyword_table ?s0) \<subseteq> set (keyword_table s')"
    unfolding t
    by (rule as_unique_each_grows [where key = OrmKeyword.name and kf = "\<lambda>k. k"])
       (simp add: OrmKeyword_as_unique_table)
  then show "set (keyword_table s) \<subseteq> set (keyword_table s')"
    by (simp only: t0)
  show "distinct (map OrmKeyword.name (keyword_table s'))"
    if "distinct (map OrmKeyword.name (keyword_table s))"
    unfolding t
    by (rule as_unique_each_distinct [where kf = "\<lambda>k. k"])
       (simp_all add: OrmKeyword_as_unique_table OrmKeyword_as_unique_key that)
qed

lemma measured_values_of_conversion:
  assumes "aiod_to_orm iter s aiod = (Inr orm, s')"
  shows "map measured_value_key (OrmDataset.measured_values orm)
           = map measurement_key (AIoDDataset.measured_values aiod)"
    and "set (OrmDataset.measured_values orm) \<subseteq> set (measured_value_table s')"
    and "set (measured_value_table s) \<subseteq> set (measured_value_table s')"
    and "distinct (map measured_value_key (measured_value_table s))
           \<Longrightarrow> distinct (map measured_value_key (measured_value_table s'))"
proof -
  obtain l c h p where s': "snd (aiod_to_orm iter s aiod) = snd (build_orm iter (s\<lparr>lookups := l\<rparr>) aiod c h p)"
    and orm: "orm = fst (build_orm iter (s\<lparr>lookups := l\<rparr>) aiod c h p)"
    using aiod_to_orm_Inr [of iter s aiod orm] assms by auto
  let ?s0 = "after_keywords iter (s\<lparr>lookups := l\<rparr>) aiod"
  let ?ks = "AIoDDataset.measured_values aiod"
  let ?run = "as_unique_each resolve_measured_value ?s0 ?ks"
  have t: "measured_value_table s' = measured_value_table (snd ?run)"
    using s' assms by (simp add: build_orm_eq after_measured_values_def)
  have o: "OrmDataset.measured_values orm = fst ?run"
    by (simp add: orm build_orm_eq)
  have t0: "measured_value_table ?s0 = measured_value_table s"
    by simp
  show "map measured_value_key (OrmDataset.measured_values orm) = map measurement_key ?ks"
    unfolding o
    by (rule as_unique_each_keys) (rule resolve_measured_value_key)
  show "set (OrmDataset.measured_values orm) \<subseteq> set (measured_value_table s')"
    unfolding o t
    by (rule as_unique_each_stored [where key = measured_value_key and kf = measurement_key])
       (simp_all add: resolve_measured_value_table resolve_measured_value_old)
  have "set (measured_value_table ?s0) \<subseteq> set (measured_value_table s')"
    unfolding t
    by (rule as_unique_each_grows [where key = measured_value_key and kf = measurement_key])
       (simp add: resolve_measured_value_table)
  then show "set (measured_value_table s) \<subseteq> set (measured_value_table s')"
    by (simp only: t0)
  show "distinct (map measured_value_key (measured_value_table s'))"
    if "distinct (map measured_value_key (measured_value_table s))"
    unfolding t
    by (rule as_unique_each_distinct [where kf = measurement_key])
       (simp_all add: resolve_measured_value_table resolve_measured_value_key that)
qed

lemma unique_keys_of_conversion:
  assumes "aiod_to_orm iter s aiod = (Inr orm, s')" and "unique_keys s"
  shows "unique_keys s'"
  using assms(2) license_of_conversion(4) [OF assms(1)] alternate_names_of_conversion(4) [OF assms(1)]
    keywords_of_conversion(4) [OF assms(1)] measured_values_of_conversion(4) [OF assms(1)]
  by (simp add: unique_keys_def)

text \<open>
  Two conversions in a row that both list a key: the table has one row of that key, and
  both records hold it.
\<close>

lemma shared_row:
  assumes "distinct (map key T2)" and "set Ra \<subseteq> set T1" and "set T1 \<subseteq> set T2"
    and "set Rb \<subseteq> set T2" and "k \<in> key ` set Ra" and "k \<in> key ` set Rb"
  shows "\<exists>r. filter (\<lambda>x. key x = k) T2 = [r] \<and> r \<in> set Ra \<and> r \<in> set Rb"
proof -
  obtain ra where ra: "ra \<in> set Ra" "key ra = k"
    using assms(5) by auto
  obtain rb where rb: "rb \<in> set Rb" "key rb = k"
    using assms(6) by auto
  have "ra \<in> set T2" "rb \<in> set T2"
    using ra rb assms(2-4) by auto
  then have "ra = rb"
    using assms(1) ra(2) rb(2) by (intro same_row_of_key [of key T2]) simp_all
  moreover have "filter (\<lambda>x. key x = key ra) T2 = [ra]"
    using assms(1) \<open>ra \<in> set T2\<close> by (rule one_row_of_key)
  ultimately show ?thesis
    using ra rb by auto
qed

lemma unique_keys_resolvers:
  assumes "unique_keys s"
  shows "unique_keys (snd (OrmLicense_as_unique s n))"
    and "unique_keys (snd (OrmAlternateName_as_unique s n))"
    and "unique_keys (snd (OrmKeyword_as_unique s n))"
    and "unique_keys (snd (OrmMeasuredValue_as_unique s v t))"
proof -
  show "unique_keys (snd (OrmLicense_as_unique s n))"
    using assms
    by (simp add: unique_keys_def OrmLicense_as_unique_table OrmLicense_as_unique_key)
  show "unique_keys (snd (OrmAlternateName_as_unique s n))"
    using assms
    by (simp add: unique_keys_def OrmAlternateName_as_unique_table OrmAlternateName_as_unique_key)
  show "unique_keys (snd (OrmKeyword_as_unique s n))"
    using assms
    by (simp add: unique_keys_def OrmKeyword_as_unique_table OrmKeyword_as_unique_key)
  have "unique_keys (snd (resolve_measured_value s
          \<lparr>AIoDMeasurementValue.variable = v, AIoDMeasurementValue.technique = t\<rparr>))"
    using assms
    by (simp add: unique_keys_def resolve_measured_value_table resolve_measured_value_key)
  then show "unique_keys (snd (OrmMeasuredValue_as_unique s v t))"
    by (simp add: resolve_measured_value_def)
qed

lemma stored_by_resolvers:
  "fst (OrmLicense_as_unique s n) \<in> set (license_table (snd (OrmLicense_as_unique s n)))"
  "fst (OrmAlternateName_as_unique s n)
     \<in> set (alternate_name_table (snd (OrmAlternateName_as_unique s n)))"
  "fst (OrmKeyword_as_unique s n) \<in> set (keyword_table (snd (OrmKeyword_as_unique s n)))"
  "fst (OrmMeasuredValue_as_unique s v t)
     \<in> set (measured_value_table (snd (OrmMeasuredValue_as_unique s v t)))"
  using OrmLicense_as_unique_old [of n s] OrmAlternateName_as_unique_old [of n s]
    OrmKeyword_as_unique_old [of n s] OrmMeasuredValue_as_unique_old [of v t s]
  by (simp_all add: OrmLicense_as_unique_table OrmAlternateName_as_unique_table
      OrmKeyword_as_unique_table OrmMeasuredValue_as_unique_table)

text \<open>
  C3. Each of the four resolvers (license, alternate name, keyword, measured value)
  returns a row of the key asked for that is a row of its table afterwards, keeps the
  keys of the tables distinct, and, asked for the same key again, returns the same row
  and leaves the session as it is. When two conversions in a row succeed, in a store
  whose tables have distinct keys: the tables still have distinct keys; every row that
  one of the two internal records holds is a row of its table; for a license, an
  alternate name, a keyword or a measured value that both datasets list, the table has
  exactly one row of that key and both records hold that row; and any two rows of one
  key that the two records hold, within one record or across the two, are the same row.
\<close>

theorem shared_lookup_rows_deduplicated:
  assumes "enumerates iter"
    and "finite (AIoDDataset.alternate_names a)" and "finite (AIoDDataset.keywords a)"
    and "finite (AIoDDataset.alternate_names b)" and "finite (AIoDDataset.keywords b)"
    and "unique_keys s"
    and "aiod_to_orm iter s a = (Inr orm_a, s1)"
    and "aiod_to_orm iter s1 b = (Inr orm_b, s2)"
  shows "unique_keys s2
         \<and> set_option (OrmDataset.license orm_a) \<union> set_option (OrmDataset.license orm_b)
             \<subseteq> set (license_table s2)
         \<and> set (OrmDataset.alternate_names orm_a) \<union> set (OrmDataset.alternate_names orm_b)
             \<subseteq> set (alternate_name_table s2)
         \<and> set (OrmDataset.keywords orm_a) \<union> set (OrmDataset.keywords orm_b)
             \<subseteq> set (keyword_table s2)
         \<and> set (OrmDataset.measured_values orm_a) \<union> set (OrmDataset.measured_values orm_b)
             \<subseteq> set (measured_value_table s2)
         \<and> (AIoDDataset.license a = Some l \<and> AIoDDataset.license b = Some l \<longrightarrow>
              (\<exists>r. filter (\<lambda>x. OrmLicense.name x = l) (license_table s2) = [r]
                   \<and> OrmDataset.license orm_a = Some r \<and> OrmDataset.license orm_b = Some r))
         \<and> (n \<in> AIoDDataset.alternate_names a \<and> n \<in> AIoDDataset.alternate_names b \<longrightarrow>
              (\<exists>r. filter (\<lambda>x. OrmAlternateName.name x = n) (alternate_name_table s2) = [r]
                   \<and> r \<in> set (OrmDataset.alternate_names orm_a)
                   \<and> r \<in> set (OrmDataset.alternate_names orm_b)))
         \<and> (k \<in> AIoDDataset.keywords a \<and> k \<in> AIoDDataset.keywords b \<longrightarrow>
              (\<exists>r. filter (\<lambda>x. OrmKeyword.name x = k) (keyword_table s2) = [r]
                   \<and> r \<in> set (OrmDataset.keywords orm_a)
                   \<and> r \<in> set (OrmDataset.keywords orm_b)))
         \<and> (m \<in> set (AIoDDataset.measured_values a) \<and> m \<in> set (AIoDDataset.measured_values b) \<longrightarrow>
              (\<exists>r. filter (\<lambda>x. measured_value_key x = measurement_key m) (measured_value_table s2)
                     = [r]
                   \<and> r \<in> set (OrmDataset.measured_values orm_a)
                   \<and> r \<in> set (OrmDataset.measured_values orm_b)))
         \<and> (\<forall>r\<in>set_option (OrmDataset.license orm_a) \<union> set_option (OrmDataset.license orm_b).
               \<forall>r'\<in>set_option (OrmDataset.license orm_a) \<union> set_option (OrmDataset.license orm_b).
                 OrmLicense.name r = OrmLicense.name r' \<longrightarrow> r = r')
         \<and> (\<forall>r\<in>set (OrmDataset.alternate_names orm_a) \<union> set (OrmDataset.alternate_names orm_b).
               \<forall>r'\<in>set (OrmDataset.alternate_names orm_a) \<union> set (OrmDataset.alternate_names orm_b).
                 OrmAlternateName.name r = OrmAlternateName.name r' \<longrightarrow> r = r')
         \<and> (\<forall>r\<in>set (OrmDataset.keywords orm_a) \<union> set (OrmDataset.keywords orm_b).
               \<forall>r'\<in>set (OrmDataset.keywords orm_a) \<union> set (OrmDataset.keywords orm_b).
                 OrmKeyword.name r = OrmKeyword.name r' \<longrightarrow> r = r')
         \<and> (\<forall>r\<in>set (OrmDataset.measured_values orm_a) \<union> set (OrmDataset.measured_values orm_b).
               \<forall>r'\<in>set (OrmDataset.measured_values orm_a) \<union> set (OrmDataset.measured_values orm_b).
                 measured_value_key r = measured_value_key r' \<longrightarrow> r = r')
         \<and> OrmLicense_as_unique (snd (OrmLicense_as_unique s0 x)) x
             = (fst (OrmLicense_as_unique s0 x), snd (OrmLicense_as_unique s0 x))
         \<and> fst (OrmLicense_as_unique s0 x) \<in> set (license_table (snd (OrmLicense_as_unique s0 x)))
         \<and> OrmLicense.name (fst (OrmLicense_as_unique s0 x)) = x
         \<and> (unique_keys s0 \<longrightarrow> unique_keys (snd (OrmLicense_as_unique s0 x)))
         \<and> OrmAlternateName_as_unique (snd (OrmAlternateName_as_unique s0 x)) x
             = (fst (OrmAlternateName_as_unique s0 x), snd (OrmAlternateName_as_unique s0 x))
         \<and> fst (OrmAlternateName_as_unique s0 x)
             \<in> set (alternate_name_table (snd (OrmAlternateName_as_unique s0 x)))
         \<and> OrmAlternateName.name (fst (OrmAlternateName_as_unique s0 x)) = x
         \<and> (unique_keys s0 \<longrightarrow> unique_keys (snd (OrmAlternateName_as_unique s0 x)))
         \<and> OrmKeyword_as_unique (snd (OrmKeyword_as_unique s0 x)) x
             = (fst (OrmKeyword_as_unique s0 x), snd (OrmKeyword_as_unique s0 x))
         \<and> fst (OrmKeyword_as_unique s0 x) \<in> set (keyword_table (snd (OrmKeyword_as_unique s0 x)))
         \<and> OrmKeyword.name (fst (OrmKeyword_as_unique s0 x)) = x
         \<and> (unique_keys s0 \<longrightarrow> unique_keys (snd (OrmKeyword_as_unique s0 x)))
         \<and> OrmMeasuredValue_as_unique (snd (OrmMeasuredValue_as_unique s0 v t)) v t
             = (fst (OrmMeasuredValue_as_unique s0 v t), snd (OrmMeasuredValue_as_unique s0 v t))
         \<and> fst (OrmMeasuredValue_as_unique s0 v t)
             \<in> set (measured_value_table (snd (OrmMeasuredValue_as_unique s0 v t)))
         \<and> measured_value_key (fst (OrmMeasuredValue_as_unique s0 v t)) = (v, t)
         \<and> (unique_keys s0 \<longrightarrow> unique_keys (snd (OrmMeasuredValue_as_unique s0 v t)))"
proof -
  have u1: "unique_keys s1"
    using assms(7,6) by (rule unique_keys_of_conversion)
  have u2: "unique_keys s2"
    using assms(8) u1 by (rule unique_keys_of_conversion)
  note La = license_of_conversion [OF assms(7)] and Lb = license_of_conversion [OF assms(8)]
  note Aa = alternate_names_of_conversion [OF assms(7)]
    and Ab = alternate_names_of_conversion [OF assms(8)]
  note Ka = keywords_of_conversion [OF assms(7)] and Kb = keywords_of_conversion [OF assms(8)]
  note Ma = measured_values_of_conversion [OF assms(7)]
    and Mb = measured_values_of_conversion [OF assms(8)]
  have c1: "set_option (OrmDataset.license orm_a) \<union> set_option (OrmDataset.license orm_b)
              \<subseteq> set (license_table s2)"
    using La(2) Lb(2,3) by blast
  have c2: "set (OrmDataset.alternate_names orm_a) \<union> set (OrmDataset.alternate_names orm_b)
              \<subseteq> set (alternate_name_table s2)"
    using Aa(2) Ab(2,3) by blast
  have c3: "set (OrmDataset.keywords orm_a) \<union> set (OrmDataset.keywords orm_b)
              \<subseteq> set (keyword_table s2)"
    using Ka(2) Kb(2,3) by blast
  have c4: "set (OrmDataset.measured_values orm_a) \<union> set (OrmDataset.measured_values orm_b)
              \<subseteq> set (measured_value_table s2)"
    using Ma(2) Mb(2,3) by blast
  have d: "distinct (map OrmLicense.name (license_table s2))"
    "distinct (map OrmAlternateName.name (alternate_name_table s2))"
    "distinct (map OrmKeyword.name (keyword_table s2))"
    "distinct (map measured_value_key (measured_value_table s2))"
    using u2 by (simp_all add: unique_keys_def)
  have c5: "\<exists>r. filter (\<lambda>x. OrmLicense.name x = l) (license_table s2) = [r]
                \<and> OrmDataset.license orm_a = Some r \<and> OrmDataset.license orm_b = Some r"
    if "AIoDDataset.license a = Some l \<and> AIoDDataset.license b = Some l"
  proof -
    have "map_option OrmLicense.name (OrmDataset.license orm_a) = Some l"
      "map_option OrmLicense.name (OrmDataset.license orm_b) = Some l"
      using La(1) Lb(1) that by simp_all
    then obtain ra rb where ra: "OrmDataset.license orm_a = Some ra" "OrmLicense.name ra = l"
      and rb: "OrmDataset.license orm_b = Some rb" "OrmLicense.name rb = l"
      by auto
    have in2: "ra \<in> set (license_table s2)" "rb \<in> set (license_table s2)"
      using c1 ra(1) rb(1) by auto
    then have "ra = rb"
      using d(1) ra(2) rb(2) by (intro same_row_of_key [of OrmLicense.name "license_table s2"]) simp_all
    moreover have "filter (\<lambda>x. OrmLicense.name x = OrmLicense.name ra) (license_table s2) = [ra]"
      using d(1) in2(1) by (rule one_row_of_key)
    ultimately show ?thesis
      using ra rb by auto
  qed
  have c6: "\<exists>r. filter (\<lambda>x. OrmAlternateName.name x = n) (alternate_name_table s2) = [r]
                \<and> r \<in> set (OrmDataset.alternate_names orm_a)
                \<and> r \<in> set (OrmDataset.alternate_names orm_b)"
    if "n \<in> AIoDDataset.alternate_names a \<and> n \<in> AIoDDataset.alternate_names b"
  proof -
    have "n \<in> set (iter (AIoDDataset.alternate_names a))"
      "n \<in> set (iter (AIoDDataset.alternate_names b))"
      using that assms(1,2,4) by (simp_all add: enumerates_def)
    then have "n \<in> OrmAlternateName.name ` set (OrmDataset.alternate_names orm_a)"
      "n \<in> OrmAlternateName.name ` set (OrmDataset.alternate_names orm_b)"
      using Aa(1) Ab(1) by (metis set_map)+
    then show ?thesis
      using d(2) Aa(2) Ab(3) Ab(2) by (intro shared_row [where ?T1.0 = "alternate_name_table s1"])
  qed
  have c7: "\<exists>r. filter (\<lambda>x. OrmKeyword.name x = k) (keyword_table s2) = [r]
                \<and> r \<in> set (OrmDataset.keywords orm_a) \<and> r \<in> set (OrmDataset.keywords orm_b)"
    if "k \<in> AIoDDataset.keywords a \<and> k \<in> AIoDDataset.keywords b"
  proof -
    have "k \<in> set (iter (AIoDDataset.keywords a))" "k \<in> set (iter (AIoDDataset.keywords b))"
      using that assms(1,3,5) by (simp_all add: enumerates_def)
    then have "k \<in> OrmKeyword.name ` set (OrmDataset.keywords orm_a)"
      "k \<in> OrmKeyword.name ` set (OrmDataset.keywords orm_b)"
      using Ka(1) Kb(1) by (metis set_map)+
    then show ?thesis
      using d(3) Ka(2) Kb(3) Kb(2) by (intro shared_row [where ?T1.0 = "keyword_table s1"])
  qed
  have c8: "\<exists>r. filter (\<lambda>x. measured_value_key x = measurement_key m) (measured_value_table s2)
                  = [r]
                \<and> r \<in> set (OrmDataset.measured_values orm_a)
                \<and> r \<in> set (OrmDataset.measured_values orm_b)"
    if "m \<in> set (AIoDDataset.measured_values a) \<and> m \<in> set (AIoDDataset.measured_values b)"
  proof -
    have "measurement_key m \<in> set (map measurement_key (AIoDDataset.measured_values a))"
      "measurement_key m \<in> set (map measurement_key (AIoDDataset.measured_values b))"
      using that by simp_all
    then have "measurement_key m \<in> measured_value_key ` set (OrmDataset.measured_values orm_a)"
      "measurement_key m \<in> measured_value_key ` set (OrmDataset.measured_values orm_b)"
      using Ma(1) Mb(1) by (metis set_map)+
    then show ?thesis
      using d(4) Ma(2) Mb(3) Mb(2) by (intro shared_row [where ?T1.0 = "measured_value_table s1"])
  qed
  have e1: "\<forall>r\<in>set_option (OrmDataset.license orm_a) \<union> set_option (OrmDataset.license orm_b).
              \<forall>r'\<in>set_option (OrmDataset.license orm_a) \<union> set_option (OrmDataset.license orm_b).
                OrmLicense.name r = OrmLicense.name r' \<longrightarrow> r = r'"
    using d(1) c1 by (meson same_row_of_key subsetD)
  have e2: "\<forall>r\<in>set (OrmDataset.alternate_names orm_a) \<union> set (OrmDataset.alternate_names orm_b).
              \<forall>r'\<in>set (OrmDataset.alternate_names orm_a) \<union> set (OrmDataset.alternate_names orm_b).
                OrmAlternateName.name r = OrmAlternateName.name r' \<longrightarrow> r = r'"
    using d(2) c2 by (meson same_row_of_key subsetD)
  have e3: "\<forall>r\<in>set (OrmDataset.keywords orm_a) \<union> set (OrmDataset.keywords orm_b).
              \<forall>r'\<in>set (OrmDataset.keywords orm_a) \<union> set (OrmDataset.keywords orm_b).
                OrmKeyword.name r = OrmKeyword.name r' \<longrightarrow> r = r'"
    using d(3) c3 by (meson same_row_of_key subsetD)
  have e4: "\<forall>r\<in>set (OrmDataset.measured_values orm_a) \<union> set (OrmDataset.measured_values orm_b).
              \<forall>r'\<in>set (OrmDataset.measured_values orm_a) \<union> set (OrmDataset.measured_values orm_b).
                measured_value_key r = measured_value_key r' \<longrightarrow> r = r'"
    using d(4) c4 by (meson same_row_of_key subsetD)
  show ?thesis
    using u2 c1 c2 c3 c4 c5 c6 c7 c8 e1 e2 e3 e4
    by (simp add: OrmLicense_as_unique_again OrmAlternateName_as_unique_again
        OrmKeyword_as_unique_again OrmMeasuredValue_as_unique_again stored_by_resolvers
        OrmLicense_as_unique_key OrmAlternateName_as_unique_key OrmKeyword_as_unique_key
        OrmMeasuredValue_as_unique_key unique_keys_resolvers)
qed

lemma sorted_keywords:
  "sorted_list_of_set {''ml'', ''ai''} = [''ai'', ''ml'']"
  "sorted_list_of_set {''ai'', ''nlp''} = [''ai'', ''nlp'']"
  by simp_all

lemma aiod_to_orm_dset_A:
  "aiod_to_orm sorted_list_of_set empty_session dset_A = (Inr orm_A, session_A)"
  by (simp add: aiod_to_orm_def build_orm_def retrieve_related_objects_by_ids_def
      OrmLicense_as_unique_def OrmAlternateName_as_unique_def OrmKeyword_as_unique_def
      OrmMeasuredValue_as_unique_def as_unique_def fresh_id_def dset_A_def dset1_def
      empty_session_def session_A_def orm_A_def license_cc0_def alternate_name_alias_def
      keyword_ai_def keyword_ml_def measured_temperature_def temperature_def sorted_keywords
      case_prod_unfold Let_def)

lemma resolve_in_session_A:
  "OrmLicense_as_unique session_A ''cc0'' = (license_cc0, session_A)"
  "OrmAlternateName_as_unique session_A ''alias'' = (alternate_name_alias, session_A)"
  "OrmKeyword_as_unique session_A ''ai'' = (keyword_ai, session_A)"
  "OrmKeyword_as_unique session_A ''nlp'' = (keyword_nlp, session_AB)"
  "resolve_measured_value session_AB temperature = (measured_temperature, session_AB)"
  by (simp_all add: OrmLicense_as_unique_def OrmAlternateName_as_unique_def
      OrmKeyword_as_unique_def resolve_measured_value_def OrmMeasuredValue_as_unique_def
      as_unique_def fresh_id_def session_A_def session_AB_def empty_session_def license_cc0_def
      alternate_name_alias_def keyword_ai_def keyword_ml_def keyword_nlp_def
      measured_temperature_def temperature_def measured_value_key_def)

lemma steps_dset_B:
  "after_license session_A dset_B = session_A"
  "after_alternate_names sorted_list_of_set session_A dset_B = session_A"
  "after_keywords sorted_list_of_set session_A dset_B = session_AB"
  "after_measured_values sorted_list_of_set session_A dset_B = session_AB"
proof -
  show 1: "after_license session_A dset_B = session_A"
    by (simp add: after_license_def dset_B_def resolve_in_session_A)
  show 2: "after_alternate_names sorted_list_of_set session_A dset_B = session_A"
    by (simp add: after_alternate_names_def 1) (simp add: dset_B_def resolve_in_session_A)
  show 3: "after_keywords sorted_list_of_set session_A dset_B = session_AB"
    by (simp add: after_keywords_def 2) (simp add: dset_B_def resolve_in_session_A sorted_keywords)
  show "after_measured_values sorted_list_of_set session_A dset_B = session_AB"
    by (simp add: after_measured_values_def 3) (simp add: dset_B_def resolve_in_session_A)
qed

lemma aiod_to_orm_dset_B:
  "aiod_to_orm sorted_list_of_set session_A dset_B = (Inr orm_B, session_AB)"
proof -
  have e: "AIoDDataset.citations dset_B = CitationIds {}" "AIoDDataset.has_parts dset_B = {}"
    "AIoDDataset.is_part dset_B = {}"
    by (simp_all add: dset_B_def dset1_def)
  have "build_orm sorted_list_of_set session_A dset_B [] [] [] = (orm_B, session_AB)"
    unfolding build_orm_eq steps_dset_B
    by (simp add: dset_B_def dset1_def orm_B_def orm_A_def resolve_in_session_A sorted_keywords)
  then show ?thesis
    by (simp add: aiod_to_orm_def e retrieve_related_objects_by_ids_def)
qed

theorem shared_lookup_rows_deduplicated_witness:
  "enumerates sorted_list_of_set
   \<and> unique_keys empty_session
   \<and> aiod_to_orm sorted_list_of_set empty_session dset_A = (Inr orm_A, session_A)
   \<and> aiod_to_orm sorted_list_of_set session_A dset_B = (Inr orm_B, session_AB)
   \<and> AIoDDataset.license dset_A = Some ''cc0'' \<and> AIoDDataset.license dset_B = Some ''cc0''
   \<and> ''alias'' \<in> AIoDDataset.alternate_names dset_A
   \<and> ''alias'' \<in> AIoDDataset.alternate_names dset_B
   \<and> ''ai'' \<in> AIoDDataset.keywords dset_A \<and> ''ai'' \<in> AIoDDataset.keywords dset_B
   \<and> temperature \<in> set (AIoDDataset.measured_values dset_A)
   \<and> temperature \<in> set (AIoDDataset.measured_values dset_B)
   \<and> unique_keys session_AB
   \<and> keyword_table session_AB = [keyword_ai, keyword_ml, keyword_nlp]
   \<and> filter (\<lambda>x. OrmKeyword.name x = ''ai'') (keyword_table session_AB) = [keyword_ai]
   \<and> keyword_ai \<in> set (OrmDataset.keywords orm_A) \<and> keyword_ai \<in> set (OrmDataset.keywords orm_B)
   \<and> license_table session_AB = [license_cc0]
   \<and> OrmDataset.license orm_A = Some license_cc0 \<and> OrmDataset.license orm_B = Some license_cc0
   \<and> alternate_name_table session_AB = [alternate_name_alias]
   \<and> OrmDataset.alternate_names orm_A = [alternate_name_alias]
   \<and> OrmDataset.alternate_names orm_B = [alternate_name_alias]
   \<and> measured_value_table session_AB = [measured_temperature]
   \<and> OrmDataset.measured_values orm_A = [measured_temperature]
   \<and> OrmDataset.measured_values orm_B = [measured_temperature, measured_temperature]"
proof -
  have f: "finite (AIoDDataset.alternate_names dset_A)" "finite (AIoDDataset.keywords dset_A)"
    "finite (AIoDDataset.alternate_names dset_B)" "finite (AIoDDataset.keywords dset_B)"
    by (simp_all add: dset_A_def dset_B_def)
  have u: "unique_keys empty_session"
    by (simp add: unique_keys_def empty_session_def)
  have m: "AIoDDataset.license dset_A = Some ''cc0''" "AIoDDataset.license dset_B = Some ''cc0''"
    "''alias'' \<in> AIoDDataset.alternate_names dset_A"
    "''alias'' \<in> AIoDDataset.alternate_names dset_B"
    "''ai'' \<in> AIoDDataset.keywords dset_A" "''ai'' \<in> AIoDDataset.keywords dset_B"
    "temperature \<in> set (AIoDDataset.measured_values dset_A)"
    "temperature \<in> set (AIoDDataset.measured_values dset_B)"
    by (simp_all add: dset_A_def dset_B_def)
  have t: "keyword_table session_AB = [keyword_ai, keyword_ml, keyword_nlp]"
    "license_table session_AB = [license_cc0]"
    "alternate_name_table session_AB = [alternate_name_alias]"
    "measured_value_table session_AB = [measured_temperature]"
    by (simp_all add: session_AB_def session_A_def)
  have o: "OrmDataset.keywords orm_A = [keyword_ai, keyword_ml]"
    "OrmDataset.keywords orm_B = [keyword_ai, keyword_nlp]"
    "OrmDataset.license orm_A = Some license_cc0" "OrmDataset.license orm_B = Some license_cc0"
    "OrmDataset.alternate_names orm_A = [alternate_name_alias]"
    "OrmDataset.alternate_names orm_B = [alternate_name_alias]"
    "OrmDataset.measured_values orm_A = [measured_temperature]"
    "OrmDataset.measured_values orm_B = [measured_temperature, measured_temperature]"
    by (simp_all add: orm_A_def orm_B_def)
  have n: "OrmKeyword.name keyword_ai = ''ai''" "OrmKeyword.name keyword_ml = ''ml''"
    "OrmKeyword.name keyword_nlp = ''nlp''"
    by (simp_all add: keyword_ai_def keyword_ml_def keyword_nlp_def)
  show ?thesis
    using shared_lookup_rows_deduplicated [OF enumerates_sorted_list_of_set f u
        aiod_to_orm_dset_A aiod_to_orm_dset_B, of "''cc0''" "''alias''" "''ai''" temperature]
      enumerates_sorted_list_of_set u aiod_to_orm_dset_A aiod_to_orm_dset_B m
    by (simp add: t o n)
qed

section \<open>Properties of the validation\<close>

lemma both_Inr_iff: "both a b = Inr p \<longleftrightarrow> a = Inr (fst p) \<and> b = Inr (snd p)"
  by (cases a; cases b) auto

lemma map_sum_Inr_iff: "map_sum f g r = Inr y \<longleftrightarrow> (\<exists>x. r = Inr x \<and> y = g x)"
  by (cases r) auto

lemma constr_Inr_iff:
  "constr mn mx l v = Inr v' \<longleftrightarrow>
     v' = v \<and> (case mn of None \<Rightarrow> True | Some n \<Rightarrow> n \<le> length v)
            \<and> (case mx of None \<Rightarrow> True | Some n \<Rightarrow> length v \<le> n)"
  by (auto simp: constr_def max_length_check_def split: option.splits)

lemma required_constr_Inr_iff:
  "required (constr mn mx) l x = Inr v \<longleftrightarrow>
     x = Some v \<and> (case mn of None \<Rightarrow> True | Some n \<Rightarrow> n \<le> length v)
                \<and> (case mx of None \<Rightarrow> True | Some n \<Rightarrow> length v \<le> n)"
  by (auto simp: required_def constr_Inr_iff split: option.splits)

lemma optional_constr_Inr_iff:
  "optional (constr mn mx) l x = Inr v \<longleftrightarrow>
     v = x \<and> (\<forall>s. x = Some s \<longrightarrow> (case mn of None \<Rightarrow> True | Some n \<Rightarrow> n \<le> length s)
                \<and> (case mx of None \<Rightarrow> True | Some n \<Rightarrow> length s \<le> n))"
  by (auto simp: optional_def constr_Inr_iff map_sum_Inr_iff split: option.splits)

lemma validate_each_PyStr: "validate_each str_validator l i (map PyStr xs) = Inr xs"
  by (induction xs arbitrary: i) simp_all

lemma validate_each_finite:
  "set_str_validator l xs = Inr S \<Longrightarrow> finite S"
  by (auto simp: set_str_validator_def map_sum_Inr_iff)


lemma optional_constr_max_iff:
  "optional (constr None (Some n)) l x = Inr v \<longleftrightarrow> v = x \<and> opt_max n x"
  by (auto simp: optional_constr_Inr_iff opt_max_def split: option.splits)

lemma optional_constr_exact_iff:
  "optional (constr (Some n) (Some n)) l x = Inr v \<longleftrightarrow>
     v = x \<and> (case x of None \<Rightarrow> True | Some s \<Rightarrow> length s = n)"
  by (auto simp: optional_constr_Inr_iff split: option.splits)

lemma required_constr_max_iff:
  "required (constr None (Some n)) l x = Inr v \<longleftrightarrow> x = Some v \<and> length v \<le> n"
  by (auto simp: required_constr_Inr_iff)

lemma AIoDDistribution_init_Inr_iff:
  "AIoDDistribution_init l d = Inr d' \<longleftrightarrow>
     AIoDDistribution_input.content_url d = Some (AIoDDistribution.content_url d')
     \<and> AIoDDistribution_input.content_size_kb d = AIoDDistribution.content_size_kb d'
     \<and> AIoDDistribution_input.description d = AIoDDistribution.description d'
     \<and> AIoDDistribution_input.name d = AIoDDistribution.name d'
     \<and> AIoDDistribution_input.encoding_format d = AIoDDistribution.encoding_format d'
     \<and> AIoDDistribution_constraints d'"
  by (cases d')
     (auto simp: AIoDDistribution_init_def map_sum_Inr_iff both_Inr_iff required_constr_max_iff
       optional_constr_max_iff AIoDDistribution_constraints_def)

lemma validate_each_Inr_Cons:
  "validate_each v l i (x # xs) = Inr ys \<longleftrightarrow>
     (\<exists>y ys'. ys = y # ys' \<and> v (l @ [Index i]) x = Inr y \<and> validate_each v l (Suc i) xs = Inr ys')"
  by (auto simp: map_sum_Inr_iff both_Inr_iff)

lemma validate_each_distributions:
  "validate_each AIoDDistribution_init l i ds = Inr ds' \<Longrightarrow> list_all AIoDDistribution_constraints ds'"
  by (induction ds arbitrary: i ds')
     (auto simp: validate_each_Inr_Cons AIoDDistribution_init_Inr_iff simp del: validate_each.simps(2))

lemma AIoDDataset_init_constraints:
  assumes "AIoDDataset_init raw = Inr a"
  shows "AIoDDataset_constraints a"
  using assms
  by (auto simp: AIoDDataset_init_def map_sum_Inr_iff both_Inr_iff required_constr_max_iff
       optional_constr_max_iff optional_constr_exact_iff AIoDDataset_constraints_def
       case_prod_unfold validate_each_distributions)

lemma AIoDDataset_init_finite:
  assumes "AIoDDataset_init raw = Inr a"
  shows "finite (AIoDDataset.has_parts a)" "finite (AIoDDataset.is_part a)"
    "finite (AIoDDataset.alternate_names a)" "finite (AIoDDataset.keywords a)"
  using assms
  by (auto simp: AIoDDataset_init_def map_sum_Inr_iff both_Inr_iff case_prod_unfold
      set_str_validator_def)

lemma errors_of_both: "errors_of (both a b) = errors_of a @ errors_of b"
  by (cases a; cases b) (simp_all add: errors_of_def)

lemma errors_of_map_sum: "errors_of (map_sum (\<lambda>e. e) f r) = errors_of r"
  by (cases r) (simp_all add: errors_of_def)

lemma errors_of_required_too_long:
  "n < length v \<Longrightarrow> errors_of (required (constr None (Some n)) l (Some v)) = [max_length_error l n]"
  by (simp add: required_def constr_def max_length_check_def errors_of_def)

lemma errors_of_optional_too_long:
  "n < length v \<Longrightarrow> errors_of (optional (constr (Some m) (Some n)) l (Some v)) = [max_length_error l n]" if "m \<le> n"
  using that by (simp add: optional_def constr_def max_length_check_def errors_of_def)

lemma errors_of_optional_too_short:
  "length v < m \<Longrightarrow> errors_of (optional (constr (Some m) mx) l (Some v)) = [min_length_error l m]"
  by (simp add: optional_def constr_def max_length_check_def errors_of_def)

lemma str_nat_150: "str_nat 150 = ''150''"
  by (simp add: str_nat.simps digit_char_def)

lemma too_long_name_errors:
  "AIoDDataset_init too_long_name
     = Inl [ErrorDict [Field ''name''] ''ensure this value has at most 150 characters''
             ''value_error.any_str.max_length'' (Some 150)]"
  by (simp add: AIoDDataset_init_def too_long_name_def required_def optional_def constr_def max_length_check_def
      set_str_validator_def citations_validator_def max_length_error_def str_nat_150)

text \<open>
  C7. A dataset that validation accepts has a name of at most 150 characters, a
  description of at most 5000, a node of at most 30, a node-specific identifier of at
  most 250, a \<^verbatim>\<open>same_as\<close> of at most 150 and, when it has one, an \<^verbatim>\<open>issn\<close> of
  exactly 8. Each of these constraints that an input violates has its error in the list
  validation raises, whatever the other fields are: at the path of the field, with the
  limit.
\<close>

theorem validation_enforces_field_constraints:
  "(AIoDDataset_init raw = Inr a \<longrightarrow>
      length (AIoDDataset.name a) \<le> 150 \<and> length (AIoDDataset.description a) \<le> 5000
      \<and> length (AIoDDataset.node a) \<le> 30
      \<and> length (AIoDDataset.node_specific_identifier a) \<le> 250
      \<and> length (AIoDDataset.same_as a) \<le> 150
      \<and> (\<forall>s. AIoDDataset.issn a = Some s \<longrightarrow> length s = 8))
   \<and> (AIoDDataset_input.description raw = Some d \<and> 5000 < length d \<longrightarrow>
        max_length_error [Field ''description''] 5000 \<in> set (errors_of (AIoDDataset_init raw)))
   \<and> (AIoDDataset_input.name raw = Some n \<and> 150 < length n \<longrightarrow>
        max_length_error [Field ''name''] 150 \<in> set (errors_of (AIoDDataset_init raw)))
   \<and> (AIoDDataset_input.node raw = Some nd \<and> 30 < length nd \<longrightarrow>
        max_length_error [Field ''node''] 30 \<in> set (errors_of (AIoDDataset_init raw)))
   \<and> (AIoDDataset_input.node_specific_identifier raw = Some i \<and> 250 < length i \<longrightarrow>
        max_length_error [Field ''node_specific_identifier''] 250
          \<in> set (errors_of (AIoDDataset_init raw)))
   \<and> (AIoDDataset_input.same_as raw = Some u \<and> 150 < length u \<longrightarrow>
        max_length_error [Field ''same_as''] 150 \<in> set (errors_of (AIoDDataset_init raw)))
   \<and> (AIoDDataset_input.issn raw = Some s \<and> length s < 8 \<longrightarrow>
        min_length_error [Field ''issn''] 8 \<in> set (errors_of (AIoDDataset_init raw)))
   \<and> (AIoDDataset_input.issn raw = Some s \<and> 8 < length s \<longrightarrow>
        max_length_error [Field ''issn''] 8 \<in> set (errors_of (AIoDDataset_init raw)))"
proof (intro conjI impI)
  assume "AIoDDataset_init raw = Inr a"
  then have c: "AIoDDataset_constraints a"
    by (rule AIoDDataset_init_constraints)
  then show "length (AIoDDataset.name a) \<le> 150" "length (AIoDDataset.description a) \<le> 5000"
    "length (AIoDDataset.node a) \<le> 30" "length (AIoDDataset.node_specific_identifier a) \<le> 250"
    "length (AIoDDataset.same_as a) \<le> 150"
    by (simp_all add: AIoDDataset_constraints_def)
  from c show "\<forall>s. AIoDDataset.issn a = Some s \<longrightarrow> length s = 8"
    by (simp add: AIoDDataset_constraints_def split: option.splits)
next
  assume "AIoDDataset_input.description raw = Some d \<and> 5000 < length d"
  then show "max_length_error [Field ''description''] 5000 \<in> set (errors_of (AIoDDataset_init raw))"
    by (simp add: AIoDDataset_init_def errors_of_map_sum errors_of_both errors_of_required_too_long)
next
  assume "AIoDDataset_input.name raw = Some n \<and> 150 < length n"
  then show "max_length_error [Field ''name''] 150 \<in> set (errors_of (AIoDDataset_init raw))"
    by (simp add: AIoDDataset_init_def errors_of_map_sum errors_of_both errors_of_required_too_long)
next
  assume "AIoDDataset_input.node raw = Some nd \<and> 30 < length nd"
  then show "max_length_error [Field ''node''] 30 \<in> set (errors_of (AIoDDataset_init raw))"
    by (simp add: AIoDDataset_init_def errors_of_map_sum errors_of_both errors_of_required_too_long)
next
  assume "AIoDDataset_input.node_specific_identifier raw = Some i \<and> 250 < length i"
  then show "max_length_error [Field ''node_specific_identifier''] 250
               \<in> set (errors_of (AIoDDataset_init raw))"
    by (simp add: AIoDDataset_init_def errors_of_map_sum errors_of_both errors_of_required_too_long)
next
  assume "AIoDDataset_input.same_as raw = Some u \<and> 150 < length u"
  then show "max_length_error [Field ''same_as''] 150 \<in> set (errors_of (AIoDDataset_init raw))"
    by (simp add: AIoDDataset_init_def errors_of_map_sum errors_of_both errors_of_required_too_long)
next
  assume "AIoDDataset_input.issn raw = Some s \<and> length s < 8"
  then show "min_length_error [Field ''issn''] 8 \<in> set (errors_of (AIoDDataset_init raw))"
    by (simp add: AIoDDataset_init_def errors_of_map_sum errors_of_both errors_of_optional_too_short)
next
  assume "AIoDDataset_input.issn raw = Some s \<and> 8 < length s"
  then show "max_length_error [Field ''issn''] 8 \<in> set (errors_of (AIoDDataset_init raw))"
    by (simp add: AIoDDataset_init_def errors_of_map_sum errors_of_both errors_of_optional_too_long)
qed


lemma AIoDDataset_init_dset1_input: "AIoDDataset_init dset1_input = Inr dset1"
  by (simp add: AIoDDataset_init_def dset1_input_def too_long_name_def dset1_def required_def
      optional_def constr_def max_length_check_def set_str_validator_def citations_validator_def)

lemma three_violations_errors:
  "AIoDDataset_init three_violations
     = Inl [max_length_error [Field ''name''] 150, max_length_error [Field ''node''] 30,
            min_length_error [Field ''issn''] 8]"
  by (simp add: AIoDDataset_init_def three_violations_def too_long_name_def required_def
      optional_def constr_def max_length_check_def set_str_validator_def citations_validator_def)

theorem validation_enforces_field_constraints_witness:
  "AIoDDataset_init dset1_input = Inr dset1
   \<and> length (AIoDDataset.name dset1) \<le> 150 \<and> length (AIoDDataset.description dset1) \<le> 5000
   \<and> length (AIoDDataset.node dset1) \<le> 30
   \<and> AIoDDataset_input.name too_long_name = Some (replicate 200 CHR ''a'')
   \<and> 150 < length (replicate 200 CHR ''a'')
   \<and> max_length_error [Field ''name''] 150 \<in> set (errors_of (AIoDDataset_init too_long_name))
   \<and> AIoDDataset_init too_long_name
       = Inl [ErrorDict [Field ''name''] ''ensure this value has at most 150 characters''
               ''value_error.any_str.max_length'' (Some 150)]
   \<and> AIoDDataset_input.issn three_violations = Some ''1234''
   \<and> min_length_error [Field ''issn''] 8 \<in> set (errors_of (AIoDDataset_init three_violations))
   \<and> AIoDDataset_init three_violations
       = Inl [max_length_error [Field ''name''] 150, max_length_error [Field ''node''] 30,
              min_length_error [Field ''issn''] 8]"
proof -
  have n: "AIoDDataset_input.name too_long_name = Some (replicate 200 CHR ''a'')"
    by (simp add: too_long_name_def)
  have i: "AIoDDataset_input.issn three_violations = Some ''1234''"
    by (simp add: three_violations_def too_long_name_def)
  show ?thesis
    using validation_enforces_field_constraints [of dset1_input dset1]
      validation_enforces_field_constraints [of too_long_name _ _ "replicate 200 CHR ''a''"]
      validation_enforces_field_constraints [of three_violations _ _ _ _ _ _ "''1234''"]
    by (simp add: AIoDDataset_init_dset1_input too_long_name_errors three_violations_errors n i)
qed

section \<open>Properties of the round trip\<close>

lemma distribution_round_trip:
  "AIoDDistribution_constraints d
     \<Longrightarrow> AIoDDistribution_init l (distribution_to_aiod (distribution_to_orm d)) = Inr d"
  by (simp add: AIoDDistribution_init_Inr_iff distribution_to_aiod_def distribution_to_orm_def)

lemma first_error_distributions:
  "list_all AIoDDistribution_constraints ds
     \<Longrightarrow> first_error (map (\<lambda>d. AIoDDistribution_init l
           (distribution_to_aiod (distribution_to_orm d))) ds) = None"
  by (induction ds) (simp_all add: distribution_round_trip)

lemma validate_each_distributions_round_trip:
  "list_all AIoDDistribution_constraints ds
     \<Longrightarrow> validate_each AIoDDistribution_init l i
           (map (\<lambda>d. distribution_to_aiod (distribution_to_orm d)) ds) = Inr ds"
  by (induction ds arbitrary: i) (simp_all add: distribution_round_trip)

lemma validate_each_py_id:
  "None \<notin> set (map f rows)
     \<Longrightarrow> validate_each str_validator l i (map (\<lambda>c. py_id (f c)) rows)
           = Inr (List.map_filter (\<lambda>c. id_str (f c)) rows)"
  by (induction rows arbitrary: i)
     (auto simp: py_id_def id_str_def split: option.splits)

lemma required_ok: "length v \<le> n \<Longrightarrow> required (constr None (Some n)) l (Some v) = Inr v"
  by (simp add: required_constr_max_iff)

lemma optional_ok: "opt_max n x \<Longrightarrow> optional (constr None (Some n)) l x = Inr x"
  by (simp add: optional_constr_max_iff)

lemma optional_exact_ok:
  "(case x of None \<Rightarrow> True | Some s \<Rightarrow> length s = n)
     \<Longrightarrow> optional (constr (Some n) (Some n)) l x = Inr x"
  by (simp add: optional_constr_exact_iff)

lemma set_str_validator_PyStr: "set_str_validator l (map PyStr xs) = Inr (set xs)"
  by (simp add: set_str_validator_def validate_each_PyStr)

lemma citations_validator_finite:
  "citations_validator l c = Inr (CitationIds ids) \<Longrightarrow> finite ids"
  by (auto simp: citations_validator_def set_str_validator_def map_sum_Inr_iff
      split: citations_input.splits sum.splits if_splits)

lemma AIoDDataset_init_finite_citations:
  assumes "AIoDDataset_init raw = Inr a" and "AIoDDataset.citations a = CitationIds ids"
  shows "finite ids"
proof -
  have "citations_validator [Field ''citations''] (AIoDDataset_input.citations raw)
          = Inr (CitationIds ids)"
    using assms
    by (auto simp: AIoDDataset_init_def map_sum_Inr_iff both_Inr_iff case_prod_unfold)
  then show ?thesis
    by (rule citations_validator_finite)
qed

text \<open>What the conversion back reads of the rows of the shared lookup entities.\<close>

lemma license_back:
  "(case x of None \<Rightarrow> None
    | Some y \<Rightarrow> ((\<lambda>l. Some (OrmLicense.name l)) \<circ> (\<lambda>n. fst (OrmLicense_as_unique s n))) y) = x"
  by (cases x) (simp_all add: OrmLicense_as_unique_key)

lemma rendered_ids_eq:
  "rendered_ids c = {str_int n | n. \<exists>x\<in>set c. OrmPublication.id x = Some n}"
proof (induction c)
  case Nil
  then show ?case by (simp add: rendered_ids_def)
next
  case (Cons a c)
  then show ?case
    by (cases "OrmPublication.id a") (auto simp: rendered_ids_def id_str_def)
qed

lemma alternate_names_back:
  "map (\<lambda>alias. PyStr (OrmAlternateName.name alias))
     (fst (as_unique_each OrmAlternateName_as_unique s ks)) = map PyStr ks"
  by (induction ks arbitrary: s)
     (simp_all add: case_prod_unfold Let_def OrmAlternateName_as_unique_key)

lemma keywords_back:
  "map (\<lambda>keyword. PyStr (OrmKeyword.name keyword))
     (fst (as_unique_each OrmKeyword_as_unique s ks)) = map PyStr ks"
  by (induction ks arbitrary: s)
     (simp_all add: case_prod_unfold Let_def OrmKeyword_as_unique_key)

lemma measured_value_back: "measured_value_to_aiod (fst (resolve_measured_value s mv)) = mv"
  using resolve_measured_value_key [of s mv]
  by (simp add: measured_value_to_aiod_def measured_value_key_def measurement_key_def)

lemma measured_values_back:
  "map measured_value_to_aiod (fst (as_unique_each resolve_measured_value s mvs)) = mvs"
  by (induction mvs arbitrary: s)
     (simp_all add: case_prod_unfold Let_def measured_value_back)

text \<open>
  The publications a citations resolution returns have identifiers; validated again as a
  set of strings, they are the decimal strings of those identifiers.
\<close>

lemma citations_back:
  assumes "case AIoDDataset.citations aiod of
             CitationRecords ps \<Rightarrow> c = []
           | CitationIds ids \<Rightarrow>
               fst (retrieve_related_objects_by_ids iter s ids OrmPublication_cls) = Inr c \<and> finite ids"
  shows "citations_validator l (CitationIdList (map (\<lambda>citation. py_id (OrmPublication.id citation)) c))
           = Inr (CitationIds (rendered_ids c))"
proof -
  have "None \<notin> set (map OrmPublication.id c)"
  proof (cases "AIoDDataset.citations aiod")
    case (CitationIds ids)
    then have "c = filter (id_in s OrmPublication_cls ids) (table_of OrmPublication_cls s)"
      using assms retrieve_Inr(1) [of iter s ids OrmPublication_cls c] by simp
    then have "\<forall>r\<in>set c. id_in s OrmPublication_cls ids r"
      by simp
    then have "\<forall>r\<in>set c. OrmPublication.id r \<noteq> None"
      by (auto simp: id_in_def id_attr_classes py_id_def split: option.splits)
    then show ?thesis
      by (auto simp: image_iff)
  next
    case (CitationRecords ps)
    then show ?thesis
      using assms by simp
  qed
  then have "set_str_validator l (map (\<lambda>citation. py_id (OrmPublication.id citation)) c)
               = Inr (rendered_ids c)"
    by (simp add: set_str_validator_def validate_each_py_id rendered_ids_def)
  then show ?thesis
    by (simp add: citations_validator_def)
qed

text \<open>
  When every identifier asked for is the decimal string of the integer that the store
  reads in it, the decimal strings of the identifiers of the rows found are the
  identifiers asked for.
\<close>

lemma rendered_ids_canonical:
  assumes "fst (retrieve_related_objects_by_ids iter s ids OrmPublication_cls) = Inr c"
    and "primary_key OrmPublication_cls s" and "finite ids"
    and "\<forall>i\<in>ids. \<forall>n. integer_of_text s i = Some n \<longrightarrow> i = str_int n"
  shows "rendered_ids c = ids"
proof -
  note r = retrieve_Inr_rows [OF assms(1-3)]
  have m: "read_as s i = Some (id_attr OrmPublication_cls x)
             \<longleftrightarrow> (\<exists>n. OrmPublication.id x = Some n \<and> integer_of_text s i = Some n)" for i x
    by (cases "OrmPublication.id x") (auto simp: read_as_def id_attr_classes py_id_def)
  have "rendered_ids c = {str_int n | n. \<exists>x\<in>set c. OrmPublication.id x = Some n}"
    by (rule rendered_ids_eq)
  also have "\<dots> = ids"
  proof (intro equalityI subsetI)
    fix i
    assume "i \<in> {str_int n | n. \<exists>x\<in>set c. OrmPublication.id x = Some n}"
    then obtain n x where x: "x \<in> set c" "OrmPublication.id x = Some n" "i = str_int n"
      by auto
    then obtain j where j: "j \<in> ids" "integer_of_text s j = Some n"
      using r(2) by (auto simp: m)
    then have "j = str_int n"
      using assms(4) by blast
    then show "i \<in> ids"
      using x(3) j(1) by simp
  next
    fix i
    assume i: "i \<in> ids"
    then obtain x n where x: "x \<in> set c" "OrmPublication.id x = Some n"
      "integer_of_text s i = Some n"
      using r(3) by (auto simp: m)
    then have "i = str_int n"
      using assms(4) i by blast
    then show "i \<in> {str_int n | n. \<exists>x\<in>set c. OrmPublication.id x = Some n}"
      using x by auto
  qed
  finally show ?thesis .
qed

lemma retrieve_empty: "fst (retrieve_related_objects_by_ids iter s {} cls) = Inr rows \<Longrightarrow> rows = []"
  by (simp add: retrieve_related_objects_by_ids_def)

text \<open>
  C2, as the code has it. For a dataset that validation accepts, with no
  \<^verbatim>\<open>has_parts\<close> and no \<^verbatim>\<open>is_part\<close>: when the conversion to the internal record
  succeeds, converting the result back succeeds and gives the dataset with every field
  as it was but the citations, which are the set of the decimal strings of the
  identifiers of the publications linked (the empty set when the citations were embedded
  records). The result is the dataset itself when the citations were given as
  identifiers, each the decimal string of the integer that the store reads in it, and
  the publication table has an integer primary key.
\<close>

theorem round_trip:
  assumes "enumerates iter"
    and "AIoDDataset_init raw = Inr aiod"
    and "AIoDDataset.has_parts aiod = {}" and "AIoDDataset.is_part aiod = {}"
    and "fst (aiod_to_orm iter s aiod) = Inr orm"
  shows "orm_to_aiod orm
           = Inr (aiod\<lparr>AIoDDataset.citations := CitationIds (rendered_ids (OrmDataset.citations orm))\<rparr>)
         \<and> (\<forall>ids. AIoDDataset.citations aiod = CitationIds ids
                 \<and> primary_key OrmPublication_cls s
                 \<and> (\<forall>i\<in>ids. \<forall>n. integer_of_text s i = Some n \<longrightarrow> i = str_int n)
               \<longrightarrow> orm_to_aiod orm = Inr aiod)"
proof -
  have con: "AIoDDataset_constraints aiod"
    using assms(2) by (rule AIoDDataset_init_constraints)
  have fin: "finite (AIoDDataset.alternate_names aiod)" "finite (AIoDDataset.keywords aiod)"
    using AIoDDataset_init_finite [OF assms(2)] by simp_all
  obtain l c h p where orm: "orm = fst (build_orm iter (s\<lparr>lookups := l\<rparr>) aiod c h p)"
    and c: "case AIoDDataset.citations aiod of
              CitationRecords ps \<Rightarrow> c = []
            | CitationIds ids \<Rightarrow>
                fst (retrieve_related_objects_by_ids iter s ids OrmPublication_cls) = Inr c"
    and h: "fst (retrieve_related_objects_by_ids iter s (AIoDDataset.has_parts aiod)
                   OrmDataset_cls) = Inr h"
    and p: "fst (retrieve_related_objects_by_ids iter s (AIoDDataset.is_part aiod)
                   OrmDataset_cls) = Inr p"
    using aiod_to_orm_Inr [OF assms(5)] by blast
  have hp: "h = []" "p = []"
    using h p assms(3,4) by (simp_all add: retrieve_empty)
  have oc: "OrmDataset.citations orm = c"
    by (simp add: orm build_orm_eq)
  have c': "case AIoDDataset.citations aiod of
              CitationRecords ps \<Rightarrow> c = []
            | CitationIds ids \<Rightarrow>
                fst (retrieve_related_objects_by_ids iter s ids OrmPublication_cls) = Inr c
                  \<and> finite ids"
    using c AIoDDataset_init_finite_citations [OF assms(2)]
    by (auto split: citations_field.splits)
  have cit: "citations_validator [Field ''citations'']
               (CitationIdList (map (\<lambda>citation. py_id (OrmPublication.id citation)) c))
             = Inr (CitationIds (rendered_ids c))"
    using c' by (rule citations_back)
  have an: "set (iter (AIoDDataset.alternate_names aiod)) = AIoDDataset.alternate_names aiod"
    and kw: "set (iter (AIoDDataset.keywords aiod)) = AIoDDataset.keywords aiod"
    using assms(1) fin by (simp_all add: enumerates_def)
  have ds: "list_all AIoDDistribution_constraints (AIoDDataset.distributions aiod)"
    using con by (simp add: AIoDDataset_constraints_def)
  have main: "orm_to_aiod orm
                = Inr (aiod\<lparr>AIoDDataset.citations := CitationIds (rendered_ids c)\<rparr>)"
    using con ds assms(3,4)
    by (simp add: orm hp orm_to_aiod_def build_orm_eq AIoDDataset_init_def Let_def
         AIoDDataset_constraints_def first_error_distributions
         validate_each_distributions_round_trip measured_values_back cit an kw
         required_ok optional_ok optional_exact_ok license_back alternate_names_back
         keywords_back comp_def set_str_validator_def validate_each_PyStr AIoDDataset.equality)
  have exact: "orm_to_aiod orm = Inr aiod"
    if "AIoDDataset.citations aiod = CitationIds ids \<and> primary_key OrmPublication_cls s
        \<and> (\<forall>i\<in>ids. \<forall>n. integer_of_text s i = Some n \<longrightarrow> i = str_int n)" for ids
  proof -
    have r: "fst (retrieve_related_objects_by_ids iter s ids OrmPublication_cls) = Inr c"
      and f: "finite ids"
      using c' that by simp_all
    have "rendered_ids c = ids"
      using r that f by (intro rendered_ids_canonical [of iter s ids c]) simp_all
    then have "aiod\<lparr>AIoDDataset.citations := CitationIds (rendered_ids c)\<rparr> = aiod"
      using that by simp
    then show ?thesis
      using main by simp
  qed
  show ?thesis
  proof (intro conjI allI impI)
    show "orm_to_aiod orm
            = Inr (aiod\<lparr>AIoDDataset.citations :=
                CitationIds (rendered_ids (OrmDataset.citations orm))\<rparr>)"
      using main by (simp add: oc)
  next
    fix ids
    assume "AIoDDataset.citations aiod = CitationIds ids \<and> primary_key OrmPublication_cls s
        \<and> (\<forall>i\<in>ids. \<forall>n. integer_of_text s i = Some n \<longrightarrow> i = str_int n)"
    then show "orm_to_aiod orm = Inr aiod"
      by (rule exact)
  qed
qed

lemma AIoDDataset_init_dset1_cited_input: "AIoDDataset_init dset1_cited_input = Inr dset1_cited"
  by (simp add: AIoDDataset_init_def dset1_cited_input_def dset1_input_def too_long_name_def
      dset1_cited_def dset1_def required_def optional_def constr_def max_length_check_def
      set_str_validator_def citations_validator_def)

lemma AIoDDataset_init_dset1_cited_01_input:
  "AIoDDataset_init dset1_cited_01_input = Inr dset1_cited_01"
  by (simp add: AIoDDataset_init_def dset1_cited_01_input_def dset1_cited_input_def
      dset1_input_def too_long_name_def dset1_cited_01_def dset1_cited_def dset1_def required_def
      optional_def constr_def max_length_check_def set_str_validator_def citations_validator_def)

lemma AIoDDataset_init_dset1_embedded_input:
  "AIoDDataset_init dset1_embedded_input = Inr dset1_embedded"
  by (simp add: AIoDDataset_init_def dset1_embedded_input_def dset1_cited_input_def
      dset1_input_def too_long_name_def dset1_embedded_def dset1_cited_def dset1_def required_def
      optional_def constr_def max_length_check_def set_str_validator_def citations_validator_def
      AIoDPublication_init_def paper_1_def)

lemma retrieve_publication_1:
  "fst (retrieve_related_objects_by_ids sorted_list_of_set session_1 {''1''} OrmPublication_cls)
     = Inr [publication_1]"
  "fst (retrieve_related_objects_by_ids sorted_list_of_set session_1 {''01''} OrmPublication_cls)
     = Inr [publication_1]"
  by (simp_all add: retrieve_related_objects_by_ids_def session_1_def empty_session_def
      publication_1_def OrmPublication_cls_def id_in_def py_id_def decimal_integer_examples)

lemma build_orm_cited:
  "fst (build_orm sorted_list_of_set (session_1\<lparr>lookups := l\<rparr>)
          (dset1_cited\<lparr>AIoDDataset.citations := x\<rparr>) c [] [])
     = orm_cited\<lparr>OrmDataset.citations := c\<rparr>"
  by (simp add: build_orm_def OrmLicense_as_unique_def OrmKeyword_as_unique_def as_unique_def
      fresh_id_def dset1_cited_def dset1_def session_1_def empty_session_def orm_cited_def
      case_prod_unfold Let_def)

lemma aiod_to_orm_cited:
  "fst (aiod_to_orm sorted_list_of_set session_1 dset1_cited) = Inr orm_cited"
  "fst (aiod_to_orm sorted_list_of_set session_1 dset1_cited_01) = Inr orm_cited"
  "fst (aiod_to_orm sorted_list_of_set session_1 dset1_embedded) = Inr orm_uncited"
proof -
  have e: "AIoDDataset.has_parts (dset1_cited\<lparr>AIoDDataset.citations := x\<rparr>) = {}"
    "AIoDDataset.is_part (dset1_cited\<lparr>AIoDDataset.citations := x\<rparr>) = {}" for x
    by (simp_all add: dset1_cited_def dset1_def)
  have o: "orm_cited\<lparr>OrmDataset.citations := [publication_1]\<rparr> = orm_cited"
    by (simp add: orm_cited_def)
  have "fst (aiod_to_orm sorted_list_of_set session_1
          (dset1_cited\<lparr>AIoDDataset.citations := CitationIds {''1''}\<rparr>)) = Inr orm_cited"
    using retrieve_publication_1(1)
    by (simp add: aiod_to_orm_def case_prod_unfold e retrieve_snd_lookups
        retrieve_related_objects_by_ids_def [of _ _ "{}"] build_orm_cited o)
  moreover have "dset1_cited\<lparr>AIoDDataset.citations := CitationIds {''1''}\<rparr> = dset1_cited"
    by (simp add: dset1_cited_def)
  ultimately show "fst (aiod_to_orm sorted_list_of_set session_1 dset1_cited) = Inr orm_cited"
    by simp
  show "fst (aiod_to_orm sorted_list_of_set session_1 dset1_cited_01) = Inr orm_cited"
    using retrieve_publication_1(2) unfolding dset1_cited_01_def
    by (simp add: aiod_to_orm_def case_prod_unfold e retrieve_snd_lookups
        retrieve_related_objects_by_ids_def [of _ _ "{}"] build_orm_cited o)
  have s: "session_1\<lparr>lookups := []\<rparr> = session_1"
    by (simp add: session_1_def empty_session_def)
  have b: "fst (build_orm sorted_list_of_set session_1
                  (dset1_cited\<lparr>AIoDDataset.citations := x\<rparr>) c [] [])
             = orm_cited\<lparr>OrmDataset.citations := c\<rparr>" for x c
    using build_orm_cited [of "[]" x c] by (simp only: s)
  have "fst (aiod_to_orm sorted_list_of_set session_1 dset1_embedded)
          = Inr (fst (build_orm sorted_list_of_set session_1
              (dset1_cited\<lparr>AIoDDataset.citations := CitationRecords [paper_1]\<rparr>) [] [] []))"
    unfolding dset1_embedded_def
    by (simp add: aiod_to_orm_def case_prod_unfold Let_def e
        retrieve_related_objects_by_ids_def [of _ _ "{}"])
  then show "fst (aiod_to_orm sorted_list_of_set session_1 dset1_embedded) = Inr orm_uncited"
    by (simp only: b orm_uncited_def)
qed

lemma orm_to_aiod_cited:
  "orm_to_aiod orm_cited = Inr dset1_cited" "orm_to_aiod orm_uncited = Inr dset1_uncited"
  by (simp_all add: orm_to_aiod_def orm_uncited_def orm_cited_def dset1_uncited_def dset1_cited_def
      dset1_def AIoDDataset_init_def required_def optional_def constr_def max_length_check_def
      set_str_validator_def citations_validator_def publication_1_def py_id_def str_int_1)

theorem round_trip_witness:
  "enumerates sorted_list_of_set
   \<and> AIoDDataset_init dset1_cited_input = Inr dset1_cited
   \<and> AIoDDataset.has_parts dset1_cited = {} \<and> AIoDDataset.is_part dset1_cited = {}
   \<and> fst (aiod_to_orm sorted_list_of_set session_1 dset1_cited) = Inr orm_cited
   \<and> AIoDDataset.citations dset1_cited = CitationIds {''1''}
   \<and> primary_key OrmPublication_cls session_1
   \<and> integer_of_text session_1 ''1'' = Some 1 \<and> str_int 1 = ''1''
   \<and> orm_to_aiod orm_cited = Inr dset1_cited"
proof -
  have e: "AIoDDataset.has_parts dset1_cited = {}" "AIoDDataset.is_part dset1_cited = {}"
    by (simp_all add: dset1_cited_def dset1_def)
  have c: "AIoDDataset.citations dset1_cited = CitationIds {''1''}"
    by (simp add: dset1_cited_def)
  have i: "integer_of_text session_1 ''1'' = Some 1"
    by (simp add: integer_of_text_examples decimal_integer_examples)
  have "orm_to_aiod orm_cited = Inr dset1_cited"
    using round_trip [OF enumerates_sorted_list_of_set AIoDDataset_init_dset1_cited_input e
        aiod_to_orm_cited(1)] c primary_key_session_1 i str_int_1
    by auto
  then show ?thesis
    using enumerates_sorted_list_of_set AIoDDataset_init_dset1_cited_input e aiod_to_orm_cited(1)
      c primary_key_session_1 i str_int_1
    by simp
qed

text \<open>
  C2, as claimed, fails. In the store that has the publication 1, the dataset whose
  citations are the identifier \<^verbatim>\<open>'01'\<close> is converted (the store finds the publication
  1 under \<^verbatim>\<open>'01'\<close>), and comes back with the citations \<^verbatim>\<open>{'1'}\<close>; the dataset
  whose citations are an embedded publication record is converted, and comes back with
  no citations.
\<close>

theorem round_trip_not_exact:
  "AIoDDataset_init dset1_cited_01_input = Inr dset1_cited_01
   \<and> AIoDDataset.has_parts dset1_cited_01 = {} \<and> AIoDDataset.is_part dset1_cited_01 = {}
   \<and> AIoDDataset.citations dset1_cited_01 = CitationIds {''01''}
   \<and> primary_key OrmPublication_cls session_1
   \<and> fst (aiod_to_orm sorted_list_of_set session_1 dset1_cited_01) = Inr orm_cited
   \<and> orm_to_aiod orm_cited = Inr dset1_cited
   \<and> AIoDDataset.citations dset1_cited = CitationIds {''1''}
   \<and> dset1_cited \<noteq> dset1_cited_01
   \<and> AIoDDataset_init dset1_embedded_input = Inr dset1_embedded
   \<and> AIoDDataset.has_parts dset1_embedded = {} \<and> AIoDDataset.is_part dset1_embedded = {}
   \<and> AIoDDataset.citations dset1_embedded = CitationRecords [paper_1]
   \<and> fst (aiod_to_orm sorted_list_of_set session_1 dset1_embedded) = Inr orm_uncited
   \<and> orm_to_aiod orm_uncited = Inr dset1_uncited
   \<and> AIoDDataset.citations dset1_uncited = CitationIds {}
   \<and> dset1_uncited \<noteq> dset1_embedded"
proof -
  have c: "AIoDDataset.citations dset1_cited_01 = CitationIds {''01''}"
    "AIoDDataset.citations dset1_cited = CitationIds {''1''}"
    "AIoDDataset.citations dset1_embedded = CitationRecords [paper_1]"
    "AIoDDataset.citations dset1_uncited = CitationIds {}"
    by (simp_all add: dset1_cited_01_def dset1_cited_def dset1_embedded_def dset1_uncited_def)
  have e: "AIoDDataset.has_parts dset1_cited_01 = {}" "AIoDDataset.is_part dset1_cited_01 = {}"
    "AIoDDataset.has_parts dset1_embedded = {}" "AIoDDataset.is_part dset1_embedded = {}"
    by (simp_all add: dset1_cited_01_def dset1_embedded_def dset1_cited_def dset1_def)
  have n: "dset1_cited \<noteq> dset1_cited_01" "dset1_uncited \<noteq> dset1_embedded"
    using c by auto
  show ?thesis
    using AIoDDataset_init_dset1_cited_01_input AIoDDataset_init_dset1_embedded_input
      primary_key_session_1 aiod_to_orm_cited(2,3) orm_to_aiod_cited c e n
    by simp
qed

section \<open>Properties of the set-valued fields\<close>

lemma AIoDDataset_init_sets:
  assumes "AIoDDataset_init raw = Inr a"
  shows "set_str_validator [Field ''has_parts''] (AIoDDataset_input.has_parts raw)
           = Inr (AIoDDataset.has_parts a)"
    and "set_str_validator [Field ''is_part''] (AIoDDataset_input.is_part raw)
           = Inr (AIoDDataset.is_part a)"
    and "set_str_validator [Field ''alternate_names''] (AIoDDataset_input.alternate_names raw)
           = Inr (AIoDDataset.alternate_names a)"
    and "set_str_validator [Field ''keywords''] (AIoDDataset_input.keywords raw)
           = Inr (AIoDDataset.keywords a)"
  using assms
  by (auto simp: AIoDDataset_init_def map_sum_Inr_iff both_Inr_iff case_prod_unfold)

text \<open>
  C10. Validation turns a list of strings given for a set field into the set of its
  elements, so a string given twice is one element: the fields \<^verbatim>\<open>has_parts\<close>,
  \<^verbatim>\<open>is_part\<close>, \<^verbatim>\<open>alternate_names\<close> and \<^verbatim>\<open>keywords\<close> of every dataset that
  validation accepts are the sets of the strings given for them, whatever a conversion
  does with the dataset afterwards. A conversion that returns a record (dataset table
  with an integer primary key) links no identifier and no name twice: the related rows
  have distinct identifiers and are as many as the set has elements, and the alternate
  names and keywords have distinct names, which are the elements of the set.
\<close>

theorem set_fields_without_duplicates:
  assumes "enumerates iter" and "AIoDDataset_init raw = Inr aiod"
  shows "set_str_validator l (map PyStr xs) = Inr (set xs)
         \<and> (AIoDDataset_input.has_parts raw = map PyStr hs \<longrightarrow> AIoDDataset.has_parts aiod = set hs)
         \<and> (AIoDDataset_input.is_part raw = map PyStr ps \<longrightarrow> AIoDDataset.is_part aiod = set ps)
         \<and> (AIoDDataset_input.alternate_names raw = map PyStr ns
              \<longrightarrow> AIoDDataset.alternate_names aiod = set ns)
         \<and> (AIoDDataset_input.keywords raw = map PyStr ks \<longrightarrow> AIoDDataset.keywords aiod = set ks)
         \<and> (primary_key OrmDataset_cls s \<and> fst (aiod_to_orm iter s aiod) = Inr orm \<longrightarrow>
              distinct (map (id_attr OrmDataset_cls) (OrmDataset.has_parts orm))
              \<and> length (OrmDataset.has_parts orm) = card (AIoDDataset.has_parts aiod)
              \<and> distinct (map (id_attr OrmDataset_cls) (OrmDataset.is_part orm))
              \<and> length (OrmDataset.is_part orm) = card (AIoDDataset.is_part aiod)
              \<and> distinct (map OrmAlternateName.name (OrmDataset.alternate_names orm))
              \<and> set (map OrmAlternateName.name (OrmDataset.alternate_names orm))
                  = AIoDDataset.alternate_names aiod
              \<and> distinct (map OrmKeyword.name (OrmDataset.keywords orm))
              \<and> set (map OrmKeyword.name (OrmDataset.keywords orm)) = AIoDDataset.keywords aiod)"
proof -
  note sets = AIoDDataset_init_sets [OF assms(2)]
  note fin = AIoDDataset_init_finite [OF assms(2)]
  have 0: "set_str_validator l (map PyStr xs) = Inr (set xs)"
    by (rule set_str_validator_PyStr)
  have 1: "AIoDDataset_input.has_parts raw = map PyStr hs \<longrightarrow> AIoDDataset.has_parts aiod = set hs"
    using sets(1) by (auto simp: set_str_validator_PyStr)
  have 2: "AIoDDataset_input.is_part raw = map PyStr ps \<longrightarrow> AIoDDataset.is_part aiod = set ps"
    using sets(2) by (auto simp: set_str_validator_PyStr)
  have 3: "AIoDDataset_input.alternate_names raw = map PyStr ns
             \<longrightarrow> AIoDDataset.alternate_names aiod = set ns"
    using sets(3) by (auto simp: set_str_validator_PyStr)
  have 4: "AIoDDataset_input.keywords raw = map PyStr ks \<longrightarrow> AIoDDataset.keywords aiod = set ks"
    using sets(4) by (auto simp: set_str_validator_PyStr)
  have 5: "distinct (map (id_attr OrmDataset_cls) (OrmDataset.has_parts orm))
           \<and> length (OrmDataset.has_parts orm) = card (AIoDDataset.has_parts aiod)
           \<and> distinct (map (id_attr OrmDataset_cls) (OrmDataset.is_part orm))
           \<and> length (OrmDataset.is_part orm) = card (AIoDDataset.is_part aiod)
           \<and> distinct (map OrmAlternateName.name (OrmDataset.alternate_names orm))
           \<and> set (map OrmAlternateName.name (OrmDataset.alternate_names orm))
               = AIoDDataset.alternate_names aiod
           \<and> distinct (map OrmKeyword.name (OrmDataset.keywords orm))
           \<and> set (map OrmKeyword.name (OrmDataset.keywords orm)) = AIoDDataset.keywords aiod"
    if a: "primary_key OrmDataset_cls s \<and> fst (aiod_to_orm iter s aiod) = Inr orm"
  proof -
    obtain l c h p where orm: "orm = fst (build_orm iter (s\<lparr>lookups := l\<rparr>) aiod c h p)"
      and h: "fst (retrieve_related_objects_by_ids iter s (AIoDDataset.has_parts aiod)
                     OrmDataset_cls) = Inr h"
      and p: "fst (retrieve_related_objects_by_ids iter s (AIoDDataset.is_part aiod)
                     OrmDataset_cls) = Inr p"
      using aiod_to_orm_Inr [of iter s aiod orm] a by blast
    have pk: "primary_key OrmDataset_cls s"
      using a by simp
    have conv: "aiod_to_orm iter s aiod = (Inr orm, snd (aiod_to_orm iter s aiod))"
      using a by (metis prod.collapse)
    have an: "set (iter (AIoDDataset.alternate_names aiod)) = AIoDDataset.alternate_names aiod"
        "distinct (iter (AIoDDataset.alternate_names aiod))"
      and kw: "set (iter (AIoDDataset.keywords aiod)) = AIoDDataset.keywords aiod"
        "distinct (iter (AIoDDataset.keywords aiod))"
      using assms(1) fin by (simp_all add: enumerates_def)
    have oh: "OrmDataset.has_parts orm = h" and op: "OrmDataset.is_part orm = p"
      by (simp_all add: orm build_orm_eq)
    have "distinct (map (id_attr OrmDataset_cls) h)" "length h = card (AIoDDataset.has_parts aiod)"
      using retrieve_Inr_rows(1) [OF h pk fin(1)] retrieve_Inr(2) [OF h fin(1)] by simp_all
    moreover have "distinct (map (id_attr OrmDataset_cls) p)"
      "length p = card (AIoDDataset.is_part aiod)"
      using retrieve_Inr_rows(1) [OF p pk fin(2)] retrieve_Inr(2) [OF p fin(2)] by simp_all
    moreover have "distinct (map OrmAlternateName.name (OrmDataset.alternate_names orm))"
      "set (map OrmAlternateName.name (OrmDataset.alternate_names orm))
         = AIoDDataset.alternate_names aiod"
      using an by (simp_all only: alternate_names_of_conversion(1) [OF conv])
    moreover have "distinct (map OrmKeyword.name (OrmDataset.keywords orm))"
      "set (map OrmKeyword.name (OrmDataset.keywords orm)) = AIoDDataset.keywords aiod"
      using kw by (simp_all only: keywords_of_conversion(1) [OF conv])
    ultimately show ?thesis
      by (simp add: oh op)
  qed
  show ?thesis
    using 0 1 2 3 4 5 by blast
qed

lemma AIoDDataset_init_duplicates_input: "AIoDDataset_init duplicates_input = Inr duplicates_dataset"
  by (simp add: AIoDDataset_init_def duplicates_input_def dset1_input_def too_long_name_def
      duplicates_dataset_def dset1_def required_def optional_def constr_def max_length_check_def
      set_str_validator_def citations_validator_def)

lemma AIoDDataset_init_missing_twice_input: "AIoDDataset_init missing_twice_input = Inr missing_twice"
  by (simp add: AIoDDataset_init_def missing_twice_input_def dset1_input_def too_long_name_def
      missing_twice_def dset1_def required_def optional_def constr_def max_length_check_def
      set_str_validator_def citations_validator_def)

lemma aiod_to_orm_duplicates_dataset:
  "fst (aiod_to_orm sorted_list_of_set session_2 duplicates_dataset)
     = Inr (fst (build_orm sorted_list_of_set
         (session_2\<lparr>lookups := [(''OrmDataset'', {''1''})]\<rparr>) duplicates_dataset
         [] [dataset_row_1] []))"
  by (simp add: aiod_to_orm_def retrieve_related_objects_by_ids_def session_2_def
      empty_session_def dataset_row_1_def OrmDataset_cls_def id_in_def py_id_def
      decimal_integer_examples duplicates_dataset_def dset1_def case_prod_unfold Let_def)

lemma aiod_to_orm_missing_twice:
  "fst (aiod_to_orm sorted_list_of_set session_2 missing_twice)
     = Inl (HTTPException 404
         (''Dataset parts '' @ apostrophe @ ''missing-1'' @ apostrophe
            @ '' not found in the database.''))"
  by (simp add: aiod_to_orm_def retrieve_related_objects_by_ids_def session_2_def
      empty_session_def dataset_row_1_def OrmDataset_cls_def id_in_def py_id_def
      decimal_integer_examples missing_twice_def dset1_def case_prod_unfold Let_def)

theorem set_fields_without_duplicates_witness:
  "enumerates sorted_list_of_set
   \<and> AIoDDataset_init duplicates_input = Inr duplicates_dataset
   \<and> primary_key OrmDataset_cls session_2
   \<and> fst (aiod_to_orm sorted_list_of_set session_2 duplicates_dataset)
       = Inr (fst (build_orm sorted_list_of_set
           (session_2\<lparr>lookups := [(''OrmDataset'', {''1''})]\<rparr>) duplicates_dataset
           [] [dataset_row_1] []))
   \<and> AIoDDataset_input.has_parts duplicates_input = map PyStr [''1'', ''1'']
   \<and> AIoDDataset.has_parts duplicates_dataset = {''1''}
   \<and> AIoDDataset_input.keywords duplicates_input = map PyStr [''nlp'', ''nlp'']
   \<and> AIoDDataset.keywords duplicates_dataset = {''nlp''}
   \<and> length (OrmDataset.has_parts (fst (build_orm sorted_list_of_set
         (session_2\<lparr>lookups := [(''OrmDataset'', {''1''})]\<rparr>) duplicates_dataset
         [] [dataset_row_1] []))) = 1
   \<and> distinct (map OrmKeyword.name (OrmDataset.keywords (fst (build_orm sorted_list_of_set
         (session_2\<lparr>lookups := [(''OrmDataset'', {''1''})]\<rparr>) duplicates_dataset
         [] [dataset_row_1] []))))
   \<and> set (map OrmKeyword.name (OrmDataset.keywords (fst (build_orm sorted_list_of_set
         (session_2\<lparr>lookups := [(''OrmDataset'', {''1''})]\<rparr>) duplicates_dataset
         [] [dataset_row_1] [])))) = {''nlp''}
   \<and> AIoDDataset_init missing_twice_input = Inr missing_twice
   \<and> AIoDDataset_input.has_parts missing_twice_input = map PyStr [''missing-1'', ''missing-1'']
   \<and> AIoDDataset.has_parts missing_twice = {''missing-1''}
   \<and> fst (aiod_to_orm sorted_list_of_set session_2 missing_twice)
       = Inl (HTTPException 404
           (''Dataset parts '' @ apostrophe @ ''missing-1'' @ apostrophe
              @ '' not found in the database.''))"
proof -
  have r: "AIoDDataset_input.has_parts duplicates_input = map PyStr [''1'', ''1'']"
    "AIoDDataset_input.keywords duplicates_input = map PyStr [''nlp'', ''nlp'']"
    "AIoDDataset_input.has_parts missing_twice_input = map PyStr [''missing-1'', ''missing-1'']"
    by (simp_all add: duplicates_input_def missing_twice_input_def)
  have a: "AIoDDataset.has_parts duplicates_dataset = {''1''}"
    "AIoDDataset.keywords duplicates_dataset = {''nlp''}"
    "AIoDDataset.has_parts missing_twice = {''missing-1''}"
    by (simp_all add: duplicates_dataset_def missing_twice_def)
  show ?thesis
    using set_fields_without_duplicates [OF enumerates_sorted_list_of_set
        AIoDDataset_init_duplicates_input, of _ _ "[''1'', ''1'']" _ _ "[''nlp'', ''nlp'']"
        session_2 "fst (build_orm sorted_list_of_set
           (session_2\<lparr>lookups := [(''OrmDataset'', {''1''})]\<rparr>) duplicates_dataset
           [] [dataset_row_1] [])"]
      set_fields_without_duplicates [OF enumerates_sorted_list_of_set
        AIoDDataset_init_missing_twice_input, of _ _ "[''missing-1'', ''missing-1'']"]
      enumerates_sorted_list_of_set AIoDDataset_init_duplicates_input primary_key_session_2
      aiod_to_orm_duplicates_dataset AIoDDataset_init_missing_twice_input
      aiod_to_orm_missing_twice r a
    by simp
qed

section \<open>Properties of the registration\<close>

text \<open>
  C8. Registering a dataset whose (name, node) pair is the pair of a row of the dataset
  table fails with status 409; the message gives the identifier of a row with that pair,
  and the session is left as it was, so no row is created.
\<close>

theorem register_duplicate_conflict:
  assumes "r \<in> set (dataset_table s)"
    and "OrmDataset_columns.name r = AIoDDataset.name aiod"
    and "OrmDataset_columns.node r = AIoDDataset.node aiod"
  shows "\<exists>existing. existing \<in> set (dataset_table s)
           \<and> OrmDataset_columns.name existing = AIoDDataset.name aiod
           \<and> OrmDataset_columns.node existing = AIoDDataset.node aiod
           \<and> register_dataset iter s aiod
               = (Inl (HTTPException 409
                    (''There already exists a dataset with the same platform and name, with id=''
                       @ id_text (OrmDataset_columns.id existing) @ ''.'')),
                  s)"
proof -
  let ?P = "\<lambda>r. OrmDataset_columns.name r = AIoDDataset.name aiod
                \<and> OrmDataset_columns.node r = AIoDDataset.node aiod"
  have "find ?P (dataset_table s) \<noteq> None"
    using assms by (auto simp: find_None_iff)
  then obtain e where e: "find ?P (dataset_table s) = Some e"
    by auto
  then have "e \<in> set (dataset_table s)" and "?P e"
    by (auto simp: find_Some_iff)
  then show ?thesis
    using e by (auto simp: register_dataset_def)
qed

theorem register_duplicate_conflict_witness:
  "dataset_row_1 \<in> set (dataset_table session_2)
   \<and> OrmDataset_columns.name dataset_row_1 = AIoDDataset.name dset1
   \<and> OrmDataset_columns.node dataset_row_1 = AIoDDataset.node dset1
   \<and> register_dataset sorted_list_of_set session_2 dset1
       = (Inl (HTTPException 409
            ''There already exists a dataset with the same platform and name, with id=1.''),
          session_2)
   \<and> dataset_table (snd (register_dataset sorted_list_of_set session_2 dset1)) = [dataset_row_1]"
proof -
  have m: "dataset_row_1 \<in> set (dataset_table session_2)"
    "OrmDataset_columns.name dataset_row_1 = AIoDDataset.name dset1"
    "OrmDataset_columns.node dataset_row_1 = AIoDDataset.node dset1"
    by (simp_all add: session_2_def dataset_row_1_def dset1_def)
  have t: "dataset_table session_2 = [dataset_row_1]"
    by (simp add: session_2_def)
  have i: "id_text (OrmDataset_columns.id dataset_row_1) = ''1''"
    by (simp add: id_text_def dataset_row_1_def str_int_1)
  show ?thesis
    using register_duplicate_conflict [OF m, of sorted_list_of_set] m
    by (auto simp: t i)
qed

text \<open>A registration without conflict, as \<^verbatim>\<open>test_happy_path\<close> has it.\<close>

lemma register_new_dataset:
  "dataset_table (snd (register_dataset sorted_list_of_set session_2
      (dset1\<lparr>AIoDDataset.name := ''dset2''\<rparr>)))
     = [dataset_row_1,
        OrmDataset_columns.truncate
          (fst (build_orm sorted_list_of_set session_2 (dset1\<lparr>AIoDDataset.name := ''dset2''\<rparr>)
                  [] [] [])
           \<lparr>OrmDataset_columns.id := Some 2\<rparr>)]"
  by (simp add: register_dataset_def session_2_def empty_session_def dataset_row_1_def dset1_def
      aiod_to_orm_def retrieve_related_objects_by_ids_def case_prod_unfold Let_def next_id_def
      fresh_id_def build_orm_eq)

section \<open>Properties of the publication connector\<close>

text \<open>
  The node a publication source gives is read off its class and nothing else: two
  sources of one class give the same node, whatever else distinguishes them, and a table
  that lists every class under the node \<^verbatim>\<open>NodeName.from_class\<close> gives it is followed
  by every source.
\<close>

lemma node_name_of_class:
  "class_of a = class_of b \<Longrightarrow> node_name from_class a = node_name from_class b"
  by (simp add: node_name_def)

lemma node_name_follows_table_of_classes:
  "table (class_of self) = from_class (class_of self) \<Longrightarrow> node_name from_class self = table (class_of self)"
  by (simp add: node_name_def)

lemma node_name_zenodo:
  "zenodo_connector 1 \<noteq> zenodo_connector 2"
  "node_name example_from_class (zenodo_connector 1) = ''zenodo''"
  "node_name example_from_class (zenodo_connector 2) = ''zenodo''"
  by (simp_all add: zenodo_connector_def example_from_class_def node_name_def)

end
